(* ===== verification/Prelude.thy ===== *)
theory Prelude
  imports Complex_Main "HOL-Library.Sublist"
begin

text \<open>
  Shared vocabulary of the development: the JavaScript primitives that the
  extension's code in \<^verbatim>\<open>src/background.js\<close>, \<^verbatim>\<open>src/content.js\<close> and
  \<^verbatim>\<open>src/analyticsRoutes.js\<close> relies on, written as executable HOL functions.
  \<^item> strings are \<open>char list\<close>s; \<open>String.prototype.startsWith\<close>,
    \<open>includes\<close>, \<open>toLowerCase\<close> (ASCII letters) and \<open>replace\<close> with a string
    pattern (first occurrence only) are \<open>starts_with\<close>, \<open>js_includes\<close>,
    \<open>js_lower\<close> and \<open>replace_first\<close>; the first two are proved equal to the
    library's \<open>prefix\<close> and \<open>sublist\<close>;
  \<^item> a JavaScript number is \<open>jsnum\<close>: a finite value, NaN or a signed
    infinity, with the IEEE rules for \<open>+\<close>, \<open>*\<close>, \<open>/\<close>, \<open>Math.min\<close>,
    \<open>Math.max\<close> and \<open>Math.round\<close> on the special values (finite values are
    exact reals: rounding error of doubles is not modelled, nor is negative zero);
  \<^item> \<open>Math.round\<close> on a finite value is \<open>js_round\<close>, \<open>\<lfloor>x + 1/2\<rfloor>\<close>
    (halves round up, also for negative numbers).
  The collection \<open>js_simps\<close> holds the evaluation rules of these primitives;
  \<open>frame_simps\<close> collects, theory by theory, the fields of the tracker state
  that an operation leaves alone.
\<close>

named_theorems js_simps "evaluation rules of the JavaScript primitives"
named_theorems frame_simps "frame rules: the tracker fields an operation leaves unchanged"

section \<open>Strings\<close>

fun starts_with :: "string \<Rightarrow> string \<Rightarrow> bool" where
  "starts_with s [] = True"
| "starts_with [] (c # cs) = False"
| "starts_with (a # as) (c # cs) = (a = c \<and> starts_with as cs)"

text \<open>\<open>s.includes(p)\<close>: some suffix of \<open>s\<close> starts with \<open>p\<close>.\<close>

fun js_includes :: "string \<Rightarrow> string \<Rightarrow> bool" where
  "js_includes [] p = (p = [])"
| "js_includes (c # cs) p = (starts_with (c # cs) p \<or> js_includes cs p)"

definition lower_char :: "char \<Rightarrow> char" where
  "lower_char c = (if (65::nat) \<le> of_char c \<and> of_char c \<le> (90::nat) then char_of (of_char c + (32::nat)) else c)"

definition js_lower :: "string \<Rightarrow> string" where
  "js_lower s = map lower_char s"

text \<open>\<open>s.replace(pat, rep)\<close> with a string \<open>pat\<close>: the first occurrence only.\<close>

fun replace_first :: "string \<Rightarrow> string \<Rightarrow> string \<Rightarrow> string" where
  "replace_first pat rep [] = (if pat = [] then rep else [])"
| "replace_first pat rep (c # cs) =
     (if starts_with (c # cs) pat then rep @ drop (length pat) (c # cs)
      else c # replace_first pat rep cs)"

text \<open>Decimal rendering of a number in a template literal.\<close>

fun show_nat :: "nat \<Rightarrow> string" where
  "show_nat n = (if n < 10 then [char_of (48 + n)] else show_nat (n div 10) @ [char_of (48 + n mod 10)])"

definition show_int :: "int \<Rightarrow> string" where
  "show_int i = (if i < 0 then CHR ''-'' # show_nat (nat (- i)) else show_nat (nat i))"

section \<open>Exceptions\<close>

text \<open>What a \<open>throw\<close> or a rejected promise of the code carries: a
  \<open>TypeError\<close> with its message (calling a method the class does not define),
  a network failure of \<open>fetch\<close>, or a rejection of a browser API call.\<close>

datatype js_error = TypeError string | NetworkError | BrowserError string

section \<open>Numbers\<close>

definition js_round :: "real \<Rightarrow> int" where
  "js_round x = \<lfloor>x + 1 / 2\<rfloor>"

datatype jsnum = Fin real | NaN | Inf bool

fun js_add :: "jsnum \<Rightarrow> jsnum \<Rightarrow> jsnum" where
  "js_add (Fin a) (Fin b) = Fin (a + b)"
| "js_add (Inf p) (Fin b) = Inf p"
| "js_add (Fin a) (Inf q) = Inf q"
| "js_add (Inf p) (Inf q) = (if p = q then Inf p else NaN)"
| "js_add _ _ = NaN"

fun js_neg :: "jsnum \<Rightarrow> jsnum" where
  "js_neg (Fin a) = Fin (- a)"
| "js_neg (Inf p) = Inf (\<not> p)"
| "js_neg NaN = NaN"

definition js_sub :: "jsnum \<Rightarrow> jsnum \<Rightarrow> jsnum" where
  "js_sub x y = js_add x (js_neg y)"

fun js_mul :: "jsnum \<Rightarrow> jsnum \<Rightarrow> jsnum" where
  "js_mul (Fin a) (Fin b) = Fin (a * b)"
| "js_mul (Fin a) (Inf q) = (if a = 0 then NaN else Inf (q = (0 < a)))"
| "js_mul (Inf p) (Fin b) = (if b = 0 then NaN else Inf (p = (0 < b)))"
| "js_mul (Inf p) (Inf q) = Inf (p = q)"
| "js_mul _ _ = NaN"

fun js_div :: "jsnum \<Rightarrow> jsnum \<Rightarrow> jsnum" where
  "js_div (Fin a) (Fin b) =
     (if b = 0 then (if a = 0 then NaN else Inf (0 < a)) else Fin (a / b))"
| "js_div (Fin a) (Inf q) = Fin 0"
| "js_div (Inf p) (Fin b) = (if b = 0 then Inf p else Inf (p = (0 < b)))"
| "js_div _ _ = NaN"

text \<open>\<open>Math.min\<close> and \<open>Math.max\<close> of two numbers: NaN if either is NaN.\<close>

fun js_min :: "jsnum \<Rightarrow> jsnum \<Rightarrow> jsnum" where
  "js_min (Fin a) (Fin b) = Fin (min a b)"
| "js_min (Fin a) (Inf q) = (if q then Fin a else Inf False)"
| "js_min (Inf p) (Fin b) = (if p then Fin b else Inf False)"
| "js_min (Inf p) (Inf q) = Inf (p \<and> q)"
| "js_min _ _ = NaN"

fun js_max :: "jsnum \<Rightarrow> jsnum \<Rightarrow> jsnum" where
  "js_max (Fin a) (Fin b) = Fin (max a b)"
| "js_max (Fin a) (Inf q) = (if q then Inf True else Fin a)"
| "js_max (Inf p) (Fin b) = (if p then Inf True else Fin b)"
| "js_max (Inf p) (Inf q) = Inf (p \<or> q)"
| "js_max _ _ = NaN"

text \<open>The relational operators \<open><\<close> and \<open><=\<close> on numbers: false whenever NaN is
  involved.\<close>

fun js_less :: "jsnum \<Rightarrow> jsnum \<Rightarrow> bool" where
  "js_less (Fin a) (Fin b) = (a < b)"
| "js_less (Fin a) (Inf p) = p"
| "js_less (Inf p) (Fin b) = (\<not> p)"
| "js_less (Inf p) (Inf q) = (\<not> p \<and> q)"
| "js_less _ _ = False"

definition js_le :: "jsnum \<Rightarrow> jsnum \<Rightarrow> bool" where
  "js_le x y \<longleftrightarrow> x \<noteq> NaN \<and> y \<noteq> NaN \<and> \<not> js_less y x"

fun js_math_round :: "jsnum \<Rightarrow> jsnum" where
  "js_math_round (Fin a) = Fin (of_int (js_round a))"
| "js_math_round x = x"

text \<open>A number read as an integer in range, the shape every score of the
  tracker has when it is not NaN.\<close>

definition int_in :: "int \<Rightarrow> int \<Rightarrow> jsnum \<Rightarrow> bool" where
  "int_in lo hi x \<longleftrightarrow> (\<exists>i. x = Fin (of_int i) \<and> lo \<le> i \<and> i \<le> hi)"

text \<open>The remainder operator \<open>%\<close> on integers: truncating, the sign of the
  dividend; for a non-zero divisor.\<close>

definition js_rem :: "int \<Rightarrow> int \<Rightarrow> int" where
  "js_rem a b = sgn a * (\<bar>a\<bar> mod \<bar>b\<bar>)"

declare js_sub_def [js_simps] js_round_def [js_simps] js_lower_def [js_simps]
  lower_char_def [js_simps] show_int_def [js_simps]

section \<open>Lemmas on strings\<close>

lemma starts_with_prefix: "starts_with s p \<longleftrightarrow> prefix p s"
  by (induction s p rule: starts_with.induct) auto

lemma js_includes_sublist: "js_includes s p \<longleftrightarrow> sublist p s"
  by (induction s p rule: js_includes.induct) (auto simp: sublist_Cons_right starts_with_prefix)

lemma js_includes_append_left: "js_includes t p \<Longrightarrow> js_includes (s @ t) p"
  by (auto simp: js_includes_sublist intro: sublist_order.order.trans [OF _ sublist_append_leftI])

lemma js_includes_append_right: "js_includes s p \<Longrightarrow> js_includes (s @ t) p"
  by (auto simp: js_includes_sublist intro: sublist_order.order.trans [OF _ sublist_append_rightI])

lemma js_includes_set: "js_includes s p \<Longrightarrow> set p \<subseteq> set s"
  by (simp add: js_includes_sublist set_mono_sublist)

lemma map_snd_zip_len: "length xs = length ys \<Longrightarrow> map (f \<circ> snd) (zip xs ys) = map f ys"
  by (induction xs ys rule: list_induct2) simp_all

lemma map_filter_id_ne: "Some a \<in> set xs \<Longrightarrow> List.map_filter id xs \<noteq> []"
  by (induction xs) (auto simp: map_filter_simps split: option.splits)

lemma replace_last_char: "c \<notin> set s \<Longrightarrow> replace_first [c] [] (s @ [c]) = s"
  by (induction s) auto

lemma replace_first_set: "set (replace_first pat rep s) \<subseteq> set s \<union> set rep"
proof (induction s)
  case Nil
  then show ?case by auto
next
  case (Cons c cs)
  then show ?case by (auto dest: in_set_dropD)
qed

lemma lower_char_idem [simp]: "lower_char (lower_char c) = lower_char c"
  by (simp add: lower_char_def)

lemma js_lower_idem [simp]: "js_lower (js_lower s) = js_lower s"
  by (simp add: js_lower_def comp_def)

lemma js_lower_append [simp]: "js_lower (s @ t) = js_lower s @ js_lower t"
  by (simp add: js_lower_def)

lemma sublist_map: "sublist p s \<Longrightarrow> sublist (map f p) (map f s)"
proof -
  assume "sublist p s"
  then obtain ps ss where "s = ps @ p @ ss" by (auto simp: sublist_def)
  then have "map f s = map f ps @ map f p @ map f ss" by simp
  then show ?thesis by (metis sublist_appendI)
qed

lemma js_lower_Cons: "js_lower (c # s) = lower_char c # js_lower s"
  by (simp add: js_lower_def)

lemma js_includes_lower:
  "js_includes s p \<Longrightarrow> js_includes (js_lower s) (js_lower p)"
  by (simp add: js_includes_sublist js_lower_def sublist_map)

section \<open>Lemmas on numbers\<close>

lemma js_round_int [simp]: "js_round (of_int i) = i"
  by (simp add: js_round_def)

lemma js_round_numeral [simp]: "js_round (numeral n) = numeral n"
  using js_round_int [of "numeral n"] by simp

lemma js_round_lower: "of_int a \<le> x \<Longrightarrow> a \<le> js_round x"
  unfolding js_round_def by (rule le_floor_iff [THEN iffD2]) linarith

lemma js_round_upper: "x \<le> of_int b \<Longrightarrow> js_round x \<le> b"
  unfolding js_round_def by (rule floor_le_iff [THEN iffD2]) linarith

lemma js_round_mono: "x \<le> y \<Longrightarrow> js_round x \<le> js_round y"
  unfolding js_round_def by (rule floor_mono) simp

text \<open>\<open>Math.max(lo, Math.min(hi, Math.round(x)))\<close>: NaN stays NaN, every other
  value lands on an integer of \<open>[lo, hi]\<close>.\<close>

lemma js_clamp_round:
  assumes "lo \<le> hi"
  shows "js_max (Fin (of_int lo)) (js_min (Fin (of_int hi)) (js_math_round x)) = NaN
    \<or> int_in lo hi (js_max (Fin (of_int lo)) (js_min (Fin (of_int hi)) (js_math_round x)))"
proof (cases x)
  case (Fin a)
  let ?i = "max lo (min hi (js_round a))"
  have "js_max (Fin (of_int lo)) (js_min (Fin (of_int hi)) (js_math_round x)) = Fin (of_int ?i)"
    using Fin by (simp add: of_int_max of_int_min)
  moreover have "lo \<le> ?i \<and> ?i \<le> hi" using assms by simp
  ultimately show ?thesis unfolding int_in_def by blast
next
  case NaN
  then show ?thesis by simp
next
  case (Inf p)
  then show ?thesis using assms by (cases p) (auto simp: int_in_def)
qed

lemma js_clamp_round_Fin:
  "js_max (Fin (of_int lo)) (js_min (Fin (of_int hi)) (js_math_round (Fin a)))
     = Fin (of_int (max lo (min hi (js_round a))))"
  by (simp add: of_int_max of_int_min)

lemma int_in_Fin [simp]: "int_in lo hi (Fin (of_int i)) \<longleftrightarrow> lo \<le> i \<and> i \<le> hi"
  by (simp add: int_in_def)

lemma js_rem_nonneg [simp]: "0 \<le> a \<Longrightarrow> 0 < b \<Longrightarrow> js_rem a b = a mod b"
  by (cases "a = 0") (simp_all add: js_rem_def)

lemma sum_upto_Suc: "2 * sum_list (map (\<lambda>i. k + int (Suc i)) [0..<n]) = int n * (2 * k + int n + 1)"
  by (induction n) (simp_all add: algebra_simps)

lemma sum_nonneg_filter:
  "\<forall>a \<in> set acts. 0 \<le> f a \<Longrightarrow> sum_list (map (f :: _ \<Rightarrow> real) (filter P acts)) \<le> sum_list (map f acts)"
  by (induction acts) (auto intro: add_increasing)

lemma percent_bounds: "0 < t \<Longrightarrow> p \<le> t \<Longrightarrow> 0 \<le> p \<Longrightarrow> 0 \<le> p / t * 100 \<and> p / t * 100 \<le> (100::real)"
proof -
  assume "0 < t" "p \<le> t" "0 \<le> p"
  then have le: "p / t \<le> 1" and ge: "0 \<le> p / t" by simp_all
  have "p / t * 100 \<le> 1 * 100" using le by (rule mult_right_mono) simp
  moreover have "0 \<le> p / t * 100" using ge by (rule mult_nonneg_nonneg) simp
  ultimately show ?thesis by linarith
qed

lemma int_in_not_NaN: "int_in lo hi x \<Longrightarrow> x \<noteq> NaN"
  by (auto simp: int_in_def)

end
