(* ===== verification/Classifier.thy ===== *)
theory Classifier
  imports Prelude
begin

text \<open>
  The domain classifier of \<^verbatim>\<open>src/background.js\<close>: \<open>categorizeWebsite\<close>
  (lines 163--184) with its rule table \<open>getCategories\<close> (186--216), the matcher
  \<open>matchesPattern\<close> (218--227), the fallback \<open>analyzePageContent\<close> (229--241),
  and the URL helpers \<open>extractDomain\<close> (584--590) and \<open>isSystemUrl\<close>
  (592--597). \<open>new URL(u).hostname\<close>, a browser library call, is modelled from the
  WHATWG URL standard by \<open>url_hostname\<close> (simplified: no percent-decoding, IDNA,
  IPv4 normalisation, port validation or check of forbidden host code points).

  \<open>getCustomCategory\<close>, called on line 170, is not defined anywhere in the
  source: its behaviour is the parameter \<open>custom\<close>, \<open>None\<close> for the method
  that does not exist (the call throws a TypeError) and \<open>Some tbl\<close> for a
  per-domain override table as the spec describes it.
\<close>

section \<open>Categories and rules\<close>

datatype category = Highly_productive | Productive | Neutral | Unproductive | Break

primrec category_name :: "category \<Rightarrow> string" where
  "category_name Highly_productive = ''highly_productive''"
| "category_name Productive = ''productive''"
| "category_name Neutral = ''neutral''"
| "category_name Unproductive = ''unproductive''"
| "category_name Break = ''break''"

text \<open>A rule object has either a \<open>domains\<close> or a \<open>keywords\<close> array, and a
  \<open>weight\<close> that no code reads.\<close>

datatype pattern = Domains "string list" real | Keywords "string list" real

text \<open>\<open>Object.entries\<close> of the table returns the categories in the order the
  object literal declares them.\<close>

definition getCategories :: "(category \<times> pattern list) list" where
  "getCategories =
    [(Highly_productive,
       [Domains [''github.com'', ''gitlab.com'', ''bitbucket.org''] 1.0,
        Domains [''stackoverflow.com'', ''stackexchange.com''] 0.95,
        Domains [''developer.mozilla.org'', ''w3schools.com''] 0.9,
        Keywords [''documentation'', ''api'', ''tutorial'', ''learn''] 0.85]),
     (Productive,
       [Domains [''google.com/search'', ''bing.com'', ''duckduckgo.com''] 0.8,
        Domains [''medium.com'', ''dev.to'', ''hashnode.com''] 0.75,
        Domains [''coursera.org'', ''udemy.com'', ''edx.org''] 0.9,
        Keywords [''work'', ''project'', ''task'', ''productivity''] 0.7]),
     (Neutral,
       [Domains [''gmail.com'', ''outlook.com'', ''slack.com''] 0.6,
        Domains [''drive.google.com'', ''dropbox.com'', ''onedrive.com''] 0.65,
        Keywords [''news'', ''weather'', ''maps''] 0.5]),
     (Unproductive,
       [Domains [''facebook.com'', ''twitter.com'', ''instagram.com''] 0.2,
        Domains [''youtube.com'', ''netflix.com'', ''twitch.tv''] 0.1,
        Domains [''reddit.com'', ''pinterest.com'', ''tiktok.com''] 0.15,
        Keywords [''game'', ''entertainment'', ''meme'', ''funny''] 0.25]),
     (Break,
       [Domains [''spotify.com'', ''music.apple.com'', ''soundcloud.com''] 0.4,
        Keywords [''meditation'', ''relaxation'', ''break''] 0.6])]"

fun matchesPattern :: "string \<Rightarrow> string \<Rightarrow> pattern \<Rightarrow> bool" where
  "matchesPattern domain url (Domains ds w) = list_ex (\<lambda>d. js_includes domain d) ds"
| "matchesPattern domain url (Keywords ks w) =
     (let text = js_lower (domain @ '' '' @ url) in list_ex (\<lambda>k. js_includes text k) ks)"

definition analyzePageContent :: "string \<Rightarrow> category" where
  "analyzePageContent url =
    (let urlLower = js_lower url in
     if js_includes urlLower ''learn'' \<or> js_includes urlLower ''tutorial'' \<or> js_includes urlLower ''doc''
     then Productive
     else if js_includes urlLower ''game'' \<or> js_includes urlLower ''fun'' \<or> js_includes urlLower ''entertainment''
     then Unproductive
     else Neutral)"

text \<open>The two nested \<open>for\<close> loops of \<open>categorizeWebsite\<close>: the inner one over
  the rules of one category, the outer one over the categories; both return at
  the first match.\<close>

fun scan_patterns :: "string \<Rightarrow> string \<Rightarrow> category \<Rightarrow> pattern list \<Rightarrow> category option" where
  "scan_patterns domain url c [] = None"
| "scan_patterns domain url c (p # ps) =
     (if matchesPattern domain url p then Some c else scan_patterns domain url c ps)"

fun scan_categories :: "string \<Rightarrow> string \<Rightarrow> (category \<times> pattern list) list \<Rightarrow> category option" where
  "scan_categories domain url [] = None"
| "scan_categories domain url ((c, ps) # cs) =
     (case scan_patterns domain url c ps of
        Some r \<Rightarrow> Some r
      | None \<Rightarrow> scan_categories domain url cs)"

section \<open>URLs\<close>

definition is_ascii_alpha :: "char \<Rightarrow> bool" where
  "is_ascii_alpha c \<longleftrightarrow> (let n = of_char c :: nat in (65 \<le> n \<and> n \<le> 90) \<or> (97 \<le> n \<and> n \<le> 122))"

definition is_scheme_char :: "char \<Rightarrow> bool" where
  "is_scheme_char c \<longleftrightarrow> is_ascii_alpha c \<or> (let n = of_char c :: nat in 48 \<le> n \<and> n \<le> 57)
     \<or> c \<in> set ''+-.''"

text \<open>The scheme of an absolute URL: a letter, then letters, digits, \<open>+\<close>,
  \<open>-\<close> or \<open>.\<close>, up to the first colon. No scheme: \<open>new URL\<close> throws.\<close>

definition split_scheme :: "string \<Rightarrow> (string \<times> string) option" where
  "split_scheme u =
    (let sch = takeWhile (\<lambda>c. c \<noteq> CHR '':'') u; rest = dropWhile (\<lambda>c. c \<noteq> CHR '':'') u in
     if rest = [] \<or> sch = [] \<or> \<not> is_ascii_alpha (hd sch) \<or> \<not> list_all is_scheme_char sch then None
     else Some (js_lower sch, tl rest))"

definition authority_host :: "string \<Rightarrow> string" where
  "authority_host auth =
    (let hostport = (if CHR ''@'' \<in> set auth then rev (takeWhile (\<lambda>c. c \<noteq> CHR ''@'') (rev auth)) else auth)
     in takeWhile (\<lambda>c. c \<noteq> CHR '':'') hostport)"

text \<open>A Windows drive letter, which a \<open>file\<close> URL's host position may hold and
  which leaves the host empty.\<close>

definition drive_letter :: "string \<Rightarrow> bool" where
  "drive_letter h \<longleftrightarrow> length h = 2 \<and> is_ascii_alpha (h ! 0) \<and> (h ! 1 = CHR '':'' \<or> h ! 1 = CHR ''|'')"

definition url_hostname :: "string \<Rightarrow> string option" where
  "url_hostname u =
    (case split_scheme u of
       None \<Rightarrow> None
     | Some (sch, rest) \<Rightarrow>
         if sch = ''file'' then
           (if 2 \<le> length rest \<and> list_all (\<lambda>c. c = CHR ''/'' \<or> c = CHR 0x5C) (take 2 rest)
            then (let h = js_lower (takeWhile (\<lambda>c. c \<notin> set ''/?#'' \<and> c \<noteq> CHR 0x5C) (drop 2 rest))
                  in Some (if h = ''localhost'' \<or> drive_letter h then [] else h))
            else Some [])
         else if sch \<in> set [''http'', ''https'', ''ws'', ''wss'', ''ftp''] then
           (let r = dropWhile (\<lambda>c. c = CHR ''/'' \<or> c = CHR 0x5C) rest;
                host = authority_host (takeWhile (\<lambda>c. c \<notin> set ''/?#'' \<and> c \<noteq> CHR 0x5C) r)
            in if host = [] then None else Some (js_lower host))
         else if starts_with rest ''//'' then
           Some (authority_host (takeWhile (\<lambda>c. c \<notin> set ''/?#'') (drop 2 rest)))
         else Some [])"

definition extractDomain :: "string \<Rightarrow> string" where
  "extractDomain url =
    (case url_hostname url of None \<Rightarrow> ''unknown'' | Some h \<Rightarrow> replace_first ''www.'' [] h)"

definition isSystemUrl :: "string \<Rightarrow> bool" where
  "isSystemUrl url \<longleftrightarrow>
     starts_with url ''chrome://'' \<or> starts_with url ''chrome-extension://''
     \<or> starts_with url ''moz-extension://'' \<or> starts_with url ''about:''"

section \<open>The classifier\<close>

type_synonym custom_table = "string \<rightharpoonup> category"

definition categorizeWebsite :: "custom_table option \<Rightarrow> string \<Rightarrow> js_error + category" where
  "categorizeWebsite custom url =
    (let domain = extractDomain url; categories = getCategories in
     case custom of
       None \<Rightarrow> Inl (TypeError ''this.getCustomCategory is not a function'')
     | Some tbl \<Rightarrow>
         (case tbl domain of
            Some c \<Rightarrow> Inr c
          | None \<Rightarrow>
              (case scan_categories domain url categories of
                 Some c \<Rightarrow> Inr c
               | None \<Rightarrow> Inr (analyzePageContent url))))"

text \<open>The classifier as the spec states it (\S 4.1): the override, else the
  category of the first category in declared order that has a matching rule,
  else the content heuristic.\<close>

definition classify_spec :: "custom_table \<Rightarrow> string \<Rightarrow> category" where
  "classify_spec tbl url =
    (let d = extractDomain url in
     case tbl d of
       Some c \<Rightarrow> c
     | None \<Rightarrow>
         (case find (\<lambda>(c, ps). \<exists>p \<in> set ps. matchesPattern d url p) getCategories of
            Some (c, ps) \<Rightarrow> c
          | None \<Rightarrow> analyzePageContent url))"

section \<open>Lemmas\<close>

lemma scan_patterns_Some: "scan_patterns d u c ps = (if \<exists>p \<in> set ps. matchesPattern d u p then Some c else None)"
  by (induction ps) auto

lemma scan_categories_find:
  "scan_categories d u cs = map_option fst (find (\<lambda>(c, ps). \<exists>p \<in> set ps. matchesPattern d u p) cs)"
  by (induction d u cs rule: scan_categories.induct) (auto simp: scan_patterns_Some)

lemma scan_categories_in: "scan_categories d u cs = Some c \<Longrightarrow> c \<in> fst ` set cs"
  by (induction d u cs rule: scan_categories.induct) (auto split: option.splits if_splits simp: scan_patterns_Some)

lemma authority_host_set: "set (authority_host auth) \<subseteq> set auth"
  unfolding authority_host_def Let_def by (auto dest!: set_takeWhileD)

lemma lower_char_slash: "lower_char c = CHR ''/'' \<longleftrightarrow> c = CHR ''/''"
proof
  assume a: "lower_char c = CHR ''/''"
  have "of_char (lower_char c) = (47::nat)" unfolding a by simp
  then have "of_char c = (47::nat)" by (auto simp: lower_char_def of_char_of split: if_splits)
  moreover have "of_char (CHR ''/'') = (47::nat)" by simp
  ultimately show "c = CHR ''/''" by (metis of_char_eq_iff)
next
  assume "c = CHR ''/''"
  then show "lower_char c = CHR ''/''" by (simp add: lower_char_def)
qed

lemma js_lower_no_slash: "CHR ''/'' \<notin> set s \<Longrightarrow> CHR ''/'' \<notin> set (js_lower s)"
  by (auto simp: js_lower_def) (metis lower_char_slash)

lemma url_hostname_no_slash: "url_hostname u = Some h \<Longrightarrow> CHR ''/'' \<notin> set h"
proof -
  have take: "CHR ''/'' \<notin> set (authority_host (takeWhile P r))" if "\<not> P (CHR ''/'')" for P r
    using that authority_host_set by (fastforce dest: set_takeWhileD)
  then have take_lower: "CHR ''/'' \<notin> set (js_lower (authority_host (takeWhile P r)))"
    if "\<not> P (CHR ''/'')" for P r
    using that by (simp add: js_lower_no_slash)
  have plain: "CHR ''/'' \<notin> set (js_lower (takeWhile P r))" if "\<not> P (CHR ''/'')" for P r
    using that js_lower_no_slash [of "takeWhile P r"] by (auto dest: set_takeWhileD)
  assume "url_hostname u = Some h"
  then show ?thesis
    unfolding url_hostname_def
    by (auto simp: Let_def take take_lower plain split: option.splits if_splits)
qed

lemmas url_defs = extractDomain_def url_hostname_def split_scheme_def authority_host_def
  is_ascii_alpha_def is_scheme_char_def drive_letter_def

lemma extractDomain_no_slash: "CHR ''/'' \<notin> set (extractDomain u)"
proof (cases "url_hostname u")
  case None
  then show ?thesis by (simp add: extractDomain_def)
next
  case (Some h)
  then have "CHR ''/'' \<notin> set h" by (rule url_hostname_no_slash)
  then show ?thesis using Some replace_first_set [of "''www.''" "[]" h] by (auto simp: extractDomain_def)
qed

lemma keyword_in_url:
  assumes "js_includes (js_lower u) k" and "k \<in> set ks"
  shows "matchesPattern d u (Keywords ks w)"
proof -
  have "js_includes ((js_lower d @ [lower_char (CHR '' '')]) @ js_lower u) k"
    using assms(1) by (rule js_includes_append_left)
  then show ?thesis using assms(2) by (auto simp: list_ex_iff js_lower_Cons)
qed

theorem classify_spec_examples:
  "categorizeWebsite (Some Map.empty) ''https://github.com/foo'' = Inr Highly_productive
   \<and> categorizeWebsite (Some Map.empty) ''https://youtube.com/watch?v=1'' = Inr Unproductive
   \<and> categorizeWebsite (Some Map.empty) ''https://unknown-site.example'' = Inr Neutral"
  by (simp add: categorizeWebsite_def url_defs js_simps getCategories_def analyzePageContent_def)

section \<open>Properties\<close>

text \<open>C7: the two nested first-match loops of \<open>categorizeWebsite\<close> implement the classifier of the spec (\S 4.1): with an override table the result is the override, else the first category in declared order with a matching rule, else the content heuristic; in particular it never throws.\<close>

theorem categorize_refines_spec: "categorizeWebsite (Some tbl) u = Inr (classify_spec tbl u)"
  by (simp add: categorizeWebsite_def classify_spec_def scan_categories_find Let_def
      split: option.splits)

theorem categorize_refines_spec_witness:
  "categorizeWebsite (Some Map.empty) ''https://github.com/foo'' = Inr (classify_spec Map.empty ''https://github.com/foo'')"
  using categorize_refines_spec [of Map.empty "''https://github.com/foo''"] by simp

text \<open>C12: the productive rule \<open>google.com/search\<close> can never match, because it is tested against the host name, which has no slash: a Google search is classified neutral.\<close>

theorem google_search_rule_dead:
  "\<not> js_includes (extractDomain u) ''google.com/search''
   \<and> categorizeWebsite (Some Map.empty) ''https://www.google.com/search?q=isabelle'' = Inr Neutral"
proof
  show "\<not> js_includes (extractDomain u) ''google.com/search''"
    using extractDomain_no_slash [of u] js_includes_set [of "extractDomain u" "''google.com/search''"] by auto
next
  show "categorizeWebsite (Some Map.empty) ''https://www.google.com/search?q=isabelle'' = Inr Neutral"
    by (simp add: categorizeWebsite_def url_defs js_simps getCategories_def analyzePageContent_def)
qed

text \<open>C13: when no override and no rule matches, the fallback \<open>analyzePageContent\<close> decides on \<open>doc\<close> and \<open>fun\<close> alone: its tests for learn, tutorial, game and entertainment are dead, the keyword rules of the table have caught those URLs already.\<close>

theorem fallback_effective:
  assumes "tbl (extractDomain u) = None" and "scan_categories (extractDomain u) u getCategories = None"
  shows "categorizeWebsite (Some tbl) u =
    Inr (if js_includes (js_lower u) ''doc'' then Productive
         else if js_includes (js_lower u) ''fun'' then Unproductive else Neutral)"
proof -
  let ?d = "extractDomain u"
  have none: "\<forall>(c, ps) \<in> set getCategories. \<forall>p \<in> set ps. \<not> matchesPattern ?d u p"
    using assms(2) by (auto simp: scan_categories_find find_None_iff)
  have hp: "\<not> matchesPattern ?d u (Keywords [''documentation'', ''api'', ''tutorial'', ''learn''] 0.85)"
    using none by (simp add: getCategories_def)
  have up: "\<not> matchesPattern ?d u (Keywords [''game'', ''entertainment'', ''meme'', ''funny''] 0.25)"
    using none by (simp add: getCategories_def)
  have "\<not> js_includes (js_lower u) k" if "k \<in> {''learn'', ''tutorial''}" for k
  proof
    assume "js_includes (js_lower u) k"
    moreover have "k \<in> set [''documentation'', ''api'', ''tutorial'', ''learn'']" using that by auto
    ultimately have "matchesPattern ?d u (Keywords [''documentation'', ''api'', ''tutorial'', ''learn''] 0.85)"
      by (rule keyword_in_url)
    with hp show False by contradiction
  qed
  moreover have "\<not> js_includes (js_lower u) k" if "k \<in> {''game'', ''entertainment''}" for k
  proof
    assume "js_includes (js_lower u) k"
    moreover have "k \<in> set [''game'', ''entertainment'', ''meme'', ''funny'']" using that by auto
    ultimately have "matchesPattern ?d u (Keywords [''game'', ''entertainment'', ''meme'', ''funny''] 0.25)"
      by (rule keyword_in_url)
    with up show False by contradiction
  qed
  ultimately show ?thesis
    using assms by (simp add: categorizeWebsite_def analyzePageContent_def Let_def)
qed

theorem fallback_effective_witness:
  "Map.empty (extractDomain ''https://example.org/docs'') = (None :: category option)
   \<and> scan_categories (extractDomain ''https://example.org/docs'') ''https://example.org/docs'' getCategories = None
   \<and> categorizeWebsite (Some Map.empty) ''https://example.org/docs'' = Inr Productive"
proof -
  have s: "scan_categories (extractDomain ''https://example.org/docs'') ''https://example.org/docs'' getCategories = None"
    by (simp add: url_defs js_simps getCategories_def)
  have t: "Map.empty (extractDomain ''https://example.org/docs'') = (None :: category option)" by simp
  show ?thesis using s t fallback_effective [OF t s] by (simp add: js_simps)
qed

end
