(* ===== verification/Session_Data.thy ===== *)
theory Session_Data
  imports Classifier
begin

text \<open>
  The data the background tracker of \<^verbatim>\<open>src/background.js\<close> keeps: the session
  object built by \<open>startNewSession\<close> (lines 107--124) and completed by
  \<open>endCurrentSession\<close> (146--151), the settings object of the constructor (4--15)
  with the merge of \<open>updateSettings\<close> (630--633), the browser's tab object that
  \<open>chrome.tabs.get\<close> returns, and the activity report that \<^verbatim>\<open>src/content.js\<close>
  sends (lines 2--9, 40--43).

  Fields the session object only gets later (\<open>idleStartTime\<close>,
  \<open>lastBlurTime\<close>, \<open>endTime\<close>, \<open>duration\<close>, \<open>finalFocusScore\<close>,
  \<open>productivityScore\<close>) are options, \<open>None\<close> while the property is absent
  (\<open>delete\<close> makes it absent again). Times are milliseconds since the epoch as
  \<open>int\<close>; the scores computed with divisions are \<open>jsnum\<close>s, so that NaN is a value.
\<close>

record session =
  sessionId :: string
  tabId :: int
  url :: string
  domain :: string
  title :: string
  startTime :: int
  category :: category
  focusScore :: int
  activityScore :: int
  distractions :: int
  keystrokes :: int
  mouseMovements :: int
  scrolls :: int
  clicks :: int
  timeSpentActive :: int
  timeSpentIdle :: int
  idleStartTime :: "int option"
  lastBlurTime :: "int option"
  endTime :: "int option"
  duration :: "int option"
  finalFocusScore :: "jsnum option"
  productivityScore :: "jsnum option"

record settings =
  focusMode :: bool
  breakReminders :: bool
  deepWorkMode :: bool
  pomodoroTimer :: bool
  blockDistractions :: bool
  trackMouseMovement :: bool
  trackKeystrokes :: bool
  idleThreshold :: int
  breakInterval :: int
  pomodoroLength :: int

definition default_settings :: settings where
  "default_settings =
    \<lparr>focusMode = False, breakReminders = True, deepWorkMode = False, pomodoroTimer = False,
     blockDistractions = False, trackMouseMovement = True, trackKeystrokes = True,
     idleThreshold = 300000, breakInterval = 3000000, pomodoroLength = 1500000\<rparr>"

text \<open>A settings object sent by the popup or the options page: the properties it
  has (\<open>Some\<close>) override the current ones in \<open>{...this.settings, ...newSettings}\<close>.\<close>

record settings_patch =
  p_focusMode :: "bool option"
  p_breakReminders :: "bool option"
  p_deepWorkMode :: "bool option"
  p_pomodoroTimer :: "bool option"
  p_blockDistractions :: "bool option"
  p_trackMouseMovement :: "bool option"
  p_trackKeystrokes :: "bool option"
  p_idleThreshold :: "int option"
  p_breakInterval :: "int option"
  p_pomodoroLength :: "int option"

definition merge_settings :: "settings \<Rightarrow> settings_patch \<Rightarrow> settings" where
  "merge_settings s p =
    \<lparr>focusMode = case_option (focusMode s) id (p_focusMode p),
     breakReminders = case_option (breakReminders s) id (p_breakReminders p),
     deepWorkMode = case_option (deepWorkMode s) id (p_deepWorkMode p),
     pomodoroTimer = case_option (pomodoroTimer s) id (p_pomodoroTimer p),
     blockDistractions = case_option (blockDistractions s) id (p_blockDistractions p),
     trackMouseMovement = case_option (trackMouseMovement s) id (p_trackMouseMovement p),
     trackKeystrokes = case_option (trackKeystrokes s) id (p_trackKeystrokes p),
     idleThreshold = case_option (idleThreshold s) id (p_idleThreshold p),
     breakInterval = case_option (breakInterval s) id (p_breakInterval p),
     pomodoroLength = case_option (pomodoroLength s) id (p_pomodoroLength p)\<rparr>"

text \<open>A settings object written whole, every property present.\<close>

definition to_patch :: "settings \<Rightarrow> settings_patch" where
  "to_patch s =
    \<lparr>p_focusMode = Some (focusMode s), p_breakReminders = Some (breakReminders s),
     p_deepWorkMode = Some (deepWorkMode s), p_pomodoroTimer = Some (pomodoroTimer s),
     p_blockDistractions = Some (blockDistractions s), p_trackMouseMovement = Some (trackMouseMovement s),
     p_trackKeystrokes = Some (trackKeystrokes s), p_idleThreshold = Some (idleThreshold s),
     p_breakInterval = Some (breakInterval s), p_pomodoroLength = Some (pomodoroLength s)\<rparr>"

record tab =
  tab_id :: int
  tab_url :: "string option"
  tab_title :: "string option"
  tab_active :: bool

text \<open>The report of the content script: its whole \<open>activityData\<close> object,
  counters since the script was injected (not deltas).\<close>

record activity_data =
  a_keystrokes :: int
  a_mouseMovements :: int
  a_scrolls :: int
  a_clicks :: int
  a_activeTime :: int
  a_lastActivity :: int

text \<open>A JavaScript string is truthy when it is not empty.\<close>

definition truthy_str :: "string option \<Rightarrow> bool" where
  "truthy_str s \<longleftrightarrow> (case s of None \<Rightarrow> False | Some v \<Rightarrow> v \<noteq> [])"

text \<open>A timestamp property read in a condition (\<open>if (s.idleStartTime)\<close>): absent
  and \<open>0\<close> are both falsy.\<close>

definition truthy_time :: "int option \<Rightarrow> bool" where
  "truthy_time t \<longleftrightarrow> (case t of None \<Rightarrow> False | Some v \<Rightarrow> v \<noteq> 0)"

lemma merge_settings_empty:
  "merge_settings s \<lparr>p_focusMode = None, p_breakReminders = None, p_deepWorkMode = None,
     p_pomodoroTimer = None, p_blockDistractions = None, p_trackMouseMovement = None,
     p_trackKeystrokes = None, p_idleThreshold = None, p_breakInterval = None,
     p_pomodoroLength = None\<rparr> = s"
  by (simp add: merge_settings_def)

lemma merge_to_patch [simp]: "merge_settings s (to_patch t) = t"
  by (simp add: merge_settings_def to_patch_def)

end
