(* ===== verification/Scoring.thy ===== *)
theory Scoring
  imports Session_Data
begin

text \<open>
  The scoring functions of \<^verbatim>\<open>src/background.js\<close>: \<open>calculateActivityScore\<close>
  (lines 549--560), \<open>calculateFinalFocusScore\<close> (385--401) and
  \<open>calculateProductivityScore\<close> (403--416). They read the session object only;
  the activity score also reads the clock, given as \<open>now\<close>.

  The final focus score is computed in JavaScript numbers, NaN and the
  infinities included: when the session recorded neither active nor idle time,
  \<open>activityRatio\<close> is \<open>0 / 0\<close>, NaN, and so is the score. The lemmas below bound
  every score, show exactly when the final score is NaN, and evaluate the
  examples of the spec (\S 8).
\<close>

definition calculateActivityScore :: "session \<Rightarrow> int \<Rightarrow> int" where
  "calculateActivityScore s now =
    (let dur = now - startTime s in
     if dur < 60000 then 100
     else
       (let activityRate = real_of_int (keystrokes s + mouseMovements s + scrolls s) / (real_of_int dur / 60000) in
        if 30 \<le> activityRate \<and> activityRate \<le> 60 then 100
        else if 15 \<le> activityRate \<and> activityRate \<le> 90 then 80
        else if 5 \<le> activityRate \<and> activityRate \<le> 120 then 60
        else 40))"

text \<open>\<open>session.duration\<close> read as a number: an absent property is
  \<open>undefined\<close>, which arithmetic turns into NaN.\<close>

definition num_of :: "int option \<Rightarrow> jsnum" where
  "num_of v = (case v of None \<Rightarrow> NaN | Some i \<Rightarrow> Fin (of_int i))"

definition optimalLength :: int where
  "optimalLength = 25 * 60 * 1000"

definition calculateFinalFocusScore :: "session \<Rightarrow> jsnum" where
  "calculateFinalFocusScore s =
    (let score = Fin (of_int (focusScore s));
         activityRatio = js_div (Fin (of_int (timeSpentActive s)))
                                (Fin (of_int (timeSpentActive s + timeSpentIdle s)));
         score = js_mul score activityRatio;
         lengthFactor = js_min (Fin 1) (js_div (num_of (duration s)) (Fin (of_int optimalLength)));
         score = js_mul score (js_add (Fin 0.5) (js_mul (Fin 0.5) lengthFactor));
         score = js_sub score (Fin (of_int (distractions s * 5)))
     in js_max (Fin 0) (js_min (Fin 100) (js_math_round score)))"

primrec categoryScore :: "category \<Rightarrow> int" where
  "categoryScore Highly_productive = 100"
| "categoryScore Productive = 80"
| "categoryScore Neutral = 50"
| "categoryScore Unproductive = 20"
| "categoryScore Break = 40"

definition calculateProductivityScore :: "session \<Rightarrow> jsnum" where
  "calculateProductivityScore s =
    (let baseScore = categoryScore (category s);
         focusMultiplier = js_div (case finalFocusScore s of None \<Rightarrow> NaN | Some f \<Rightarrow> f) (Fin 100)
     in js_math_round (js_mul (Fin (of_int baseScore)) focusMultiplier))"

lemmas scoring_defs = calculateFinalFocusScore_def calculateProductivityScore_def num_of_def optimalLength_def

definition example_session :: session where
  "example_session =
    \<lparr>sessionId = ''session_0_x'', tabId = 1, url = ''https://github.com/foo'', domain = ''github.com'',
     title = ''foo'', startTime = 0, category = Productive, focusScore = 100, activityScore = 100,
     distractions = 0, keystrokes = 0, mouseMovements = 0, scrolls = 0, clicks = 0,
     timeSpentActive = 0, timeSpentIdle = 0, idleStartTime = None, lastBlurTime = None,
     endTime = None, duration = None, finalFocusScore = None, productivityScore = None\<rparr>"

section \<open>Lemmas\<close>

lemma categoryScore_range: "0 \<le> categoryScore c \<and> categoryScore c \<le> 100"
  by (cases c) simp_all

text \<open>The final score of a session with recorded activity and a duration, as
  a plain real-valued formula.\<close>

lemma final_focus_finite:
  assumes "timeSpentActive s + timeSpentIdle s \<noteq> 0" and "duration s = Some d"
  shows "calculateFinalFocusScore s =
    Fin (of_int (max 0 (min 100 (js_round
       (of_int (focusScore s) * (of_int (timeSpentActive s) / of_int (timeSpentActive s + timeSpentIdle s))
          * (1/2 + 1/2 * min 1 (of_int d / 1500000)) - of_int (distractions s * 5))))))"
proof -
  have den: "real_of_int (timeSpentActive s + timeSpentIdle s) \<noteq> 0"
    using assms(1) by simp
  show ?thesis
    using assms(2) den
    by (simp add: calculateFinalFocusScore_def num_of_def optimalLength_def Let_def
        js_sub_def js_clamp_round_Fin [symmetric] del: of_int_add)
qed

lemma activity_score_values: "calculateActivityScore s now \<in> {40, 60, 80, 100}"
  by (simp add: calculateActivityScore_def Let_def)

section \<open>Properties\<close>

text \<open>C4: whatever the session holds, the final focus score is NaN or an integer between 0 and 100.\<close>

theorem final_focus_range:
  "calculateFinalFocusScore s = NaN \<or> int_in 0 100 (calculateFinalFocusScore s)"
  using js_clamp_round [of 0 100] by (simp add: calculateFinalFocusScore_def Let_def)

text \<open>C5: with non-negative time accumulators and a duration, the final focus score is NaN exactly when the session recorded neither active nor idle time: \<open>activityRatio\<close> is then \<open>0 / 0\<close>. The spec (\S 4.2) treats that ratio as 1.\<close>

theorem final_focus_NaN_iff:
  assumes "0 \<le> timeSpentActive s" and "0 \<le> timeSpentIdle s" and "duration s = Some d"
  shows "calculateFinalFocusScore s = NaN \<longleftrightarrow> timeSpentActive s = 0 \<and> timeSpentIdle s = 0"
proof (cases "timeSpentActive s + timeSpentIdle s = 0")
  case True
  with assms(1,2) have "timeSpentActive s = 0" and "timeSpentIdle s = 0" by simp_all
  then show ?thesis
    by (simp add: calculateFinalFocusScore_def Let_def js_sub_def)
next
  case False
  then show ?thesis
    using final_focus_finite [OF False assms(3)] by auto
qed

theorem final_focus_NaN_iff_witness:
  "0 \<le> timeSpentActive (example_session\<lparr>duration := Some 60000\<rparr>)
   \<and> 0 \<le> timeSpentIdle (example_session\<lparr>duration := Some 60000\<rparr>)
   \<and> duration (example_session\<lparr>duration := Some 60000\<rparr>) = Some 60000
   \<and> calculateFinalFocusScore (example_session\<lparr>duration := Some 60000\<rparr>) = NaN"
proof -
  have a: "0 \<le> timeSpentActive (example_session\<lparr>duration := Some 60000\<rparr>)" by (simp add: example_session_def)
  have b: "0 \<le> timeSpentIdle (example_session\<lparr>duration := Some 60000\<rparr>)" by (simp add: example_session_def)
  have c: "duration (example_session\<lparr>duration := Some 60000\<rparr>) = Some 60000" by simp
  show ?thesis using a b c final_focus_NaN_iff [OF a b c] by (simp add: example_session_def)
qed

text \<open>C6: a final focus score in range gives a productivity score in range: an integer between 0 and 100.\<close>

theorem productivity_range:
  assumes "finalFocusScore s = Some f" and "int_in 0 100 f"
  shows "int_in 0 100 (calculateProductivityScore s)"
proof -
  obtain i where f: "f = Fin (of_int i)" and i: "0 \<le> i" "i \<le> 100"
    using assms(2) by (auto simp: int_in_def)
  let ?b = "categoryScore (category s)"
  have b: "0 \<le> ?b" "?b \<le> 100" using categoryScore_range by auto
  have lo: "0 \<le> real_of_int ?b * (real_of_int i / 100)"
    using b i by simp
  have "real_of_int ?b * (real_of_int i / 100) \<le> 100 * (100 / 100)"
    using b i by (intro mult_mono) simp_all
  then have hi: "real_of_int ?b * (real_of_int i / 100) \<le> of_int 100" by simp
  have "calculateProductivityScore s = Fin (of_int (js_round (real_of_int ?b * (real_of_int i / 100))))"
    using assms(1) f by (simp add: calculateProductivityScore_def)
  moreover have "0 \<le> js_round (real_of_int ?b * (real_of_int i / 100))"
    using lo by (intro js_round_lower) simp
  moreover have "js_round (real_of_int ?b * (real_of_int i / 100)) \<le> 100"
    using hi by (rule js_round_upper)
  ultimately show ?thesis by simp
qed

theorem productivity_range_witness:
  "finalFocusScore (example_session\<lparr>finalFocusScore := Some (Fin 80)\<rparr>) = Some (Fin 80)
   \<and> int_in 0 100 (Fin 80)
   \<and> int_in 0 100 (calculateProductivityScore (example_session\<lparr>finalFocusScore := Some (Fin 80)\<rparr>))"
proof -
  have a: "finalFocusScore (example_session\<lparr>finalFocusScore := Some (Fin 80)\<rparr>) = Some (Fin 80)" by simp
  have b: "int_in 0 100 (Fin 80)" unfolding int_in_def by (rule exI [of _ 80]) simp
  show ?thesis using a b productivity_range [OF a b] by simp
qed

end
