(* ===== verification/Aggregation.thy ===== *)
theory Aggregation
  imports Scoring
begin

text \<open>
  The daily aggregate of \<^verbatim>\<open>src/background.js\<close>, \<open>updateDailyAggregates\<close>
  (lines 429--455): the record stored under \<open>daily_<date>\<close> is read (or created
  empty), updated with the ended session and written back.

  \<open>chrome.storage.local\<close> stores finite numbers exactly; a member whose value
  is NaN or an infinity is dropped by the storage's value conversion, and
  reads back as \<open>undefined\<close>, which is NaN in arithmetic. The average focus is
  therefore a \<open>real option\<close> (\<open>None\<close>: the member is absent), written with
  \<open>store_num\<close> and read with \<open>load_num\<close>. The sums are reals: the tracker
  ends every session with an integer \<open>duration\<close> (\<open>endCurrentSession\<close>), so
  they stay finite; \<open>json_arith\<close> (0 for a non-finite sum) only gives the
  model a value on sessions that were never ended, which no caller passes.
\<close>

record daily_data =
  date :: string
  totalTime :: real
  productiveTime :: real
  sessions :: int
  averageFocus :: "real option"
  categories :: "category \<rightharpoonup> real"

type_synonym daily_store = "string \<rightharpoonup> daily_data"

definition json_arith :: "jsnum \<Rightarrow> real" where
  "json_arith x = (case x of Fin r \<Rightarrow> r | _ \<Rightarrow> 0)"

definition store_num :: "jsnum \<Rightarrow> real option" where
  "store_num x = (case x of Fin r \<Rightarrow> Some r | _ \<Rightarrow> None)"

definition load_num :: "real option \<Rightarrow> jsnum" where
  "load_num v = (case v of Some r \<Rightarrow> Fin r | None \<Rightarrow> NaN)"

definition new_daily :: "string \<Rightarrow> daily_data" where
  "new_daily today = \<lparr>date = today, totalTime = 0, productiveTime = 0, sessions = 0,
     averageFocus = Some 0, categories = Map.empty\<rparr>"

text \<open>\<open>session.finalFocusScore\<close> read as a number (absent: \<open>undefined\<close>, NaN).\<close>

definition score_num :: "jsnum option \<Rightarrow> jsnum" where
  "score_num v = (case v of None \<Rightarrow> NaN | Some x \<Rightarrow> x)"

definition is_productive :: "category \<Rightarrow> bool" where
  "is_productive c \<longleftrightarrow> c = Productive \<or> c = Highly_productive"

definition updateDailyAggregates :: "string \<Rightarrow> session \<Rightarrow> daily_store \<Rightarrow> daily_store" where
  "updateDailyAggregates today s store =
    (let dailyData = (case store today of Some d \<Rightarrow> d | None \<Rightarrow> new_daily today);
         dur = num_of (duration s);
         total = js_add (Fin (totalTime dailyData)) dur;
         n = sessions dailyData + 1;
         productive = (if is_productive (category s)
                       then js_add (Fin (productiveTime dailyData)) dur
                       else Fin (productiveTime dailyData));
         avg = js_div (js_add (js_mul (load_num (averageFocus dailyData)) (Fin (of_int (n - 1))))
                              (score_num (finalFocusScore s)))
                      (Fin (of_int n));
         old = (case categories dailyData (category s) of None \<Rightarrow> 0 | Some v \<Rightarrow> v);
         cats = (categories dailyData)(category s \<mapsto> json_arith (js_add (Fin old) dur))
     in store(today \<mapsto> dailyData\<lparr>totalTime := json_arith total, sessions := n,
                                  productiveTime := json_arith productive,
                                  averageFocus := store_num avg, categories := cats\<rparr>))"

fun aggregate_sessions :: "string \<Rightarrow> session list \<Rightarrow> daily_store \<Rightarrow> daily_store" where
  "aggregate_sessions today [] store = store"
| "aggregate_sessions today (s # ss) store = aggregate_sessions today ss (updateDailyAggregates today s store)"

section \<open>The aggregate as a function of the day's sessions\<close>

text \<open>What the spec (\S 4.4) says a day's aggregate is, for sessions that ended
  with a duration and a finite final score: sums of durations, the count, and
  the arithmetic mean of the final scores.\<close>

definition dur_of :: "session \<Rightarrow> real" where
  "dur_of s = (case duration s of Some d \<Rightarrow> of_int d | None \<Rightarrow> 0)"

definition focus_of :: "session \<Rightarrow> real" where
  "focus_of s = (case finalFocusScore s of Some (Fin f) \<Rightarrow> f | _ \<Rightarrow> 0)"

definition well_ended :: "session \<Rightarrow> bool" where
  "well_ended s \<longleftrightarrow> (\<exists>d. duration s = Some d) \<and> (\<exists>f. finalFocusScore s = Some (Fin f))"

definition daily_abs :: "string \<Rightarrow> session list \<Rightarrow> daily_data" where
  "daily_abs today ss =
    \<lparr>date = today,
     totalTime = sum_list (map dur_of ss),
     productiveTime = sum_list (map dur_of (filter (\<lambda>s. is_productive (category s)) ss)),
     sessions = int (length ss),
     averageFocus = Some (if ss = [] then 0 else sum_list (map focus_of ss) / of_nat (length ss)),
     categories = (\<lambda>c. if c \<in> category ` set ss
                       then Some (sum_list (map dur_of (filter (\<lambda>s. category s = c) ss))) else None)\<rparr>"

definition day_of :: "daily_store \<Rightarrow> string \<Rightarrow> daily_data" where
  "day_of store today = (case store today of Some d \<Rightarrow> d | None \<Rightarrow> new_daily today)"

section \<open>Lemmas\<close>

lemma json_arith_Fin [simp]: "json_arith (Fin r) = r"
  by (simp add: json_arith_def)

lemma num_of_Some [simp]: "num_of (Some d) = Fin (of_int d)"
  by (simp add: num_of_def)

lemma update_well_ended:
  assumes "well_ended s" and "0 \<le> sessions (day_of store today)"
  shows "updateDailyAggregates today s store =
    (let d = (case store today of Some d \<Rightarrow> d | None \<Rightarrow> new_daily today); n = sessions d + 1 in
     store(today \<mapsto> d\<lparr>totalTime := totalTime d + dur_of s, sessions := n,
       productiveTime := (if is_productive (category s) then productiveTime d + dur_of s else productiveTime d),
       averageFocus := map_option (\<lambda>a. (a * of_int (n - 1) + focus_of s) / of_int n) (averageFocus d),
       categories := (categories d)(category s \<mapsto>
          (case categories d (category s) of None \<Rightarrow> 0 | Some v \<Rightarrow> v) + dur_of s)\<rparr>))"
proof -
  obtain d f where "duration s = Some d" and "finalFocusScore s = Some (Fin f)"
    using assms by (auto simp: well_ended_def)
  moreover have "real_of_int (sessions (day_of store today) + 1) \<noteq> 0" using assms(2) by linarith
  ultimately show ?thesis
    by (auto simp: updateDailyAggregates_def Let_def dur_of_def focus_of_def score_num_def day_of_def
        json_arith_def store_num_def load_num_def split: option.splits)
qed

lemma daily_abs_Nil: "daily_abs today [] = new_daily today"
  by (simp add: daily_abs_def new_daily_def)

lemma mean_step:
  assumes "ss \<noteq> []"
  shows "(sum_list (map focus_of ss) / of_nat (length ss) * of_int (int (length ss) + 1 - 1) + focus_of s)
           / of_int (int (length ss) + 1)
         = (sum_list (map focus_of ss) + focus_of s) / (of_nat (length ss) + 1)"
  using assms by simp

lemma filter_cat_empty: "c \<notin> category ` set ss \<Longrightarrow> filter (\<lambda>s. category s = c) ss = []"
  by (auto simp: filter_empty_conv)

lemma update_daily_abs:
  assumes "well_ended s" and "day_of store today = daily_abs today ss"
  shows "updateDailyAggregates today s store = store(today \<mapsto> daily_abs today (ss @ [s]))"
proof -
  define D where "D = daily_abs today ss"
  have d: "(case store today of Some d \<Rightarrow> d | None \<Rightarrow> new_daily today) = D"
    using assms(2) by (simp add: day_of_def D_def)
  have nn: "0 \<le> sessions (day_of store today)"
    using assms(2) by (simp add: daily_abs_def)
  have fields: "date D = today" "totalTime D = sum_list (map dur_of ss)"
    "productiveTime D = sum_list (map dur_of (filter (\<lambda>s. is_productive (category s)) ss))"
    "sessions D = int (length ss)"
    "averageFocus D = Some (if ss = [] then 0 else sum_list (map focus_of ss) / of_nat (length ss))"
    "categories D = (\<lambda>c. if c \<in> category ` set ss
        then Some (sum_list (map dur_of (filter (\<lambda>s. category s = c) ss))) else None)"
    by (simp_all add: D_def daily_abs_def)
  show ?thesis
    unfolding update_well_ended [OF assms(1) nn] Let_def d
  proof (rule arg_cong [where f = "\<lambda>r. store(today \<mapsto> r)"], rule daily_data.equality)
    show "averageFocus (D\<lparr>totalTime := totalTime D + dur_of s, sessions := sessions D + 1,
            productiveTime := if is_productive (category s) then productiveTime D + dur_of s else productiveTime D,
            averageFocus := map_option (\<lambda>a. (a * real_of_int (sessions D + 1 - 1) + focus_of s) / real_of_int (sessions D + 1)) (averageFocus D),
            categories := (categories D)(category s \<mapsto> (case categories D (category s) of None \<Rightarrow> 0 | Some v \<Rightarrow> v) + dur_of s)\<rparr>)
          = averageFocus (daily_abs today (ss @ [s]))"
      by (cases "ss = []") (simp_all add: fields daily_abs_def mean_step)
  qed (auto simp: fields daily_abs_def fun_eq_iff filter_cat_empty is_productive_def)
qed

lemma aggregate_sessions_abs:
  assumes "list_all well_ended ss2" and "day_of store today = daily_abs today ss1" and "ss2 \<noteq> []"
  shows "aggregate_sessions today ss2 store = store(today \<mapsto> daily_abs today (ss1 @ ss2))"
  using assms
proof (induction ss2 arbitrary: store ss1)
  case Nil
  then show ?case by simp
next
  case (Cons s ss)
  have step: "updateDailyAggregates today s store = store(today \<mapsto> daily_abs today (ss1 @ [s]))"
    using Cons.prems(1,2) by (simp add: update_daily_abs)
  show ?case
  proof (cases "ss = []")
    case True
    then show ?thesis using step by simp
  next
    case False
    have "day_of (store(today \<mapsto> daily_abs today (ss1 @ [s]))) today = daily_abs today (ss1 @ [s])"
      by (simp add: day_of_def)
    then have "aggregate_sessions today ss (store(today \<mapsto> daily_abs today (ss1 @ [s])))
               = (store(today \<mapsto> daily_abs today (ss1 @ [s])))(today \<mapsto> daily_abs today ((ss1 @ [s]) @ ss))"
      using Cons.prems(1) False by (intro Cons.IH) (simp_all add: day_of_def)
    then show ?thesis using step by simp
  qed
qed

theorem daily_spec_example:
  "aggregate_sessions d
     [s1\<lparr>duration := Some 600000, finalFocusScore := Some (Fin 100), category := Productive\<rparr>,
      s2\<lparr>duration := Some 300000, finalFocusScore := Some (Fin 50), category := Neutral\<rparr>] Map.empty d
   = Some \<lparr>date = d, totalTime = 900000, productiveTime = 600000, sessions = 2, averageFocus = Some 75,
           categories = [Productive \<mapsto> 600000, Neutral \<mapsto> 300000]\<rparr>"
  by (simp add: updateDailyAggregates_def new_daily_def Let_def is_productive_def score_num_def
      json_arith_def store_num_def load_num_def fun_upd_twist)

section \<open>Properties\<close>

text \<open>C8: folding \<open>updateDailyAggregates\<close> over the sessions of a day, each ended with a duration and a finite final score, gives the aggregate the spec defines: the sums of the durations (in total, productive, per category), the count, and the arithmetic mean of the final scores; the running mean is exact.\<close>

theorem daily_aggregate_refines:
  assumes "list_all well_ended ss" and "ss \<noteq> []" and "store today = None"
  shows "aggregate_sessions today ss store today = Some (daily_abs today ss)"
proof -
  have "day_of store today = daily_abs today []"
    using assms(3) by (simp add: day_of_def daily_abs_Nil)
  then show ?thesis using aggregate_sessions_abs [OF assms(1) _ assms(2)] by simp
qed

theorem daily_aggregate_refines_witness:
  "list_all well_ended [example_session\<lparr>duration := Some 600000, finalFocusScore := Some (Fin 100)\<rparr>]
   \<and> [example_session\<lparr>duration := Some 600000, finalFocusScore := Some (Fin 100)\<rparr>] \<noteq> []
   \<and> (Map.empty :: daily_store) ''d'' = None
   \<and> aggregate_sessions ''d'' [example_session\<lparr>duration := Some 600000, finalFocusScore := Some (Fin 100)\<rparr>] Map.empty ''d''
     = Some (daily_abs ''d'' [example_session\<lparr>duration := Some 600000, finalFocusScore := Some (Fin 100)\<rparr>])"
proof -
  have w: "list_all well_ended [example_session\<lparr>duration := Some 600000, finalFocusScore := Some (Fin 100)\<rparr>]"
    by (simp add: well_ended_def)
  have n: "[example_session\<lparr>duration := Some 600000, finalFocusScore := Some (Fin 100)\<rparr>] \<noteq> []" by simp
  have e: "(Map.empty :: daily_store) ''d'' = None" by simp
  show ?thesis using w n e daily_aggregate_refines [OF w n e] by simp
qed

text \<open>C11: a session ending with a NaN final focus score (no activity and no idle time recorded) makes the day's average NaN; storage drops the non-finite member, it reads back as undefined, and the average stays absent for every later session of the day, while the session count goes on.\<close>

theorem nan_focus_loses_average:
  assumes "duration s1 = Some x" and "finalFocusScore s1 = Some NaN"
  shows "averageFocus (day_of (aggregate_sessions today (s1 # ss) store) today) = None
         \<and> sessions (day_of (aggregate_sessions today (s1 # ss) store) today)
             = sessions (day_of store today) + 1 + int (length ss)"
proof -
  have first: "averageFocus (day_of (updateDailyAggregates today s1 store) today) = None"
    using assms by (simp add: updateDailyAggregates_def day_of_def Let_def score_num_def store_num_def
        split: option.splits)
  have "averageFocus (day_of (aggregate_sessions today ss st) today) = None
        \<and> sessions (day_of (aggregate_sessions today ss st) today) = sessions (day_of st today) + int (length ss)"
    if "averageFocus (day_of st today) = None" for st
    using that
  proof (induction ss arbitrary: st)
    case (Cons s ss)
    have "averageFocus (day_of (updateDailyAggregates today s st) today) = None"
      using Cons.prems by (simp add: updateDailyAggregates_def day_of_def Let_def load_num_def store_num_def)
    moreover have "sessions (day_of (updateDailyAggregates today s st) today) = sessions (day_of st today) + 1"
      by (simp add: updateDailyAggregates_def day_of_def Let_def split: option.splits)
    ultimately show ?case using Cons.IH by simp
  qed simp
  moreover have "sessions (day_of (updateDailyAggregates today s1 store) today) = sessions (day_of store today) + 1"
    by (simp add: updateDailyAggregates_def day_of_def Let_def split: option.splits)
  ultimately show ?thesis using first by simp
qed

theorem nan_focus_loses_average_witness:
  "duration (example_session\<lparr>duration := Some 1000, finalFocusScore := Some NaN\<rparr>) = Some 1000
   \<and> finalFocusScore (example_session\<lparr>duration := Some 1000, finalFocusScore := Some NaN\<rparr>) = Some NaN
   \<and> averageFocus (day_of (aggregate_sessions ''d'' [example_session\<lparr>duration := Some 1000, finalFocusScore := Some NaN\<rparr>,
        example_session\<lparr>duration := Some 600000, finalFocusScore := Some (Fin 50)\<rparr>] Map.empty) ''d'') = None
   \<and> sessions (day_of (aggregate_sessions ''d'' [example_session\<lparr>duration := Some 1000, finalFocusScore := Some NaN\<rparr>,
        example_session\<lparr>duration := Some 600000, finalFocusScore := Some (Fin 50)\<rparr>] Map.empty) ''d'') = 2"
proof -
  have b: "duration (example_session\<lparr>duration := Some 1000, finalFocusScore := Some NaN\<rparr>) = Some 1000" by simp
  have c: "finalFocusScore (example_session\<lparr>duration := Some 1000, finalFocusScore := Some NaN\<rparr>) = Some NaN" by simp
  show ?thesis
    using nan_focus_loses_average [OF b c, where today = "''d''" and store = Map.empty
        and ss = "[example_session\<lparr>duration := Some 600000, finalFocusScore := Some (Fin 50)\<rparr>]"]
    by (simp add: day_of_def new_daily_def del: aggregate_sessions.simps)
qed

end
