(* ===== verification/Sync.thy ===== *)
theory Sync
  imports Aggregation
begin

text \<open>
  Backend sync of \<^verbatim>\<open>src/background.js\<close>: \<open>syncWithBackend\<close> (lines 457--495)
  builds the payload of the spec (\S 6) and posts it once; \<open>getUserId\<close>
  (609--617) reads or creates the user id in storage. \<open>fetch\<close> rejects only on a
  network failure (an HTTP error status resolves), which is the environment's
  \<open>net_ok\<close>. On failure the code calls \<open>queueForRetry\<close>, a method the class
  does not define: \<open>has_retry = False\<close> is the repository, where that call throws
  a TypeError out of the \<open>catch\<close> block; \<open>has_retry = True\<close> is the queue the
  spec recommends.

  The payload is what \<open>JSON.stringify\<close> sends: a NaN score travels as
  \<open>null\<close>, kept here as the \<open>jsnum\<close> itself.
\<close>

record payload =
  pl_userId :: string
  pl_sessionId :: string
  pl_domain :: string
  pl_url :: string
  pl_title :: string
  pl_timeSpent :: "int option"
  pl_category :: category
  pl_focusScore :: "jsnum option"
  pl_productivityScore :: "jsnum option"
  pl_distractions :: int
  pl_keystrokes :: int
  pl_mouseMovements :: int
  pl_scrolls :: int
  pl_clicks :: int
  pl_timeSpentActive :: int
  pl_timeSpentIdle :: int
  pl_startTime :: int
  pl_endTime :: "int option"

record sync_state =
  userId :: "string option"
  sent :: "payload list"
  retry_queue :: "session list"

definition getUserId :: "int \<Rightarrow> string \<Rightarrow> sync_state \<Rightarrow> string \<times> sync_state" where
  "getUserId now rand st =
    (case userId st of
       Some u \<Rightarrow> (if u = [] then (let v = ''user_'' @ show_int now @ ''_'' @ rand in (v, st\<lparr>userId := Some v\<rparr>))
                 else (u, st))
     | None \<Rightarrow> (let v = ''user_'' @ show_int now @ ''_'' @ rand in (v, st\<lparr>userId := Some v\<rparr>)))"

definition mk_payload :: "string \<Rightarrow> session \<Rightarrow> payload" where
  "mk_payload uid s =
    \<lparr>pl_userId = uid, pl_sessionId = sessionId s, pl_domain = domain s, pl_url = url s,
     pl_title = title s, pl_timeSpent = duration s, pl_category = category s,
     pl_focusScore = finalFocusScore s, pl_productivityScore = productivityScore s,
     pl_distractions = distractions s, pl_keystrokes = keystrokes s,
     pl_mouseMovements = mouseMovements s, pl_scrolls = scrolls s, pl_clicks = clicks s,
     pl_timeSpentActive = timeSpentActive s, pl_timeSpentIdle = timeSpentIdle s,
     pl_startTime = startTime s, pl_endTime = endTime s\<rparr>"

definition queueForRetry :: "bool \<Rightarrow> session \<Rightarrow> sync_state \<Rightarrow> sync_state \<times> js_error option" where
  "queueForRetry has_retry s st =
    (if has_retry then (st\<lparr>retry_queue := retry_queue st @ [s]\<rparr>, None)
     else (st, Some (TypeError ''this.queueForRetry is not a function'')))"

definition syncWithBackend ::
  "bool \<Rightarrow> int \<Rightarrow> string \<Rightarrow> bool \<Rightarrow> session \<Rightarrow> sync_state \<Rightarrow> sync_state \<times> js_error option" where
  "syncWithBackend has_retry now rand net_ok s st =
    (let (uid, st1) = getUserId now rand st in
     if net_ok then (st1\<lparr>sent := sent st1 @ [mk_payload uid s]\<rparr>, None)
     else queueForRetry has_retry s st1)"

section \<open>Lemmas\<close>

lemma syncWithBackend_ok:
  "net_ok \<Longrightarrow> snd (syncWithBackend r now rand net_ok s st) = None"
  by (simp add: syncWithBackend_def split: prod.splits)

lemma syncWithBackend_retry:
  "has_retry \<Longrightarrow> snd (syncWithBackend has_retry now rand net_ok s st) = None"
  by (simp add: syncWithBackend_def queueForRetry_def split: prod.splits)

lemma syncWithBackend_repo_fail:
  "snd (syncWithBackend False now rand False s st) = Some (TypeError ''this.queueForRetry is not a function'')"
  by (simp add: syncWithBackend_def queueForRetry_def split: prod.splits)

lemma getUserId_stable: "userId st = Some u \<Longrightarrow> u \<noteq> [] \<Longrightarrow> getUserId now rand st = (u, st)"
  by (simp add: getUserId_def)

lemma getUserId_set: "userId (snd (getUserId now rand st)) = Some (fst (getUserId now rand st))"
  by (simp add: getUserId_def Let_def split: option.splits)

end
