(* ===== verification/Tracker.thy ===== *)
theory Tracker
  imports Sync
begin

text \<open>
  The session state machine of \<^verbatim>\<open>src/background.js\<close>, class
  \<open>EnterpriseTimeTracker\<close>: the fields of the instance and of
  \<open>chrome.storage.local\<close> it writes are the record \<open>tracker\<close>, every handler is a
  function from the state to the next state and, where the handler's promise
  rejects or its listener throws, the error. Handlers run to completion one
  after the other (the serial dispatch of the spec, \S 5); the interleaving of
  their \<open>await\<close>s is not modelled here.

  Effects on the browser are recorded as data: the badge text and colour, the
  notifications created (their ids), the tabs the content script was injected in.

  \<open>env\<close> is what one event sees of the world: \<open>Date.now()\<close>, the date string of
  \<open>new Date().toDateString()\<close>, the random suffixes of the generated ids, the tabs
  \<open>chrome.tabs.get\<close> can return and whether the network is up.

  \<open>hooks\<close> holds the methods the class calls but does not define:
  \<open>getCustomCategory\<close> (line 170), \<open>queueForRetry\<close> (493),
  \<open>updateRealTimeAnalytics\<close> (382), \<open>trackNavigation\<close> (47),
  \<open>getDailyStats\<close> (513), \<open>startPomodoroTimer\<close> (530), \<open>getSessionsForDate\<close> and
  \<open>calculateDailySummary\<close> (358, 360). \<open>repo_hooks\<close> is the repository as it is,
  where each call throws a TypeError; \<open>spec_hooks tbl\<close> is the behaviour the spec
  describes, with the override table \<open>tbl\<close>.
\<close>

record store =
  stored_sessions :: "int \<rightharpoonup> session"
  lastSession :: "session option"
  daily :: daily_store
  saved_settings :: "settings_patch option"

record tracker =
  currentSession :: "session option"
  tr_settings :: settings
  storage :: store
  sync :: sync_state
  badge_text :: string
  badge_color :: string
  notifications :: "string list"
  injected :: "int list"

record env =
  now :: int
  today :: string
  rand_id :: string
  rand_user :: string
  tabs :: "int \<rightharpoonup> tab"
  net_ok :: bool

record hooks =
  getCustomCategory :: "custom_table option"
  has_queueForRetry :: bool
  has_updateRealTimeAnalytics :: bool
  has_trackNavigation :: bool
  has_getDailyStats :: bool
  has_startPomodoroTimer :: bool
  has_dailySummary :: bool

definition repo_hooks :: hooks where
  "repo_hooks = \<lparr>getCustomCategory = None, has_queueForRetry = False,
     has_updateRealTimeAnalytics = False, has_trackNavigation = False, has_getDailyStats = False,
     has_startPomodoroTimer = False, has_dailySummary = False\<rparr>"

definition spec_hooks :: "custom_table \<Rightarrow> hooks" where
  "spec_hooks tbl = \<lparr>getCustomCategory = Some tbl, has_queueForRetry = True,
     has_updateRealTimeAnalytics = True, has_trackNavigation = True, has_getDailyStats = True,
     has_startPomodoroTimer = True, has_dailySummary = True\<rparr>"

definition missing :: "string \<Rightarrow> js_error" where
  "missing m = TypeError (''this.'' @ m @ '' is not a function'')"

type_synonym outcome = "tracker \<times> js_error option"

section \<open>Starting a session\<close>

definition generateSessionId :: "env \<Rightarrow> string" where
  "generateSessionId e = ''session_'' @ show_int (now e) @ ''_'' @ rand_id e"

definition updateBadge :: "category \<Rightarrow> tracker \<Rightarrow> tracker" where
  "updateBadge c st =
    st\<lparr>badge_text := (if c = Highly_productive then ''++'' else if c = Productive then ''+''
                      else if c = Unproductive then ''-'' else ''''),
       badge_color := (case c of Highly_productive \<Rightarrow> ''#00C851'' | Productive \<Rightarrow> ''#4CAF50''
                       | Neutral \<Rightarrow> ''#FF9800'' | Unproductive \<Rightarrow> ''#F44336'' | Break \<Rightarrow> ''#2196F3'')\<rparr>"

definition startActivityMonitoring :: "int \<Rightarrow> tracker \<Rightarrow> tracker" where
  "startActivityMonitoring tid st =
    (if \<not> trackMouseMovement (tr_settings st) \<and> \<not> trackKeystrokes (tr_settings st) then st
     else st\<lparr>injected := injected st @ [tid]\<rparr>)"

definition notify :: "string \<Rightarrow> tracker \<Rightarrow> tracker" where
  "notify nid st = st\<lparr>notifications := notifications st @ [nid]\<rparr>"

definition applyFocusMode :: "session \<Rightarrow> tracker \<Rightarrow> tracker" where
  "applyFocusMode s st =
    (if category s = Unproductive \<and> blockDistractions (tr_settings st)
     then notify (''focus_alert_'' @ sessionId s) st
     else if category s = Highly_productive
     then (if deepWorkMode (tr_settings st) then notify (''deep_work_'' @ sessionId s) st else st)
     else st)"

definition new_session :: "env \<Rightarrow> tab \<Rightarrow> string \<Rightarrow> category \<Rightarrow> session" where
  "new_session e t u c =
    \<lparr>sessionId = generateSessionId e, tabId = tab_id t, url = u, domain = extractDomain u,
     title = (if truthy_str (tab_title t) then the (tab_title t) else ''Unknown''),
     startTime = now e, category = c, focusScore = 100, activityScore = 100, distractions = 0,
     keystrokes = 0, mouseMovements = 0, scrolls = 0, clicks = 0,
     timeSpentActive = 0, timeSpentIdle = 0, idleStartTime = None, lastBlurTime = None,
     endTime = None, duration = None, finalFocusScore = None, productivityScore = None\<rparr>"

definition startNewSession :: "hooks \<Rightarrow> env \<Rightarrow> tab \<Rightarrow> string \<Rightarrow> tracker \<Rightarrow> outcome" where
  "startNewSession h e t u st =
    (case categorizeWebsite (getCustomCategory h) u of
       Inl err \<Rightarrow> (st, Some err)
     | Inr c \<Rightarrow>
         (let sessionData = new_session e t u c;
              st1 = st\<lparr>currentSession := Some sessionData\<rparr>;
              st2 = (if focusMode (tr_settings st1) then applyFocusMode sessionData st1 else st1);
              st3 = startActivityMonitoring (tab_id t) st2
          in (updateBadge c st3, None)))"

section \<open>Ending a session\<close>

definition finish_session :: "int \<Rightarrow> session \<Rightarrow> session" where
  "finish_session t s =
    (let s1 = s\<lparr>endTime := Some t, duration := Some (t - startTime s)\<rparr>;
         s2 = s1\<lparr>finalFocusScore := Some (calculateFinalFocusScore s1)\<rparr>
     in s2\<lparr>productivityScore := Some (calculateProductivityScore s2)\<rparr>)"

definition saveSessionData :: "string \<Rightarrow> session \<Rightarrow> store \<Rightarrow> store" where
  "saveSessionData today_str s stg =
    (let stg1 = stg\<lparr>stored_sessions := (stored_sessions stg)(startTime s \<mapsto> s), lastSession := Some s\<rparr>
     in stg1\<lparr>daily := updateDailyAggregates today_str s (daily stg1)\<rparr>)"

text \<open>The session object is mutated in place: once its end fields are set, the
  current session is that ended object, also when the sync then throws and
  \<open>this.currentSession = null\<close> is never reached.\<close>

definition endCurrentSession :: "hooks \<Rightarrow> env \<Rightarrow> tracker \<Rightarrow> outcome" where
  "endCurrentSession h e st =
    (case currentSession st of
       None \<Rightarrow> (st, None)
     | Some s0 \<Rightarrow>
         (let s = finish_session (now e) s0;
              st1 = st\<lparr>currentSession := Some s, storage := saveSessionData (today e) s (storage st)\<rparr>;
              (sy, err) = syncWithBackend (has_queueForRetry h) (now e) (rand_user e) (net_ok e) s (sync st1);
              st2 = st1\<lparr>sync := sy\<rparr>
          in case err of
               Some x \<Rightarrow> (st2, Some x)
             | None \<Rightarrow> (st2\<lparr>currentSession := None\<rparr>, None)))"

section \<open>Tab changes\<close>

definition handleTabChange :: "hooks \<Rightarrow> env \<Rightarrow> int \<Rightarrow> tracker \<Rightarrow> outcome" where
  "handleTabChange h e tid st =
    (case endCurrentSession h e st of
       (st1, Some err) \<Rightarrow> (st1, Some err)
     | (st1, None) \<Rightarrow>
         (case tabs e tid of
            None \<Rightarrow> (st1, None)
          | Some t \<Rightarrow>
              (if truthy_str (tab_url t) \<and> \<not> isSystemUrl (the (tab_url t))
               then (fst (startNewSession h e t (the (tab_url t)) st1), None)
               else (st1, None))))"

section \<open>Focus, idle, alarms\<close>

definition WINDOW_ID_NONE :: int where
  "WINDOW_ID_NONE = -1"

definition map_current :: "(session \<Rightarrow> session) \<Rightarrow> tracker \<Rightarrow> tracker" where
  "map_current f st = st\<lparr>currentSession := map_option f (currentSession st)\<rparr>"

definition handleWindowFocus :: "env \<Rightarrow> int \<Rightarrow> tracker \<Rightarrow> tracker" where
  "handleWindowFocus e windowId st =
    (if windowId = WINDOW_ID_NONE
     then map_current (\<lambda>s. s\<lparr>lastBlurTime := Some (now e)\<rparr>) st
     else map_current (\<lambda>s. if truthy_time (lastBlurTime s)
                            then s\<lparr>timeSpentIdle := timeSpentIdle s + (now e - the (lastBlurTime s)),
                                   lastBlurTime := None\<rparr>
                            else s) st)"

datatype idle_state = Active | Idle | Locked

definition handleIdleState :: "env \<Rightarrow> idle_state \<Rightarrow> tracker \<Rightarrow> tracker" where
  "handleIdleState e state st =
    (if state = Idle \<or> state = Locked
     then map_current (\<lambda>s. s\<lparr>idleStartTime := Some (now e), focusScore := max 0 (focusScore s - 10)\<rparr>) st
     else map_current (\<lambda>s. if truthy_time (idleStartTime s)
                            then s\<lparr>timeSpentIdle := timeSpentIdle s + (now e - the (idleStartTime s)),
                                   idleStartTime := None\<rparr>
                            else s) st)"

definition performanceCheck :: "hooks \<Rightarrow> env \<Rightarrow> tracker \<Rightarrow> outcome" where
  "performanceCheck h e st =
    (case currentSession st of
       None \<Rightarrow> (st, None)
     | Some s \<Rightarrow>
         (let sessionDuration = now e - startTime s;
              st1 = (if sessionDuration > 1800000 \<and> focusScore s > 80
                     then st\<lparr>currentSession := Some (s\<lparr>focusScore := min 100 (focusScore s + 5)\<rparr>)\<rparr>
                     else st)
          in if has_updateRealTimeAnalytics h then (st1, None)
             else (st1, Some (missing ''updateRealTimeAnalytics''))))"

definition showBreakReminder :: "env \<Rightarrow> tracker \<Rightarrow> tracker" where
  "showBreakReminder e st =
    (case currentSession st of
       None \<Rightarrow> st
     | Some s \<Rightarrow>
         (if \<not> breakReminders (tr_settings st) then st
          else if now e - startTime s > breakInterval (tr_settings st) then notify ''break_reminder'' st
          else st))"

definition generateDailySummary :: "hooks \<Rightarrow> tracker \<Rightarrow> outcome" where
  "generateDailySummary h st =
    (if has_dailySummary h then (notify ''daily_summary'' st, None)
     else (st, Some (missing ''getSessionsForDate'')))"

definition handleAlarm :: "hooks \<Rightarrow> env \<Rightarrow> string \<Rightarrow> tracker \<Rightarrow> outcome" where
  "handleAlarm h e name st =
    (if name = ''breakReminder'' then (showBreakReminder e st, None)
     else if name = ''dailySummary'' then generateDailySummary h st
     else if name = ''performanceCheck'' then performanceCheck h e st
     else (st, None))"

section \<open>Messages\<close>

definition updateSessionActivity :: "env \<Rightarrow> activity_data \<Rightarrow> tracker \<Rightarrow> tracker" where
  "updateSessionActivity e d st =
    map_current (\<lambda>s. let s1 = s\<lparr>keystrokes := keystrokes s + a_keystrokes d,
                                mouseMovements := mouseMovements s + a_mouseMovements d,
                                scrolls := scrolls s + a_scrolls d,
                                clicks := clicks s + a_clicks d,
                                timeSpentActive := timeSpentActive s + a_activeTime d\<rparr>
                     in s1\<lparr>activityScore := calculateActivityScore s1 (now e)\<rparr>) st"

definition saveSettings :: "tracker \<Rightarrow> tracker" where
  "saveSettings st = st\<lparr>storage := (storage st)\<lparr>saved_settings := Some (to_patch (tr_settings st))\<rparr>\<rparr>"

definition updateSettings :: "settings_patch \<Rightarrow> tracker \<Rightarrow> tracker" where
  "updateSettings p st = saveSettings (st\<lparr>tr_settings := merge_settings (tr_settings st) p\<rparr>)"

datatype request =
    GetSettings
  | UpdateSettings settings_patch
  | GetCurrentSession
  | GetDailyStats
  | ActivityUpdate activity_data
  | ToggleFocusMode
  | StartPomodoro
  | OtherAction string

datatype response =
    RSettings settings
  | RSuccess
  | RSession "session option"
  | RBool bool
  | RDaily "daily_data option"

text \<open>\<open>sender\<close> is the id of the sender's tab, \<open>None\<close> when the message does not
  come from a tab (\<open>sender.tab\<close> is then undefined and reading its \<open>id\<close>
  throws).\<close>

definition handleMessage ::
  "hooks \<Rightarrow> env \<Rightarrow> request \<Rightarrow> int option \<Rightarrow> tracker \<Rightarrow> tracker \<times> response option \<times> js_error option" where
  "handleMessage h e req sender st =
    (case req of
       GetSettings \<Rightarrow> (st, Some (RSettings (tr_settings st)), None)
     | UpdateSettings p \<Rightarrow> (updateSettings p st, Some RSuccess, None)
     | GetCurrentSession \<Rightarrow> (st, Some (RSession (currentSession st)), None)
     | GetDailyStats \<Rightarrow>
         (if has_getDailyStats h then (st, Some (RDaily (daily (storage st) (today e))), None)
          else (st, None, Some (missing ''getDailyStats'')))
     | ActivityUpdate d \<Rightarrow>
         (case currentSession st of
            None \<Rightarrow> (st, None, None)
          | Some s \<Rightarrow>
              (case sender of
                 None \<Rightarrow> (st, None, Some (TypeError ''Cannot read properties of undefined (reading id)''))
               | Some tid \<Rightarrow> (if tid = tabId s then updateSessionActivity e d st else st, None, None)))
     | ToggleFocusMode \<Rightarrow>
         (let st1 = saveSettings (st\<lparr>tr_settings := (tr_settings st)\<lparr>focusMode := \<not> focusMode (tr_settings st)\<rparr>\<rparr>)
          in (st1, Some (RBool (focusMode (tr_settings st1))), None))
     | StartPomodoro \<Rightarrow>
         (if has_startPomodoroTimer h then (st, Some RSuccess, None)
          else (st, None, Some (missing ''startPomodoroTimer'')))
     | OtherAction a \<Rightarrow> (st, None, None))"

section \<open>Housekeeping and start-up\<close>

text \<open>\<open>cleanupOldData\<close> (lines 651--667), run when the periodic memory check of
  \<open>startPerformanceMonitoring\<close> (635--644) sees more than 50 MB of heap: the
  sessions stored under a key \<open>session_<startTime>\<close> older than 30 days are
  removed; daily aggregates are kept.\<close>

definition cleanupOldData :: "env \<Rightarrow> tracker \<Rightarrow> tracker" where
  "cleanupOldData e st =
    (let cutoffDate = now e - 30 * 24 * 60 * 60 * 1000
     in st\<lparr>storage := (storage st)\<lparr>stored_sessions :=
          (\<lambda>k. if k < cutoffDate then None else stored_sessions (storage st) k)\<rparr>\<rparr>)"

definition memoryCheck :: "env \<Rightarrow> int \<Rightarrow> tracker \<Rightarrow> tracker" where
  "memoryCheck e usedJSHeapSize st =
    (if usedJSHeapSize > 50 * 1024 * 1024 then cleanupOldData e st else st)"

text \<open>The constructor and \<open>init\<close> (lines 2--31): no current session, the default
  settings overridden by those saved in storage, everything else as stored.\<close>

definition init_tracker :: "store \<Rightarrow> sync_state \<Rightarrow> tracker" where
  "init_tracker stg sy =
    \<lparr>currentSession = None,
     tr_settings = (case saved_settings stg of None \<Rightarrow> default_settings | Some p \<Rightarrow> merge_settings default_settings p),
     storage = stg, sync = sy, badge_text = [], badge_color = [], notifications = [], injected = []\<rparr>"

section \<open>Frame lemmas\<close>

lemma current_frame [frame_simps]:
  "currentSession (notify n st) = currentSession st"
  "currentSession (updateBadge c st) = currentSession st"
  "currentSession (startActivityMonitoring tid st) = currentSession st"
  "currentSession (applyFocusMode s st) = currentSession st"
  "currentSession (saveSettings st) = currentSession st"
  "currentSession (updateSettings p st) = currentSession st"
  "currentSession (cleanupOldData e st) = currentSession st"
  "currentSession (memoryCheck e b st) = currentSession st"
  "currentSession (showBreakReminder e st) = currentSession st"
  "currentSession (fst (generateDailySummary h st)) = currentSession st"
  by (simp_all add: notify_def updateBadge_def startActivityMonitoring_def applyFocusMode_def
      saveSettings_def updateSettings_def cleanupOldData_def memoryCheck_def showBreakReminder_def
      generateDailySummary_def split: option.splits)

lemma map_current_None [simp]: "currentSession st = None \<Longrightarrow> currentSession (map_current f st) = None"
  by (simp add: map_current_def)

lemma map_current_Some [simp]:
  "currentSession (map_current f st) = Some s' \<longleftrightarrow> (\<exists>s. currentSession st = Some s \<and> s' = f s)"
  by (auto simp: map_current_def)

lemma startNewSession_current:
  "currentSession (fst (startNewSession h e t u st)) = currentSession st
   \<or> (\<exists>c. currentSession (fst (startNewSession h e t u st)) = Some (new_session e t u c))"
  by (auto simp: startNewSession_def Let_def frame_simps split: sum.splits)

lemma startNewSession_missing:
  "getCustomCategory h = None \<Longrightarrow> startNewSession h e t u st = (st, Some (missing ''getCustomCategory''))"
  by (simp add: startNewSession_def categorizeWebsite_def missing_def)

lemma endCurrentSession_retry:
  assumes h: "has_queueForRetry h"
  shows "currentSession (fst (endCurrentSession h e st)) = None \<and> snd (endCurrentSession h e st) = None"
proof (cases "currentSession st")
  case None
  then show ?thesis by (simp add: endCurrentSession_def)
next
  case (Some s0)
  obtain sy where sy: "syncWithBackend (has_queueForRetry h) (now e) (rand_user e) (net_ok e)
      (finish_session (now e) s0) (sync st) = (sy, None)"
    using syncWithBackend_retry [OF h] by (metis prod.collapse)
  show ?thesis using Some sy by (simp add: endCurrentSession_def Let_def)
qed

lemma endCurrentSession_None:
  "currentSession st = None \<Longrightarrow> endCurrentSession h e st = (st, None)"
  by (simp add: endCurrentSession_def)

end
