(* ===== verification/Dispatcher.thy ===== *)
theory Dispatcher
  imports Tracker
begin

text \<open>
  The event dispatcher of \<^verbatim>\<open>src/background.js\<close>, \<open>setupEventListeners\<close>
  (lines 33--71) with the alarm table of \<open>setupAlarms\<close> (73--91) and the memory
  check of \<open>startPerformanceMonitoring\<close> (635--644): each browser event is routed
  to its handler. \<open>dispatch\<close> is one event; \<open>reachable h t st\<close> holds of every
  state the tracker can be in after a run of events whose clocks do not go back,
  \<open>t\<close> the time of the last event. Invariants are proved by rule induction on
  \<open>reachable\<close>.
\<close>

datatype event =
    TabActivated int
  | TabUpdated int string bool
  | NavigationCompleted int
  | WindowFocusChanged int
  | IdleStateChanged idle_state
  | AlarmFired string
  | MessageReceived request "int option"
  | MemoryCheck int

fun dispatch :: "hooks \<Rightarrow> env \<Rightarrow> event \<Rightarrow> tracker \<Rightarrow> outcome" where
  "dispatch h e (TabActivated tid) st = handleTabChange h e tid st"
| "dispatch h e (TabUpdated tid status active) st =
     (if status = ''complete'' \<and> active then handleTabChange h e tid st else (st, None))"
| "dispatch h e (NavigationCompleted frameId) st =
     (if frameId = 0 \<and> \<not> has_trackNavigation h then (st, Some (missing ''trackNavigation'')) else (st, None))"
| "dispatch h e (WindowFocusChanged w) st = (handleWindowFocus e w st, None)"
| "dispatch h e (IdleStateChanged i) st = (handleIdleState e i st, None)"
| "dispatch h e (AlarmFired n) st = handleAlarm h e n st"
| "dispatch h e (MessageReceived req sender) st =
     (case handleMessage h e req sender st of (st', _, err) \<Rightarrow> (st', err))"
| "dispatch h e (MemoryCheck used) st = (memoryCheck e used st, None)"

inductive reachable :: "hooks \<Rightarrow> int \<Rightarrow> tracker \<Rightarrow> bool" for h :: hooks where
  init: "reachable h t (init_tracker stg sy)"
| step: "reachable h t st \<Longrightarrow> t \<le> now e \<Longrightarrow> reachable h (now e) (fst (dispatch h e ev st))"

fun run :: "hooks \<Rightarrow> (env \<times> event) list \<Rightarrow> tracker \<Rightarrow> tracker" where
  "run h [] st = st"
| "run h ((e, ev) # evs) st = run h evs (fst (dispatch h e ev st))"

fun clocks_from :: "int \<Rightarrow> (env \<times> event) list \<Rightarrow> bool" where
  "clocks_from t [] = True"
| "clocks_from t ((e, ev) # evs) = (t \<le> now e \<and> clocks_from (now e) evs)"

fun last_clock :: "int \<Rightarrow> (env \<times> event) list \<Rightarrow> int" where
  "last_clock t [] = t"
| "last_clock t ((e, ev) # evs) = last_clock (now e) evs"

section \<open>What a live session satisfies\<close>

definition session_inv :: "int \<Rightarrow> session \<Rightarrow> bool" where
  "session_inv t s \<longleftrightarrow>
     0 \<le> focusScore s \<and> focusScore s \<le> 100 \<and> distractions s = 0 \<and> startTime s \<le> t
     \<and> 0 \<le> timeSpentIdle s \<and> endTime s = None
     \<and> (case idleStartTime s of None \<Rightarrow> True | Some x \<Rightarrow> x \<le> t)
     \<and> (case lastBlurTime s of None \<Rightarrow> True | Some x \<Rightarrow> x \<le> t)"

definition tracker_inv :: "int \<Rightarrow> tracker \<Rightarrow> bool" where
  "tracker_inv t st \<longleftrightarrow> (case currentSession st of None \<Rightarrow> True | Some s \<Rightarrow> session_inv t s)"

text \<open>The in-place changes a handler makes to the current session object: the
  interface between the dispatcher and the session, through which invariants of
  the current session are proved once for every handler.\<close>

inductive session_update :: "int \<Rightarrow> session \<Rightarrow> session \<Rightarrow> bool" where
  keep: "session_update t s s"
| finish: "session_update t s (finish_session t s)"
| blur: "session_update t s (s\<lparr>lastBlurTime := Some t\<rparr>)"
| refocus: "session_update t s (s\<lparr>timeSpentIdle := timeSpentIdle s + (t - the (lastBlurTime s)), lastBlurTime := None\<rparr>)"
| idle: "session_update t s (s\<lparr>idleStartTime := Some t, focusScore := max 0 (focusScore s - 10)\<rparr>)"
| resume: "session_update t s (s\<lparr>timeSpentIdle := timeSpentIdle s + (t - the (idleStartTime s)), idleStartTime := None\<rparr>)"
| bonus: "session_update t s (s\<lparr>focusScore := min 100 (focusScore s + 5)\<rparr>)"
| activity: "session_update t s (s\<lparr>keystrokes := k, mouseMovements := m, scrolls := sc, clicks := cl,
     timeSpentActive := a, activityScore := sco\<rparr>)"

section \<open>Example inputs\<close>

text \<open>A tab on a code-hosting site, the clock at 5 ms, empty storage: the
  concrete inputs the witnesses below run the handlers on.\<close>

definition demo_tab :: tab where
  "demo_tab = \<lparr>tab_id = 1, tab_url = Some ''https://github.com/foo'', tab_title = Some ''foo'', tab_active = True\<rparr>"

definition demo_env :: env where
  "demo_env = \<lparr>now = 5, today = ''Mon Nov 09 2026'', rand_id = ''k3j2'', rand_user = ''u7'',
     tabs = [1 \<mapsto> demo_tab], net_ok = True\<rparr>"

definition empty_store :: store where
  "empty_store = \<lparr>stored_sessions = Map.empty, lastSession = None, daily = Map.empty, saved_settings = None\<rparr>"

definition empty_sync :: sync_state where
  "empty_sync = \<lparr>userId = None, sent = [], retry_queue = []\<rparr>"

definition demo_session :: session where
  "demo_session = new_session demo_env demo_tab ''https://github.com/foo'' Highly_productive"

definition demo_started :: tracker where
  "demo_started = fst (dispatch (spec_hooks Map.empty) demo_env (TabActivated 1) (init_tracker empty_store empty_sync))"

section \<open>Lemmas\<close>

lemma reachable_run:
  "reachable h t st \<Longrightarrow> clocks_from t evs \<Longrightarrow> reachable h (last_clock t evs) (run h evs st)"
proof (induction evs arbitrary: t st)
  case Nil
  then show ?case by simp
next
  case (Cons x evs)
  obtain e ev where x: "x = (e, ev)" by (cases x)
  with Cons.prems have "reachable h (now e) (fst (dispatch h e ev st))" and "clocks_from (now e) evs"
    by (auto intro: reachable.step)
  then show ?case using Cons.IH x by simp
qed

lemma session_inv_mono: "session_inv t s \<Longrightarrow> t \<le> t' \<Longrightarrow> session_inv t' s"
  by (auto simp: session_inv_def split: option.splits)

lemma session_inv_new: "session_inv (now e) (new_session e tb u c)"
  by (simp add: session_inv_def new_session_def)

lemma tracker_inv_mono: "tracker_inv t st \<Longrightarrow> t \<le> t' \<Longrightarrow> tracker_inv t' st"
  by (auto simp: tracker_inv_def intro: session_inv_mono split: option.splits)

lemma tracker_inv_frame: "currentSession st' = currentSession st \<Longrightarrow> tracker_inv t st \<Longrightarrow> tracker_inv t st'"
  by (simp add: tracker_inv_def)

lemma tracker_inv_None: "currentSession st = None \<Longrightarrow> tracker_inv t st"
  by (simp add: tracker_inv_def)

lemma inv_handleTabChange:
  assumes "has_queueForRetry h"
  shows "tracker_inv (now e) (fst (handleTabChange h e tid st))"
proof -
  obtain st1 where end1: "endCurrentSession h e st = (st1, None)" and cur1: "currentSession st1 = None"
    using endCurrentSession_retry [OF assms, of e st] by (metis prod.collapse)
  show ?thesis
  proof (cases "tabs e tid")
    case None
    then show ?thesis using end1 cur1 by (simp add: handleTabChange_def tracker_inv_None)
  next
    case (Some tb)
    let ?u = "the (tab_url tb)"
    have "tracker_inv (now e) (fst (startNewSession h e tb ?u st1))"
      using startNewSession_current [of h e tb ?u st1] cur1
      by (auto simp: tracker_inv_def session_inv_new)
    then show ?thesis using end1 cur1 Some by (simp add: handleTabChange_def tracker_inv_None)
  qed
qed

lemma inv_handleWindowFocus:
  "tracker_inv t st \<Longrightarrow> t \<le> now e \<Longrightarrow> tracker_inv (now e) (handleWindowFocus e w st)"
  by (auto simp: tracker_inv_def handleWindowFocus_def map_current_def session_inv_def truthy_time_def
      split: option.splits)

lemma inv_handleIdleState:
  "tracker_inv t st \<Longrightarrow> t \<le> now e \<Longrightarrow> tracker_inv (now e) (handleIdleState e i st)"
  by (auto simp: tracker_inv_def handleIdleState_def map_current_def session_inv_def truthy_time_def
      split: option.splits)

lemma inv_performanceCheck:
  "tracker_inv t st \<Longrightarrow> t \<le> now e \<Longrightarrow> tracker_inv (now e) (fst (performanceCheck h e st))"
  by (auto simp: tracker_inv_def performanceCheck_def session_inv_def Let_def split: option.splits)

lemma inv_handleAlarm:
  assumes "tracker_inv t st" and "t \<le> now e"
  shows "tracker_inv (now e) (fst (handleAlarm h e n st))"
proof -
  have "tracker_inv (now e) st" using assms by (rule tracker_inv_mono)
  then show ?thesis
    using inv_performanceCheck [OF assms]
    by (simp add: handleAlarm_def tracker_inv_def frame_simps)
qed

lemma inv_handleMessage:
  assumes "tracker_inv t st" and "t \<le> now e"
  shows "tracker_inv (now e) (fst (handleMessage h e req sender st))"
proof -
  have inv: "tracker_inv (now e) st" using assms by (rule tracker_inv_mono)
  show ?thesis
  proof (cases req)
    case (ActivityUpdate d)
    have "tracker_inv (now e) (updateSessionActivity e d st)"
      using inv by (auto simp: tracker_inv_def updateSessionActivity_def session_inv_def Let_def
        map_current_def split: option.splits)
    then show ?thesis
      using inv ActivityUpdate by (simp add: handleMessage_def split: option.splits)
  qed (use inv in \<open>simp_all add: handleMessage_def tracker_inv_def frame_simps Let_def\<close>)
qed

lemma inv_dispatch:
  assumes "has_queueForRetry h" and "tracker_inv t st" and "t \<le> now e"
  shows "tracker_inv (now e) (fst (dispatch h e ev st))"
proof -
  have inv: "tracker_inv (now e) st" using assms(2,3) by (rule tracker_inv_mono)
  show ?thesis
  proof (cases ev)
    case (MessageReceived req sender)
    then show ?thesis
      using inv_handleMessage [OF assms(2,3), of h req sender]
      by (cases "handleMessage h e req sender st") simp
  next
    case (MemoryCheck b)
    then show ?thesis using inv by (simp add: tracker_inv_def frame_simps)
  qed (use assms inv in \<open>simp_all add: inv_handleTabChange inv_handleWindowFocus inv_handleIdleState
        inv_handleAlarm\<close>)
qed

lemma endCurrentSession_current:
  "currentSession (fst (endCurrentSession h e st)) = None
   \<or> (\<exists>s. currentSession st = Some s \<and> currentSession (fst (endCurrentSession h e st)) = Some (finish_session (now e) s))"
  by (auto simp: endCurrentSession_def Let_def split: option.splits prod.splits)

lemma endCurrentSession_ok:
  "snd (endCurrentSession h e st) = None \<Longrightarrow> currentSession (fst (endCurrentSession h e st)) = None"
  by (auto simp: endCurrentSession_def Let_def split: option.splits prod.splits)

lemma handleTabChange_cases:
  "handleTabChange h e tid st =
    (if snd (endCurrentSession h e st) = None then
       (case tabs e tid of
          None \<Rightarrow> (fst (endCurrentSession h e st), None)
        | Some t \<Rightarrow> (if truthy_str (tab_url t) \<and> \<not> isSystemUrl (the (tab_url t))
                    then fst (startNewSession h e t (the (tab_url t)) (fst (endCurrentSession h e st)))
                    else fst (endCurrentSession h e st), None))
     else endCurrentSession h e st)"
  by (cases "endCurrentSession h e st") (auto simp: handleTabChange_def split: option.splits)

lemma handleTabChange_current:
  "currentSession (fst (handleTabChange h e tid st)) = None
   \<or> (\<exists>tb u c. currentSession (fst (handleTabChange h e tid st)) = Some (new_session e tb u c))
   \<or> (\<exists>s. currentSession st = Some s \<and> currentSession (fst (handleTabChange h e tid st)) = Some (finish_session (now e) s))"
proof (cases "snd (endCurrentSession h e st) = None")
  case True
  let ?st1 = "fst (endCurrentSession h e st)"
  have c1: "currentSession ?st1 = None" using True by (rule endCurrentSession_ok)
  have "currentSession (fst (startNewSession h e tb u ?st1)) = None
        \<or> (\<exists>c. currentSession (fst (startNewSession h e tb u ?st1)) = Some (new_session e tb u c))" for tb u
    using startNewSession_current [of h e tb u ?st1] c1 by simp
  then show ?thesis
    using True c1 by (simp add: handleTabChange_cases split: option.splits) blast
next
  case False
  then have "handleTabChange h e tid st = endCurrentSession h e st"
    by (simp only: handleTabChange_cases if_False)
  then show ?thesis using endCurrentSession_current [of h e st] by auto
qed

lemma map_current_update:
  assumes "\<And>s. session_update t s (f s)"
  shows "currentSession (map_current f st) = None
    \<or> (\<exists>s s'. currentSession st = Some s \<and> currentSession (map_current f st) = Some s' \<and> session_update t s s')"
  using assms by (cases "currentSession st") (auto simp: map_current_def)

lemma focus_update: "session_update (now e) s
    (if w = WINDOW_ID_NONE then s\<lparr>lastBlurTime := Some (now e)\<rparr>
     else if truthy_time (lastBlurTime s)
          then s\<lparr>timeSpentIdle := timeSpentIdle s + (now e - the (lastBlurTime s)), lastBlurTime := None\<rparr>
          else s)"
  by (auto intro: session_update.intros)

lemma handleWindowFocus_map: "handleWindowFocus e w st = map_current (\<lambda>s.
    if w = WINDOW_ID_NONE then s\<lparr>lastBlurTime := Some (now e)\<rparr>
     else if truthy_time (lastBlurTime s)
          then s\<lparr>timeSpentIdle := timeSpentIdle s + (now e - the (lastBlurTime s)), lastBlurTime := None\<rparr>
          else s) st"
  by (simp add: handleWindowFocus_def map_current_def)

lemma idle_update: "session_update (now e) s
    (if i = Idle \<or> i = Locked then s\<lparr>idleStartTime := Some (now e), focusScore := max 0 (focusScore s - 10)\<rparr>
     else if truthy_time (idleStartTime s)
          then s\<lparr>timeSpentIdle := timeSpentIdle s + (now e - the (idleStartTime s)), idleStartTime := None\<rparr>
          else s)"
  by (auto intro: session_update.intros)

lemma handleIdleState_map: "handleIdleState e i st = map_current (\<lambda>s.
    if i = Idle \<or> i = Locked then s\<lparr>idleStartTime := Some (now e), focusScore := max 0 (focusScore s - 10)\<rparr>
     else if truthy_time (idleStartTime s)
          then s\<lparr>timeSpentIdle := timeSpentIdle s + (now e - the (idleStartTime s)), idleStartTime := None\<rparr>
          else s) st"
  by (simp add: handleIdleState_def map_current_def)

lemma performanceCheck_current:
  "currentSession (fst (performanceCheck h e st)) = None
    \<or> (\<exists>s s'. currentSession st = Some s \<and> currentSession (fst (performanceCheck h e st)) = Some s'
        \<and> session_update (now e) s s')"
  by (cases "currentSession st") (auto simp: performanceCheck_def Let_def intro: session_update.intros)

lemma handleMessage_current:
  "currentSession (fst (handleMessage h e req sender st)) = None
    \<or> (\<exists>s s'. currentSession st = Some s \<and> currentSession (fst (handleMessage h e req sender st)) = Some s'
        \<and> session_update (now e) s s')"
proof (cases "currentSession st")
  case None
  then show ?thesis by (cases req) (simp_all add: handleMessage_def frame_simps Let_def)
next
  case (Some s)
  have act: "\<exists>s'. currentSession (updateSessionActivity e d st) = Some s' \<and> session_update (now e) s s'" for d
    using Some by (simp add: updateSessionActivity_def map_current_def Let_def session_update.activity)
  show ?thesis
  proof (cases req)
    case (ActivityUpdate d)
    then show ?thesis using Some act [of d]
      by (cases sender) (auto simp: handleMessage_def intro: session_update.keep)
  qed (use Some in \<open>simp_all add: handleMessage_def frame_simps Let_def session_update.keep\<close>)
qed

lemma dispatch_current:
  "currentSession (fst (dispatch h e ev st)) = None
   \<or> (\<exists>tb u c. currentSession (fst (dispatch h e ev st)) = Some (new_session e tb u c))
   \<or> (\<exists>s s'. currentSession st = Some s \<and> currentSession (fst (dispatch h e ev st)) = Some s'
          \<and> session_update (now e) s s')"
proof -
  have same: "currentSession st = None \<or> (\<exists>s s'. currentSession st = Some s \<and> currentSession st = Some s'
          \<and> session_update (now e) s s')"
    by (cases "currentSession st") (auto intro: session_update.keep)
  show ?thesis
  proof (cases ev)
    case (TabActivated tid)
    then show ?thesis using handleTabChange_current [of h e tid st] by (auto intro: session_update.finish)
  next
    case (TabUpdated tid status active)
    then show ?thesis using handleTabChange_current [of h e tid st] same
      by (auto intro: session_update.finish)
  next
    case (NavigationCompleted f)
    then show ?thesis using same by auto
  next
    case (WindowFocusChanged w)
    have "currentSession (handleWindowFocus e w st) = None
      \<or> (\<exists>s s'. currentSession st = Some s \<and> currentSession (handleWindowFocus e w st) = Some s'
          \<and> session_update (now e) s s')"
      unfolding handleWindowFocus_map by (rule map_current_update, rule focus_update)
    then show ?thesis using WindowFocusChanged by auto
  next
    case (IdleStateChanged i)
    have "currentSession (handleIdleState e i st) = None
      \<or> (\<exists>s s'. currentSession st = Some s \<and> currentSession (handleIdleState e i st) = Some s'
          \<and> session_update (now e) s s')"
      unfolding handleIdleState_map by (rule map_current_update, rule idle_update)
    then show ?thesis using IdleStateChanged by auto
  next
    case (AlarmFired n)
    then show ?thesis
      using performanceCheck_current [of h e st] same by (auto simp: handleAlarm_def frame_simps)
  next
    case (MessageReceived req sender)
    then show ?thesis
      using handleMessage_current [of h e req sender st]
      by (cases "handleMessage h e req sender st") auto
  next
    case (MemoryCheck b)
    then show ?thesis using same by (auto simp: frame_simps)
  qed
qed

lemma session_update_keeps:
  "session_update t s s' \<Longrightarrow> distractions s' = distractions s \<and> sessionId s' = sessionId s
     \<and> startTime s' = startTime s \<and> tabId s' = tabId s \<and> category s' = category s"
  by (induction rule: session_update.induct) (simp_all add: finish_session_def Let_def)

lemma storage_startNewSession: "storage (fst (startNewSession h e t u st)) = storage st"
  by (simp add: startNewSession_def Let_def updateBadge_def startActivityMonitoring_def
      applyFocusMode_def notify_def split: sum.splits)

lemma handleTabChange_missing:
  "getCustomCategory h = None \<Longrightarrow> currentSession st = None \<Longrightarrow> currentSession (fst (handleTabChange h e tid st)) = None"
  by (simp add: handleTabChange_def endCurrentSession_None startNewSession_missing split: option.splits)

lemma dispatch_no_category:
  assumes "getCustomCategory h = None" and "currentSession st = None"
  shows "currentSession (fst (dispatch h e ev st)) = None"
  using dispatch_current [of h e ev st] assms
proof (cases ev)
  case (MessageReceived req sender)
  then show ?thesis using handleMessage_current [of h e req sender st] assms(2)
    by (cases "handleMessage h e req sender st") auto
qed (auto simp: handleTabChange_missing handleWindowFocus_map handleIdleState_map map_current_def
      handleAlarm_def performanceCheck_def frame_simps)

lemma daily_handleTabChange:
  "currentSession st = Some s \<Longrightarrow>
   daily (storage (fst (handleTabChange h e tid st))) = updateDailyAggregates (today e) (finish_session (now e) s) (daily (storage st))"
  by (auto simp: handleTabChange_def endCurrentSession_def Let_def saveSessionData_def storage_startNewSession
      split: prod.splits option.splits)

lemma sessions_update: "sessions (day_of (updateDailyAggregates d s store) d) = sessions (day_of store d) + 1"
  by (simp add: updateDailyAggregates_def day_of_def Let_def)

lemma reachable_inv: "reachable h t st \<Longrightarrow> has_queueForRetry h \<Longrightarrow> tracker_inv t st"
proof (induction rule: reachable.induct)
  case (init t stg sy)
  then show ?case by (simp add: tracker_inv_def init_tracker_def)
next
  case (step t st e ev)
  then show ?case by (simp add: inv_dispatch)
qed

lemma handleTabChange_retry_ok: "has_queueForRetry h \<Longrightarrow> snd (handleTabChange h e tid st) = None"
  using endCurrentSession_retry [of h e st]
  by (cases "endCurrentSession h e st") (auto simp: handleTabChange_def split: option.splits)

lemma demo_start:
  "currentSession (fst (dispatch (spec_hooks Map.empty) demo_env (TabActivated 1) (init_tracker empty_store empty_sync)))
   = Some (new_session demo_env demo_tab ''https://github.com/foo'' Highly_productive)"
  by (simp add: handleTabChange_def endCurrentSession_None init_tracker_def demo_env_def
      startNewSession_def Let_def categorizeWebsite_def spec_hooks_def extractDomain_def url_hostname_def
      split_scheme_def authority_host_def is_ascii_alpha_def is_scheme_char_def js_simps getCategories_def
      isSystemUrl_def truthy_str_def demo_tab_def frame_simps)

lemma endCurrentSession_Some:
  "currentSession st = Some s \<Longrightarrow> snd (endCurrentSession h e st) = None \<Longrightarrow>
   fst (endCurrentSession h e st) = st\<lparr>currentSession := None,
      storage := saveSessionData (today e) (finish_session (now e) s) (storage st),
      sync := fst (syncWithBackend (has_queueForRetry h) (now e) (rand_user e) (net_ok e) (finish_session (now e) s) (sync st))\<rparr>"
  by (auto simp: endCurrentSession_def Let_def split: prod.splits option.splits)

lemma handleTabChange_ok_end:
  "snd (handleTabChange h e tid st) = None \<Longrightarrow> snd (endCurrentSession h e st) = None"
  by (cases "endCurrentSession h e st") (auto simp: handleTabChange_def split: option.splits)

lemma handleTabChange_storage:
  "snd (endCurrentSession h e st) = None \<Longrightarrow>
   storage (fst (handleTabChange h e tid st)) = storage (fst (endCurrentSession h e st))"
  by (cases "endCurrentSession h e st") (auto simp: handleTabChange_def storage_startNewSession split: option.splits)

lemma demo_started_current: "currentSession demo_started = Some demo_session"
  using demo_start by (simp add: demo_started_def demo_session_def)

lemma endCurrentSession_fail:
  assumes "\<not> has_queueForRetry h" and "\<not> net_ok e" and "currentSession st = Some s"
  shows "snd (endCurrentSession h e st) \<noteq> None
    \<and> currentSession (fst (endCurrentSession h e st)) = Some (finish_session (now e) s)"
proof -
  obtain sy where sy: "syncWithBackend (has_queueForRetry h) (now e) (rand_user e) (net_ok e)
      (finish_session (now e) s) (sync st) = (sy, Some (TypeError ''this.queueForRetry is not a function''))"
    using syncWithBackend_repo_fail [of "now e" "rand_user e" "finish_session (now e) s" "sync st"] assms(1,2)
    by (metis prod.collapse)
  show ?thesis using assms(3) sy by (simp add: endCurrentSession_def Let_def)
qed

section \<open>Properties\<close>

text \<open>C1: in the repository as it is, \<open>getCustomCategory\<close> is not defined, so \<open>categorizeWebsite\<close> throws on every tab change, \<open>handleTabChange\<close> catches the rejection, and no reachable state of the tracker ever has a current session: nothing is ever tracked.\<close>

theorem repo_never_tracks: "reachable repo_hooks t st \<Longrightarrow> currentSession st = None"
proof (induction rule: reachable.induct)
  case (init t stg sy)
  then show ?case by (simp add: init_tracker_def)
next
  case (step t st e ev)
  then show ?case by (simp add: dispatch_no_category repo_hooks_def)
qed

theorem repo_never_tracks_witness:
  "reachable repo_hooks 5 (fst (dispatch repo_hooks demo_env (TabActivated 1) (init_tracker empty_store empty_sync)))
   \<and> currentSession (fst (dispatch repo_hooks demo_env (TabActivated 1) (init_tracker empty_store empty_sync))) = None"
proof -
  have r: "reachable repo_hooks 5 (fst (dispatch repo_hooks demo_env (TabActivated 1) (init_tracker empty_store empty_sync)))"
    using reachable.step [OF reachable.init [of repo_hooks 0 empty_store empty_sync], of demo_env "TabActivated 1"]
    by (simp add: demo_env_def)
  show ?thesis using r repo_never_tracks [OF r] by simp
qed

text \<open>C2: a tab change that completes ends the current session before it starts another: the ended session (end time, duration and scores set) is stored under its start time and as \<open>lastSession\<close>, the daily aggregate is updated with it, and the new current session, if any, is a fresh one started at the time of the event.\<close>

theorem tab_change_ends_first:
  assumes "currentSession st = Some s" and "snd (handleTabChange h e tid st) = None"
  shows "stored_sessions (storage (fst (handleTabChange h e tid st))) (startTime s) = Some (finish_session (now e) s)
    \<and> lastSession (storage (fst (handleTabChange h e tid st))) = Some (finish_session (now e) s)
    \<and> daily (storage (fst (handleTabChange h e tid st)))
        = updateDailyAggregates (today e) (finish_session (now e) s) (daily (storage st))
    \<and> (currentSession (fst (handleTabChange h e tid st)) = None
       \<or> (\<exists>tb u c. currentSession (fst (handleTabChange h e tid st)) = Some (new_session e tb u c)))"
proof -
  have ok: "snd (endCurrentSession h e st) = None" using assms(2) by (rule handleTabChange_ok_end)
  have st_eq: "storage (fst (handleTabChange h e tid st)) = saveSessionData (today e) (finish_session (now e) s) (storage st)"
    using handleTabChange_storage [OF ok] endCurrentSession_Some [OF assms(1) ok] by simp
  have start: "startTime (finish_session (now e) s) = startTime s"
    by (simp add: finish_session_def Let_def)
  have c1: "currentSession (fst (endCurrentSession h e st)) = None" using ok by (rule endCurrentSession_ok)
  have "currentSession (fst (startNewSession h e tb u (fst (endCurrentSession h e st)))) = None
        \<or> (\<exists>c. currentSession (fst (startNewSession h e tb u (fst (endCurrentSession h e st))))
                = Some (new_session e tb u c))" for tb u
    using startNewSession_current [of h e tb u "fst (endCurrentSession h e st)"] c1 by simp
  then have cur: "currentSession (fst (handleTabChange h e tid st)) = None
       \<or> (\<exists>tb u c. currentSession (fst (handleTabChange h e tid st)) = Some (new_session e tb u c))"
    using ok c1 by (simp add: handleTabChange_cases split: option.splits) blast
  show ?thesis using st_eq start cur by (simp add: saveSessionData_def Let_def)
qed

theorem tab_change_ends_first_witness:
  "currentSession demo_started = Some demo_session
   \<and> snd (handleTabChange (spec_hooks Map.empty) (demo_env\<lparr>now := 100\<rparr>) 1 demo_started) = None
   \<and> stored_sessions (storage (fst (handleTabChange (spec_hooks Map.empty) (demo_env\<lparr>now := 100\<rparr>) 1 demo_started)))
       (startTime demo_session) = Some (finish_session 100 demo_session)"
proof -
  have ok: "snd (handleTabChange (spec_hooks Map.empty) (demo_env\<lparr>now := 100\<rparr>) 1 demo_started) = None"
    by (rule handleTabChange_retry_ok) (simp add: spec_hooks_def)
  show ?thesis using demo_started_current ok tab_change_ends_first [OF demo_started_current ok] by simp
qed

text \<open>C3: with the methods the spec describes, every session current in a reachable state has a focus score in [0, 100], no distractions, a start time and idle and blur stamps not after the last event, non-negative idle time, and no end time.\<close>

theorem live_session_invariant:
  "reachable (spec_hooks tbl) t st \<Longrightarrow> currentSession st = Some s \<Longrightarrow> session_inv t s"
  using reachable_inv [of "spec_hooks tbl" t st] by (simp add: spec_hooks_def tracker_inv_def)

theorem live_session_invariant_witness:
  "reachable (spec_hooks Map.empty) 5 (fst (dispatch (spec_hooks Map.empty) demo_env (TabActivated 1) (init_tracker empty_store empty_sync)))
   \<and> currentSession (fst (dispatch (spec_hooks Map.empty) demo_env (TabActivated 1) (init_tracker empty_store empty_sync)))
       = Some (new_session demo_env demo_tab ''https://github.com/foo'' Highly_productive)
   \<and> session_inv 5 (new_session demo_env demo_tab ''https://github.com/foo'' Highly_productive)"
proof -
  have r: "reachable (spec_hooks Map.empty) 5 (fst (dispatch (spec_hooks Map.empty) demo_env (TabActivated 1) (init_tracker empty_store empty_sync)))"
    using reachable.step [OF reachable.init [of "spec_hooks Map.empty" 0 empty_store empty_sync], of demo_env "TabActivated 1"]
    by (simp add: demo_env_def)
  show ?thesis using r demo_start live_session_invariant [OF r demo_start] by simp
qed

text \<open>C9: when \<open>queueForRetry\<close> is missing (as in the repository) and the network is down, the TypeError thrown from the \<open>catch\<close> block leaves the ended session current and starts no new one, and the next tab change ends and aggregates the same session again: the day's session count grows by two for one session.\<close>

theorem missing_retry_double_count:
  assumes "\<not> has_queueForRetry h" and "\<not> net_ok e1" and "currentSession st = Some s"
    and "today e2 = today e1"
  shows "currentSession (fst (handleTabChange h e1 tid st)) = Some (finish_session (now e1) s)
    \<and> sessions (day_of (daily (storage (fst (handleTabChange h e2 tid' (fst (handleTabChange h e1 tid st)))))) (today e1))
      = sessions (day_of (daily (storage st)) (today e1)) + 2"
proof -
  have f: "snd (endCurrentSession h e1 st) \<noteq> None"
    and c: "currentSession (fst (endCurrentSession h e1 st)) = Some (finish_session (now e1) s)"
    using endCurrentSession_fail [OF assms(1-3)] by auto
  have eq1: "handleTabChange h e1 tid st = endCurrentSession h e1 st"
    using f by (simp only: handleTabChange_cases if_False)
  show ?thesis
    using c eq1 assms(3,4) daily_handleTabChange [OF assms(3), of h e1 tid]
      daily_handleTabChange [OF c [folded eq1], of h e2 tid'] sessions_update
    by simp
qed

theorem missing_retry_double_count_witness:
  "\<not> has_queueForRetry (repo_hooks\<lparr>getCustomCategory := Some Map.empty\<rparr>)
   \<and> \<not> net_ok (demo_env\<lparr>now := 100, net_ok := False\<rparr>)
   \<and> currentSession demo_started = Some demo_session
   \<and> sessions (day_of (daily (storage (fst (handleTabChange (repo_hooks\<lparr>getCustomCategory := Some Map.empty\<rparr>)
        (demo_env\<lparr>now := 200\<rparr>) 1 (fst (handleTabChange (repo_hooks\<lparr>getCustomCategory := Some Map.empty\<rparr>)
        (demo_env\<lparr>now := 100, net_ok := False\<rparr>) 1 demo_started)))))) ''Mon Nov 09 2026'')
      = sessions (day_of (daily (storage demo_started)) ''Mon Nov 09 2026'') + 2"
proof -
  have h: "\<not> has_queueForRetry (repo_hooks\<lparr>getCustomCategory := Some Map.empty\<rparr>)" by (simp add: repo_hooks_def)
  have n: "\<not> net_ok (demo_env\<lparr>now := 100, net_ok := False\<rparr>)" by simp
  have d: "today (demo_env\<lparr>now := 200\<rparr>) = today (demo_env\<lparr>now := 100, net_ok := False\<rparr>)" by simp
  show ?thesis
    using h n demo_started_current missing_retry_double_count [OF h n demo_started_current d, of 1 1]
    by (simp add: demo_env_def)
qed

text \<open>C10: no handler ever increments \<open>distractions\<close>: in every reachable state the current session has none, so the 5-point distraction penalty of \<open>calculateFinalFocusScore\<close> never applies.\<close>

theorem distractions_never_recorded:
  "reachable h t st \<Longrightarrow> currentSession st = Some s \<Longrightarrow> distractions s = 0"
proof (induction arbitrary: s rule: reachable.induct)
  case (init t stg sy)
  then show ?case by (simp add: init_tracker_def)
next
  case (step t st e ev)
  then show ?case
    using dispatch_current [of h e ev st] session_update_keeps
    by (auto simp: new_session_def)
qed

theorem distractions_never_recorded_witness:
  "reachable (spec_hooks Map.empty) 5 demo_started \<and> currentSession demo_started = Some demo_session
   \<and> distractions demo_session = 0"
proof -
  have r: "reachable (spec_hooks Map.empty) 5 demo_started"
    using reachable.step [OF reachable.init [of "spec_hooks Map.empty" 0 empty_store empty_sync], of demo_env "TabActivated 1"]
    by (simp add: demo_env_def demo_started_def)
  show ?thesis using r demo_started_current distractions_never_recorded [OF r demo_started_current] by simp
qed

text \<open>C14: with a retry queue, ending a session is idempotent: ending again once no session is current changes nothing and throws nothing.\<close>

theorem end_idempotent:
  "has_queueForRetry h \<Longrightarrow> endCurrentSession h e (fst (endCurrentSession h e st)) = (fst (endCurrentSession h e st), None)"
  using endCurrentSession_retry [of h e st] by (simp add: endCurrentSession_None)

theorem end_idempotent_witness:
  "has_queueForRetry (spec_hooks Map.empty)
   \<and> endCurrentSession (spec_hooks Map.empty) demo_env (fst (endCurrentSession (spec_hooks Map.empty) demo_env demo_started))
     = (fst (endCurrentSession (spec_hooks Map.empty) demo_env demo_started), None)"
proof -
  have h: "has_queueForRetry (spec_hooks Map.empty)" by (simp add: spec_hooks_def)
  show ?thesis using h end_idempotent [OF h] by simp
qed

text \<open>C15: with a retry queue, a tab change to a system URL (chrome://, chrome-extension://, moz-extension://, about:) ends the current session and starts none.\<close>

theorem system_url_no_session:
  "has_queueForRetry h \<Longrightarrow> tabs e tid = Some tb \<Longrightarrow> tab_url tb = Some u \<Longrightarrow> isSystemUrl u
   \<Longrightarrow> currentSession (fst (handleTabChange h e tid st)) = None"
  using endCurrentSession_retry [of h e st]
  by (cases "endCurrentSession h e st") (auto simp: handleTabChange_def)

theorem system_url_no_session_witness:
  "has_queueForRetry (spec_hooks Map.empty)
   \<and> tabs (demo_env\<lparr>tabs := [2 \<mapsto> demo_tab\<lparr>tab_id := 2, tab_url := Some ''chrome://extensions''\<rparr>]\<rparr>) 2
       = Some (demo_tab\<lparr>tab_id := 2, tab_url := Some ''chrome://extensions''\<rparr>)
   \<and> isSystemUrl ''chrome://extensions''
   \<and> currentSession (fst (handleTabChange (spec_hooks Map.empty)
       (demo_env\<lparr>tabs := [2 \<mapsto> demo_tab\<lparr>tab_id := 2, tab_url := Some ''chrome://extensions''\<rparr>]\<rparr>) 2 demo_started)) = None"
proof -
  have h: "has_queueForRetry (spec_hooks Map.empty)" by (simp add: spec_hooks_def)
  have s: "isSystemUrl ''chrome://extensions''" by (simp add: isSystemUrl_def)
  show ?thesis using h s system_url_no_session [OF h _ _ s] by simp
qed

text \<open>C16: going idle and back: the focus score drops by 10 (not below 0), the idle interval is added to the idle time and the idle stamp is cleared.\<close>

theorem idle_round_trip:
  assumes "currentSession st = Some s" and "now e1 \<noteq> 0"
  shows "currentSession (handleIdleState e2 Active (handleIdleState e1 Idle st))
    = Some (s\<lparr>idleStartTime := None, focusScore := max 0 (focusScore s - 10),
              timeSpentIdle := timeSpentIdle s + (now e2 - now e1)\<rparr>)"
  using assms by (simp add: handleIdleState_def map_current_def truthy_time_def)

theorem idle_round_trip_witness:
  "currentSession demo_started = Some demo_session \<and> now (demo_env\<lparr>now := 60\<rparr>) \<noteq> 0
   \<and> currentSession (handleIdleState (demo_env\<lparr>now := 90\<rparr>) Active (handleIdleState (demo_env\<lparr>now := 60\<rparr>) Idle demo_started))
     = Some (demo_session\<lparr>idleStartTime := None, focusScore := 90, timeSpentIdle := 30\<rparr>)"
proof -
  have n: "now (demo_env\<lparr>now := 60\<rparr>) \<noteq> 0" by simp
  show ?thesis
    using demo_started_current n idle_round_trip [OF demo_started_current n, of "demo_env\<lparr>now := 90\<rparr>"]
    by (simp add: demo_session_def new_session_def)
qed

end
