(* ===== verification/Content.thy ===== *)
theory Content
  imports Dispatcher
begin

text \<open>
  The content script \<^verbatim>\<open>src/content.js\<close>, injected into each page: the object
  \<open>activityData\<close> (lines 2--9) counts the page's \<open>keydown\<close>, \<open>mousemove\<close>,
  \<open>scroll\<close> and \<open>click\<close> events (12--30); after each one \<open>updateActivity\<close>
  (32--48) adds the time since the previous event to \<open>activeTime\<close> and, when
  the keystroke count is a multiple of 10 or the mouse-move count a multiple of
  50, sends a copy of the whole object to the background as an
  \<open>activityUpdate\<close> message. \<open>sendMessage\<close> throws only when the extension
  context is invalidated (the extension was reloaded), which lasts for the page's
  life: the flag \<open>ok\<close>; the \<open>catch\<close> drops the report.

  The composition with the background is the dispatcher's \<open>run\<close> over the
  messages the page sent, from the page's tab.
\<close>

datatype dom_event = KeyDown | MouseMove | Scroll | Click

definition content_load :: "int \<Rightarrow> activity_data" where
  "content_load t = \<lparr>a_keystrokes = 0, a_mouseMovements = 0, a_scrolls = 0, a_clicks = 0,
                      a_activeTime = 0, a_lastActivity = t\<rparr>"

primrec count_event :: "dom_event \<Rightarrow> activity_data \<Rightarrow> activity_data" where
  "count_event KeyDown d = d\<lparr>a_keystrokes := a_keystrokes d + 1\<rparr>"
| "count_event MouseMove d = d\<lparr>a_mouseMovements := a_mouseMovements d + 1\<rparr>"
| "count_event Scroll d = d\<lparr>a_scrolls := a_scrolls d + 1\<rparr>"
| "count_event Click d = d\<lparr>a_clicks := a_clicks d + 1\<rparr>"

definition should_send :: "activity_data \<Rightarrow> bool" where
  "should_send d \<longleftrightarrow> js_rem (a_keystrokes d) 10 = 0 \<or> js_rem (a_mouseMovements d) 50 = 0"

text \<open>\<open>updateActivity\<close> at time \<open>t\<close>: the new object and the report sent, if any.\<close>

definition updateActivity :: "bool \<Rightarrow> int \<Rightarrow> activity_data \<Rightarrow> activity_data \<times> activity_data option" where
  "updateActivity ok t d =
    (let d1 = d\<lparr>a_activeTime := a_activeTime d + (t - a_lastActivity d), a_lastActivity := t\<rparr>
     in (d1, if should_send d1 \<and> ok then Some d1 else None))"

definition content_event :: "bool \<Rightarrow> int \<Rightarrow> dom_event \<Rightarrow> activity_data \<Rightarrow> activity_data \<times> activity_data option" where
  "content_event ok t ev d = updateActivity ok t (count_event ev d)"

text \<open>A run of the page: its events with their times; the final object and the
  reports in the order they were sent.\<close>

fun content_run :: "bool \<Rightarrow> (int \<times> dom_event) list \<Rightarrow> activity_data \<Rightarrow> activity_data \<times> activity_data list" where
  "content_run ok [] d = (d, [])"
| "content_run ok ((t, ev) # evs) d =
     (let r = content_event ok t ev d; rest = content_run ok evs (fst r)
      in (fst rest, (case snd r of None \<Rightarrow> [] | Some x \<Rightarrow> [x]) @ snd rest))"

definition count_of :: "dom_event \<Rightarrow> (int \<times> dom_event) list \<Rightarrow> int" where
  "count_of ev evs = int (length (filter (\<lambda>x. snd x = ev) evs))"

text \<open>The background's side: each report delivered as the message
  \<open>activityUpdate\<close> from the page's tab.\<close>

definition deliver :: "int \<Rightarrow> (env \<times> activity_data) list \<Rightarrow> (env \<times> event) list" where
  "deliver tid eds = map (\<lambda>(e, d). (e, MessageReceived (ActivityUpdate d) (Some tid))) eds"

section \<open>Lemmas\<close>

lemma content_event_fields [simp]:
  "a_keystrokes (fst (content_event ok t ev d)) = a_keystrokes d + (if ev = KeyDown then 1 else 0)"
  "a_mouseMovements (fst (content_event ok t ev d)) = a_mouseMovements d + (if ev = MouseMove then 1 else 0)"
  "a_scrolls (fst (content_event ok t ev d)) = a_scrolls d + (if ev = Scroll then 1 else 0)"
  "a_clicks (fst (content_event ok t ev d)) = a_clicks d + (if ev = Click then 1 else 0)"
  "a_activeTime (fst (content_event ok t ev d)) = a_activeTime d + (t - a_lastActivity d)"
  "a_lastActivity (fst (content_event ok t ev d)) = t"
  by (cases ev; simp add: content_event_def updateActivity_def Let_def)+

lemma content_event_sent:
  "snd (content_event ok t ev d) = (if should_send (fst (content_event ok t ev d)) \<and> ok
                                     then Some (fst (content_event ok t ev d)) else None)"
  by (simp add: content_event_def updateActivity_def Let_def)

lemma count_of_simps [simp]:
  "count_of ev [] = 0"
  "count_of ev ((t, ev') # evs) = (if ev' = ev then 1 else 0) + count_of ev evs"
  by (simp_all add: count_of_def)

lemma content_run_counts:
  "a_keystrokes (fst (content_run ok evs d)) = a_keystrokes d + count_of KeyDown evs
   \<and> a_mouseMovements (fst (content_run ok evs d)) = a_mouseMovements d + count_of MouseMove evs
   \<and> a_scrolls (fst (content_run ok evs d)) = a_scrolls d + count_of Scroll evs
   \<and> a_clicks (fst (content_run ok evs d)) = a_clicks d + count_of Click evs"
  by (induction evs arbitrary: d) (auto simp: Let_def)

lemma content_run_time:
  "a_activeTime (fst (content_run ok evs d)) - a_lastActivity (fst (content_run ok evs d))
     = a_activeTime d - a_lastActivity d"
  by (induction evs arbitrary: d) (auto simp: Let_def)

lemma content_run_last:
  "evs \<noteq> [] \<Longrightarrow> a_lastActivity (fst (content_run ok evs d)) = fst (last evs)"
  by (induction evs arbitrary: d) (auto simp: Let_def)

lemma dispatch_activity:
  "currentSession st = Some s \<Longrightarrow>
   fst (dispatch h e (MessageReceived (ActivityUpdate d) (Some (tabId s))) st) = updateSessionActivity e d st"
  by (simp add: handleMessage_def)

lemma updateSessionActivity_current:
  "currentSession st = Some s \<Longrightarrow>
   \<exists>s'. currentSession (updateSessionActivity e d st) = Some s' \<and> tabId s' = tabId s
        \<and> keystrokes s' = keystrokes s + a_keystrokes d"
  by (simp add: updateSessionActivity_def Let_def)

lemma run_deliver:
  "currentSession st = Some s \<Longrightarrow>
   \<exists>s'. currentSession (run h (deliver (tabId s) eds) st) = Some s' \<and> tabId s' = tabId s
        \<and> keystrokes s' = keystrokes s + sum_list (map (a_keystrokes \<circ> snd) eds)"
proof (induction eds arbitrary: st s)
  case Nil
  then show ?case by (simp add: deliver_def)
next
  case (Cons ed eds)
  obtain e d where ed: "ed = (e, d)" by fastforce
  obtain s1 where s1: "currentSession (updateSessionActivity e d st) = Some s1" "tabId s1 = tabId s"
      "keystrokes s1 = keystrokes s + a_keystrokes d"
    using updateSessionActivity_current [OF Cons.prems] by blast
  have step: "run h (deliver (tabId s) (ed # eds)) st = run h (deliver (tabId s) eds) (updateSessionActivity e d st)"
    by (simp add: ed deliver_def dispatch_activity [OF Cons.prems] del: dispatch.simps)
  from Cons.IH [OF s1(1)] s1 show ?case
    unfolding step by (simp add: ed add.assoc)
qed

lemma typing_reports:
  "a_mouseMovements d = 0 \<Longrightarrow>
   map a_keystrokes (snd (content_run True (map (\<lambda>t. (t, KeyDown)) ts) d))
     = map (\<lambda>i. a_keystrokes d + int (Suc i)) [0..<length ts]"
proof (induction ts arbitrary: d)
  case Nil
  then show ?case by simp
next
  case (Cons t ts)
  have "should_send (fst (content_event True t KeyDown d))"
    using Cons.prems by (simp add: should_send_def js_rem_def)
  with Cons.prems Cons.IH [of "fst (content_event True t KeyDown d)"] show ?case
    by (simp add: Let_def content_event_sent map_upt_Suc del: upt_Suc)
qed

lemma reports_all:
  "(a_keystrokes d = 0 \<and> KeyDown \<notin> snd ` set evs) \<or> (a_mouseMovements d = 0 \<and> MouseMove \<notin> snd ` set evs) \<Longrightarrow>
   length (snd (content_run True evs d)) = length evs"
proof (induction evs arbitrary: d)
  case Nil
  then show ?case by simp
next
  case (Cons x evs)
  obtain t ev where x: "x = (t, ev)" by fastforce
  let ?d1 = "fst (content_event True t ev d)"
  have "should_send ?d1" using Cons.prems by (auto simp: x should_send_def js_rem_def)
  moreover have "(a_keystrokes ?d1 = 0 \<and> KeyDown \<notin> snd ` set evs) \<or> (a_mouseMovements ?d1 = 0 \<and> MouseMove \<notin> snd ` set evs)"
    using Cons.prems by (auto simp: x)
  ultimately show ?case using Cons.IH [of ?d1] by (simp add: x Let_def content_event_sent)
qed

lemma reports_above:
  "r \<in> set (snd (content_run ok evs d)) \<Longrightarrow> a_keystrokes d \<le> a_keystrokes r"
proof (induction evs arbitrary: d)
  case Nil
  then show ?case by simp
next
  case (Cons x evs)
  obtain t ev where x: "x = (t, ev)" by fastforce
  have "a_keystrokes d \<le> a_keystrokes (fst (content_event ok t ev d))" by simp
  with Cons show ?case
    by (fastforce simp: x Let_def content_event_sent split: if_splits dest: Cons.IH)
qed

section \<open>Properties\<close>

text \<open>C17: the content script reports its running totals, and the background adds each report to the session as if it were a delta (the spec, \S 6, calls the report a delta): n keystrokes typed on a fresh page with no mouse movement send n reports, with counts 1, ..., n, and the current session's keystroke count grows by n(n+1)/2 instead of n.\<close>

theorem typing_overcounted:
  assumes "currentSession st = Some s" "length es = length ts"
  shows "\<exists>s'. currentSession (run h (deliver (tabId s)
              (zip es (snd (content_run True (map (\<lambda>t. (t, KeyDown)) ts) (content_load t0))))) st) = Some s'
         \<and> 2 * keystrokes s' = 2 * keystrokes s + int (length ts) * (int (length ts) + 1)"
proof -
  let ?rs = "snd (content_run True (map (\<lambda>t. (t, KeyDown)) ts) (content_load t0))"
  have ks: "map a_keystrokes ?rs = map (\<lambda>i. 0 + int (Suc i)) [0..<length ts]"
    using typing_reports [of "content_load t0" ts] by (simp add: content_load_def)
  then have "length ?rs = length ts" by (metis length_map length_upt minus_nat.diff_0)
  then have "map (a_keystrokes \<circ> snd) (zip es ?rs) = map a_keystrokes ?rs"
    using assms(2) by (simp add: map_snd_zip_len)
  then have "2 * sum_list (map (a_keystrokes \<circ> snd) (zip es ?rs)) = int (length ts) * (int (length ts) + 1)"
    using ks sum_upto_Suc [of 0 "length ts"] by simp
  then show ?thesis using run_deliver [OF assms(1), of h "zip es ?rs"] by auto
qed

theorem typing_overcounted_witness:
  "\<exists>s'. currentSession (run (spec_hooks Map.empty) (deliver (tabId demo_session)
         (zip [demo_env, demo_env, demo_env, demo_env]
            (snd (content_run True (map (\<lambda>t. (t, KeyDown)) [6, 7, 8, 9]) (content_load 5))))) demo_started) = Some s'
     \<and> keystrokes s' = 10"
  using typing_overcounted [OF demo_started_current, of "[demo_env, demo_env, demo_env, demo_env]" "[6, 7, 8, 9]" "spec_hooks Map.empty" 5]
  by (simp add: demo_session_def new_session_def)

text \<open>C18: \<open>activeTime\<close> is the wall-clock time from the page's load to its last input event, idle gaps included: every event adds the whole gap since the previous one.\<close>

theorem active_time_elapsed:
  "a_activeTime (fst (content_run ok evs (content_load t0))) = (if evs = [] then 0 else fst (last evs) - t0)"
proof (cases "evs = []")
  case False
  have "a_activeTime (fst (content_run ok evs (content_load t0))) - a_lastActivity (fst (content_run ok evs (content_load t0))) = - t0"
    using content_run_time [of ok evs "content_load t0"] by (simp add: content_load_def)
  with content_run_last [OF False, of ok "content_load t0"] False show ?thesis by simp
qed (simp add: content_load_def)

text \<open>C19: the comment says reports go out every 10 seconds, but the test is on the counters: while no key has been pressed, or no mouse move made, every single event sends a report, since 0 is a multiple of 10 and of 50.\<close>

theorem every_event_reported:
  "KeyDown \<notin> snd ` set evs \<or> MouseMove \<notin> snd ` set evs \<Longrightarrow>
   length (snd (content_run True evs (content_load t0))) = length evs"
  by (rule reports_all) (auto simp: content_load_def)

theorem every_event_reported_witness:
  "length (snd (content_run True [(1, Scroll), (2, Click), (3, MouseMove)] (content_load 0))) = 3"
  using every_event_reported [of "[(1, Scroll), (2, Click), (3, MouseMove)]" 0] by simp

text \<open>C20: the reports a page sends carry non-decreasing keystroke counts: each is the running total, not the change since the previous report.\<close>

theorem reports_cumulative: "sorted (map a_keystrokes (snd (content_run ok evs d)))"
proof (induction evs arbitrary: d)
  case Nil
  then show ?case by simp
next
  case (Cons x evs)
  obtain t ev where x: "x = (t, ev)" by fastforce
  let ?d1 = "fst (content_event ok t ev d)"
  have "\<forall>r \<in> set (snd (content_run ok evs ?d1)). a_keystrokes ?d1 \<le> a_keystrokes r"
    using reports_above by blast
  with Cons.IH [of ?d1] show ?case by (auto simp: x Let_def content_event_sent)
qed

end
