(* ===== verification/Js_Convert.thy ===== *)
theory Js_Convert
  imports Prelude
begin

text \<open>
  The conversions from text to numbers the code relies on: \<open>parseInt(s)\<close>
  (ECMAScript \S 19.2.5, radix absent: leading white space, a sign, a \<open>0x\<close>
  prefix for hexadecimal, then the longest run of digits, NaN when there is
  none), the conversion \<open>Number(s)\<close> a string undergoes in arithmetic
  (\S 7.1.4.1.1: trimmed, empty is 0, a decimal literal with an optional
  exponent, \<open>Infinity\<close>, or a \<open>0x\<close>/\<open>0o\<close>/\<open>0b\<close> integer; anything else is
  NaN), and \<open>s.split(c)\<close> with a one-character separator. Characters are
  Latin-1, so the white space is tab, line feed, vertical tab, form feed,
  carriage return, space and no-break space. Values are exact: the rounding to
  the nearest double is not modelled.
\<close>

definition js_space :: "char \<Rightarrow> bool" where
  "js_space c \<longleftrightarrow> of_char c \<in> {9, 10, 11, 12, 13, 32, 160 :: nat}"

definition digit_val :: "nat \<Rightarrow> char \<Rightarrow> nat option" where
  "digit_val r c =
    (let n = of_char c :: nat;
         v = (if 48 \<le> n \<and> n \<le> 57 then Some (n - 48)
              else if 97 \<le> n \<and> n \<le> 122 then Some (n - 87)
              else if 65 \<le> n \<and> n \<le> 90 then Some (n - 55) else None)
     in case v of Some d \<Rightarrow> if d < r then Some d else None | None \<Rightarrow> None)"

definition is_digit :: "nat \<Rightarrow> char \<Rightarrow> bool" where
  "is_digit r c \<longleftrightarrow> digit_val r c \<noteq> None"

definition digits_to_nat :: "nat \<Rightarrow> string \<Rightarrow> nat" where
  "digits_to_nat r ds = foldl (\<lambda>acc c. acc * r + the (digit_val r c)) 0 ds"

definition js_trim :: "string \<Rightarrow> string" where
  "js_trim s = rev (dropWhile js_space (rev (dropWhile js_space s)))"

definition js_parseInt :: "string \<Rightarrow> jsnum" where
  "js_parseInt s =
    (let s1 = dropWhile js_space s;
         neg = (s1 \<noteq> [] \<and> hd s1 = CHR ''-'');
         s2 = (if s1 \<noteq> [] \<and> (hd s1 = CHR ''-'' \<or> hd s1 = CHR ''+'') then tl s1 else s1);
         hex = (take 2 s2 = ''0x'' \<or> take 2 s2 = ''0X'');
         r = (if hex then 16 else 10);
         ds = takeWhile (is_digit r) (if hex then drop 2 s2 else s2)
     in if ds = [] then NaN
        else Fin ((if neg then -1 else 1) * of_nat (digits_to_nat r ds)))"

text \<open>A decimal literal without its sign: digits, an optional fraction, an
  optional exponent; at least one digit before the exponent.\<close>

definition dec_literal :: "string \<Rightarrow> real option" where
  "dec_literal u =
    (let m = takeWhile (\<lambda>c. c \<noteq> CHR ''e'' \<and> c \<noteq> CHR ''E'') u;
         ex = dropWhile (\<lambda>c. c \<noteq> CHR ''e'' \<and> c \<noteq> CHR ''E'') u;
         ip = takeWhile (\<lambda>c. c \<noteq> CHR ''.'') m;
         fp = drop 1 (dropWhile (\<lambda>c. c \<noteq> CHR ''.'') m);
         es = drop 1 ex;
         eneg = (es \<noteq> [] \<and> hd es = CHR ''-'');
         eds = (if es \<noteq> [] \<and> (hd es = CHR ''-'' \<or> hd es = CHR ''+'') then tl es else es);
         e = (if ex = [] then 0 else (if eneg then - int (digits_to_nat 10 eds) else int (digits_to_nat 10 eds)))
                 - int (length fp)
     in if (ip = [] \<and> fp = []) \<or> \<not> list_all (is_digit 10) (ip @ fp)
           \<or> (ex \<noteq> [] \<and> (eds = [] \<or> \<not> list_all (is_digit 10) eds))
        then None
        else Some (of_nat (digits_to_nat 10 (ip @ fp)) * (if 0 \<le> e then 10 ^ nat e else 1 / 10 ^ nat (- e))))"

definition js_to_number :: "string \<Rightarrow> jsnum" where
  "js_to_number s =
    (let t = js_trim s;
         pre = take 2 t;
         r = (if pre = ''0x'' \<or> pre = ''0X'' then 16 else if pre = ''0o'' \<or> pre = ''0O'' then 8
              else if pre = ''0b'' \<or> pre = ''0B'' then 2 else 0);
         neg = (t \<noteq> [] \<and> hd t = CHR ''-'');
         u = (if t \<noteq> [] \<and> (hd t = CHR ''-'' \<or> hd t = CHR ''+'') then tl t else t)
     in if t = [] then Fin 0
        else if r \<noteq> 0 then
          (if drop 2 t \<noteq> [] \<and> list_all (is_digit r) (drop 2 t) then Fin (of_nat (digits_to_nat r (drop 2 t))) else NaN)
        else if u = ''Infinity'' then Inf (\<not> neg)
        else (case dec_literal u of None \<Rightarrow> NaN | Some x \<Rightarrow> Fin (if neg then - x else x)))"

text \<open>\<open>s.split(c)\<close>: the pieces between the occurrences of \<open>c\<close>.\<close>

fun js_split :: "char \<Rightarrow> string \<Rightarrow> string list" where
  "js_split c [] = [[]]"
| "js_split c (x # xs) = (if x = c then [] # js_split c xs
                          else (case js_split c xs of p # ps \<Rightarrow> (x # p) # ps | [] \<Rightarrow> [[x]]))"

section \<open>Lemmas\<close>

lemma show_nat_digits: "list_all (is_digit 10) (show_nat n)"
proof (induction n rule: show_nat.induct)
  case (1 n)
  have d: "is_digit 10 (char_of (48 + k))" if "k < 10" for k :: nat
    using that by (simp add: is_digit_def digit_val_def Let_def)
  show ?case using 1 d [of n] d [of "n mod 10"]
    by (subst show_nat.simps) (simp del: show_nat.simps)
qed

lemma show_nat_ne: "show_nat n \<noteq> []"
  by (subst show_nat.simps) (simp del: show_nat.simps)

lemma digit_val_char: "k < 10 \<Longrightarrow> digit_val 10 (char_of (48 + k)) = Some k"
  by (simp add: digit_val_def Let_def)

lemma digits_to_nat_show_nat: "digits_to_nat 10 (show_nat n) = n"
proof (induction n rule: show_nat.induct)
  case (1 n)
  show ?case
  proof (cases "n < 10")
    case True
    then show ?thesis by (subst show_nat.simps) (simp add: digits_to_nat_def digit_val_char del: show_nat.simps)
  next
    case False
    then have "digits_to_nat 10 (show_nat (n div 10)) = n div 10" using 1 by (simp del: show_nat.simps)
    with False show ?thesis
      by (subst show_nat.simps) (simp add: digits_to_nat_def digit_val_char del: show_nat.simps)
  qed
qed

lemma show_nat_hd: "hd (show_nat n) \<noteq> CHR ''-'' \<and> hd (show_nat n) \<noteq> CHR ''+'' \<and> \<not> js_space (hd (show_nat n))"
  using show_nat_digits [of n] show_nat_ne [of n]
  by (cases "show_nat n") (auto simp: is_digit_def digit_val_def js_space_def Let_def split: if_splits
      simp del: show_nat.simps)

lemma show_nat_not_hex: "take 2 (show_nat n) \<noteq> ''0x'' \<and> take 2 (show_nat n) \<noteq> ''0X''"
proof -
  have "list_all (is_digit 10) (take 2 (show_nat n))"
    using show_nat_digits [of n] by (auto simp: list_all_iff dest: in_set_takeD simp del: show_nat.simps)
  then show ?thesis by (auto simp: is_digit_def digit_val_def simp del: show_nat.simps)
qed

lemma js_parseInt_show_int: "js_parseInt (show_int i) = Fin (of_int i)"
proof -
  have dw: "dropWhile js_space (show_nat n) = show_nat n" for n
    using show_nat_hd [of n] show_nat_ne [of n] by (simp add: dropWhile_eq_self_iff del: show_nat.simps)
  have tw: "takeWhile (is_digit 10) (show_nat n) = show_nat n" for n
    using show_nat_digits [of n] by (simp add: takeWhile_eq_all_conv list_all_iff del: show_nat.simps)
  have nat: "js_parseInt (show_nat n) = Fin (of_nat n)" for n
    using show_nat_hd [of n] show_nat_ne [of n] show_nat_not_hex [of n]
    by (simp add: js_parseInt_def Let_def dw tw digits_to_nat_show_nat del: show_nat.simps)
  have neg: "js_parseInt (CHR ''-'' # show_nat n) = Fin (- of_nat n)" for n
    using show_nat_ne [of n] show_nat_not_hex [of n]
    by (simp add: js_parseInt_def Let_def tw digits_to_nat_show_nat js_space_def del: show_nat.simps)
  show ?thesis using nat [of "nat i"] neg [of "nat (- i)"] by (simp add: show_int_def del: show_nat.simps)
qed

lemma js_split_no_sep: "c \<notin> set s \<Longrightarrow> js_split c s = [s]"
  by (induction s) auto

lemma js_split_append: "c \<notin> set s \<Longrightarrow> js_split c (s @ c # t) = s # js_split c t"
  by (induction s) auto

end
