(* ===== verification/Backend.thy ===== *)
theory Backend
  imports Sync Js_Convert
begin

text \<open>
  The REST backend's data and activity routes: the Mongoose model
  \<^verbatim>\<open>src/Activity.js\<close> and the router \<^verbatim>\<open>src/activityRoutes.js\<close>.

  A request body is the JSON value \<open>body-parser\<close> hands over (\<open>json\<close>).
  \<open>new Activity(body)\<close> followed by \<open>save()\<close> is \<open>new_activity\<close>: each path
  of the schema is cast the way Mongoose casts it (\<open>cast_string\<close>,
  \<open>cast_number\<close>, \<open>cast_bool\<close>), then validated (\<open>required\<close>, \<open>enum\<close>,
  \<open>min\<close>/\<open>max\<close>), defaults fill absent paths, paths the schema does not
  declare are dropped, and \<open>timestamps\<close> stamps the server time. A failed save
  is the list of the failing paths in schema order (the message of Mongoose's
  \<open>ValidationError\<close> names them). Casting a non-integral number into a string
  path (\<open>String(1.5)\<close>) is not modelled and counts as a cast failure.

  The collection is the list of saved documents in insertion order, the order
  \<open>find\<close> returns them in. A route handler maps the request and the
  collection to the response and the new collection; every \<open>catch\<close> answers
  500 with the error's message.
\<close>

section \<open>JSON values\<close>

text \<open>The values a handler reads from a parsed body or builds as an object
  literal: JSON with JavaScript numbers (a parsed body has finite numbers only;
  an object literal may hold NaN). An absent member, \<open>undefined\<close>, is
  \<open>None\<close> where a member is looked up.\<close>

datatype json = JNull | JBool bool | JNum jsnum | JStr string | JArr "json list" | JObj "(string \<times> json) list"

text \<open>A member of an object; with duplicate keys \<open>JSON.parse\<close> keeps the
  last.\<close>

definition json_field :: "string \<Rightarrow> json \<Rightarrow> json option" where
  "json_field k v = (case v of JObj kvs \<Rightarrow> map_of (rev kvs) k | _ \<Rightarrow> None)"

text \<open>\<open>ToNumber\<close> of a parsed value, as in \<open>duration * 1000\<close>; an array goes
  through its string, \<open>[x]\<close> reading as \<open>x\<close> except that \<open>[true]\<close> is the
  string \<open>"true"\<close>. An absent member (\<open>undefined\<close>) is NaN.\<close>

fun json_to_number :: "json \<Rightarrow> jsnum" where
  "json_to_number JNull = Fin 0"
| "json_to_number (JBool b) = Fin (if b then 1 else 0)"
| "json_to_number (JNum x) = x"
| "json_to_number (JStr s) = js_to_number s"
| "json_to_number (JArr []) = Fin 0"
| "json_to_number (JArr [JBool b]) = NaN"
| "json_to_number (JArr [x]) = json_to_number x"
| "json_to_number (JArr (x # y # zs)) = NaN"
| "json_to_number (JObj kvs) = NaN"

definition undef_to_number :: "json option \<Rightarrow> jsnum" where
  "undef_to_number v = (case v of None \<Rightarrow> NaN | Some x \<Rightarrow> json_to_number x)"

section \<open>The Activity model\<close>

text \<open>A cast path: \<open>null\<close> (or absent), a value, or a cast error.\<close>

datatype 'a field = FNull | FVal 'a | FErr

definition cast_string :: "json option \<Rightarrow> string field" where
  "cast_string v =
    (case v of None \<Rightarrow> FNull | Some JNull \<Rightarrow> FNull | Some (JStr s) \<Rightarrow> FVal s
     | Some (JBool b) \<Rightarrow> FVal (if b then ''true'' else ''false'')
     | Some (JNum (Fin r)) \<Rightarrow> (if of_int \<lfloor>r\<rfloor> = r then FVal (show_int \<lfloor>r\<rfloor>) else FErr)
     | Some (JNum NaN) \<Rightarrow> FVal ''NaN''
     | Some (JNum (Inf p)) \<Rightarrow> FVal (if p then ''Infinity'' else ''-Infinity'')
     | Some _ \<Rightarrow> FErr)"

definition cast_jsnum :: "jsnum \<Rightarrow> jsnum field" where
  "cast_jsnum x = (if x = NaN then FErr else FVal x)"

definition cast_number :: "json option \<Rightarrow> jsnum field" where
  "cast_number v =
    (case v of None \<Rightarrow> FNull | Some JNull \<Rightarrow> FNull
     | Some (JNum x) \<Rightarrow> cast_jsnum x
     | Some (JStr s) \<Rightarrow> (if s = [] then FNull else cast_jsnum (js_to_number s))
     | Some (JBool b) \<Rightarrow> FVal (Fin (if b then 1 else 0))
     | Some _ \<Rightarrow> FErr)"

definition cast_bool :: "json option \<Rightarrow> bool field" where
  "cast_bool v =
    (case v of None \<Rightarrow> FNull | Some JNull \<Rightarrow> FNull
     | Some (JBool b) \<Rightarrow> FVal b
     | Some (JStr s) \<Rightarrow> (if s \<in> {''true'', ''1'', ''yes''} then FVal True
                        else if s \<in> {''false'', ''0'', ''no''} then FVal False else FErr)
     | Some (JNum x) \<Rightarrow> (if x = Fin 1 then FVal True else if x = Fin 0 then FVal False else FErr)
     | Some _ \<Rightarrow> FErr)"

definition opt_field :: "'a field \<Rightarrow> 'a option" where
  "opt_field f = (case f of FVal x \<Rightarrow> Some x | _ \<Rightarrow> None)"

definition category_of_name :: "string \<Rightarrow> category option" where
  "category_of_name s = find (\<lambda>c. category_name c = s)
     [Highly_productive, Productive, Unproductive, Neutral, Break]"

record activity =
  act_userId :: string
  act_domain :: string
  act_url :: "string option"
  act_title :: "string option"
  act_timeSpent :: jsnum
  act_category :: "category option"
  act_subcategory :: "string option"
  act_isActive :: "bool option"
  act_focusScore :: "jsnum option"
  act_sessionId :: "string option"
  act_metadata :: json
  act_createdAt :: int
  act_updatedAt :: int

text \<open>The check of one path: \<open>None\<close> when it passes.\<close>

definition required_str :: "string \<Rightarrow> string field \<Rightarrow> string option" where
  "required_str p f = (case f of FVal s \<Rightarrow> if s = [] then Some p else None | _ \<Rightarrow> Some p)"

definition cast_ok :: "string \<Rightarrow> 'a field \<Rightarrow> string option" where
  "cast_ok p f = (if f = FErr then Some p else None)"

definition category_path :: "json option \<Rightarrow> category option field" where
  "category_path v =
    (case v of None \<Rightarrow> FVal (Some Neutral)
     | Some x \<Rightarrow> (case cast_string (Some x) of FNull \<Rightarrow> FVal None | FErr \<Rightarrow> FErr
                  | FVal s \<Rightarrow> (case category_of_name s of None \<Rightarrow> FErr | Some c \<Rightarrow> FVal (Some c))))"

definition focus_path :: "json option \<Rightarrow> jsnum option field" where
  "focus_path v =
    (case v of None \<Rightarrow> FVal (Some (Fin 0))
     | Some x \<Rightarrow> (case cast_number (Some x) of FNull \<Rightarrow> FVal None | FErr \<Rightarrow> FErr
                  | FVal n \<Rightarrow> if \<not> js_le (Fin 0) n \<or> \<not> js_le n (Fin 100) then FErr else FVal (Some n)))"

definition active_path :: "json option \<Rightarrow> bool option field" where
  "active_path v = (case v of None \<Rightarrow> FVal (Some True) | Some x \<Rightarrow>
     (case cast_bool (Some x) of FNull \<Rightarrow> FVal None | FErr \<Rightarrow> FErr | FVal b \<Rightarrow> FVal (Some b)))"

definition new_activity :: "int \<Rightarrow> json \<Rightarrow> string list + activity" where
  "new_activity t body =
    (let g = (\<lambda>k. json_field k body);
         uid = cast_string (g ''userId''); dom = cast_string (g ''domain'');
         url = cast_string (g ''url''); ttl = cast_string (g ''title'');
         ts = cast_number (g ''timeSpent'');
         cat = category_path (g ''category''); sub = cast_string (g ''subcategory'');
         act = active_path (g ''isActive''); foc = focus_path (g ''focusScore'');
         sid = cast_string (g ''sessionId'');
         errs = List.map_filter id
           [required_str ''userId'' uid, required_str ''domain'' dom, cast_ok ''url'' url,
            cast_ok ''title'' ttl, (case ts of FVal _ \<Rightarrow> None | _ \<Rightarrow> Some ''timeSpent''),
            cast_ok ''category'' cat, cast_ok ''subcategory'' sub, cast_ok ''isActive'' act,
            cast_ok ''focusScore'' foc, cast_ok ''sessionId'' sid]
     in if errs \<noteq> [] then Inl errs
        else Inr \<lparr>act_userId = the (opt_field uid), act_domain = the (opt_field dom),
                  act_url = opt_field url, act_title = opt_field ttl,
                  act_timeSpent = the (opt_field ts), act_category = the (opt_field cat),
                  act_subcategory = opt_field sub, act_isActive = the (opt_field act),
                  act_focusScore = the (opt_field foc), act_sessionId = opt_field sid,
                  act_metadata = (case g ''metadata'' of None \<Rightarrow> JObj [] | Some m \<Rightarrow> m),
                  act_createdAt = t, act_updatedAt = t\<rparr>)"

section \<open>Requests, responses and the collection\<close>

text \<open>The server's clock: the time and the day of the month it falls on (local
  time; daylight-saving shifts are not modelled).\<close>

record srv_env =
  srv_now :: int
  srv_mday :: int

type_synonym query = "(string \<times> string) list"

datatype body = BDoc activity | BDocs "activity list" | BJson json | BText string

record http_response =
  status :: nat
  resp_body :: body

definition ok_json :: "body \<Rightarrow> http_response" where
  "ok_json b = \<lparr>status = 200, resp_body = b\<rparr>"

definition server_error :: "string \<Rightarrow> http_response" where
  "server_error msg = \<lparr>status = 500, resp_body = BJson (JObj [(''error'', JStr msg)])\<rparr>"

definition validation_message :: "string list \<Rightarrow> string" where
  "validation_message ps = ''Activity validation failed: '' @ concat (map (\<lambda>p. p @ '' '') ps)"

text \<open>\<open>save()\<close> of a new document: appended to the collection, or the
  validation error.\<close>

definition save_activity :: "int \<Rightarrow> json \<Rightarrow> activity list \<Rightarrow> activity list \<times> http_response" where
  "save_activity t obj db =
    (case new_activity t obj of
       Inl errs \<Rightarrow> (db, server_error (validation_message errs))
     | Inr a \<Rightarrow> (db @ [a], ok_json (BDoc a)))"

section \<open>The activity routes\<close>

text \<open>\<open>POST /advanced\<close> (lines 6--14): the body as the document.\<close>

definition post_advanced :: "srv_env \<Rightarrow> json \<Rightarrow> activity list \<Rightarrow> activity list \<times> http_response" where
  "post_advanced e b db = save_activity (srv_now e) b db"

text \<open>\<open>Date.prototype.setDate(getDate() - days)\<close>: the argument is truncated
  to an integer; NaN or an infinity gives an invalid date.\<close>

definition js_trunc :: "real \<Rightarrow> int" where
  "js_trunc x = (if 0 \<le> x then \<lfloor>x\<rfloor> else \<lceil>x\<rceil>)"

definition days_back :: "srv_env \<Rightarrow> jsnum \<Rightarrow> int option" where
  "days_back e days =
    (case js_sub (Fin (of_int (srv_mday e))) days of
       Fin x \<Rightarrow> Some (srv_now e + (js_trunc x - srv_mday e) * 86400000)
     | _ \<Rightarrow> None)"

definition cat_matches :: "string \<Rightarrow> activity \<Rightarrow> bool" where
  "cat_matches c a \<longleftrightarrow> (case act_category a of None \<Rightarrow> False | Some k \<Rightarrow> category_name k = c)"

text \<open>\<open>GET /:userId\<close> (lines 17--34): the user's documents created since
  \<open>days\<close> days ago (7 by default; a query string is converted by the
  subtraction), of the category when one is given. An invalid date fails the
  cast of the query and the route answers 500.\<close>

definition get_user_activities :: "srv_env \<Rightarrow> string \<Rightarrow> query \<Rightarrow> activity list \<Rightarrow> http_response" where
  "get_user_activities e uid q db =
    (let category = map_of q ''category'';
         days = (case map_of q ''days'' of None \<Rightarrow> Fin 7 | Some d \<Rightarrow> js_to_number d)
     in case days_back e days of
          None \<Rightarrow> server_error ''Cast to date failed''
        | Some startDate \<Rightarrow>
            ok_json (BDocs (filter (\<lambda>a. act_userId a = uid
                                         \<and> (case category of None \<Rightarrow> True | Some c \<Rightarrow> c = [] \<or> cat_matches c a)
                                         \<and> startDate \<le> act_createdAt a) db)))"

text \<open>\<open>GET /recent/:userId\<close> (lines 37--50): \<open>parseInt(limit) || 20\<close>
  documents of the user, newest first; a negative limit \<open>-n\<close> returns \<open>n\<close>
  documents in one batch, as MongoDB does. Documents created at the same time
  keep their insertion order.\<close>

definition recent_limit :: "query \<Rightarrow> nat" where
  "recent_limit q =
    (case js_parseInt (case map_of q ''limit'' of None \<Rightarrow> ''undefined'' | Some l \<Rightarrow> l) of
       Fin x \<Rightarrow> if x = 0 then 20 else nat \<bar>\<lfloor>x\<rfloor>\<bar>
     | _ \<Rightarrow> 20)"

definition get_recent :: "string \<Rightarrow> query \<Rightarrow> activity list \<Rightarrow> http_response" where
  "get_recent uid q db =
    ok_json (BDocs (take (recent_limit q) (sort_key (\<lambda>a. - act_createdAt a) (filter (\<lambda>a. act_userId a = uid) db))))"

text \<open>\<open>GET /user\<close> (lines 53--59).\<close>

definition get_user :: http_response where
  "get_user = ok_json (BJson (JObj [(''userId'', JStr ''default_user'')]))"

text \<open>\<open>POST /log\<close> (lines 62--79): the legacy record, \<open>timeSpent\<close> the
  product \<open>duration * 1000\<close> in JavaScript numbers.\<close>

definition log_object :: "json \<Rightarrow> json" where
  "log_object b =
    JObj ([(''userId'', JStr ''default_user'')]
          @ (case json_field ''domain'' b of None \<Rightarrow> [] | Some d \<Rightarrow> [(''domain'', d)])
          @ [(''timeSpent'', JNum (js_mul (undef_to_number (json_field ''duration'' b)) (Fin 1000))),
             (''category'', JStr ''neutral'')])"

definition post_log :: "srv_env \<Rightarrow> json \<Rightarrow> activity list \<Rightarrow> activity list \<times> http_response" where
  "post_log e b db = save_activity (srv_now e) (log_object b) db"

section \<open>Routing\<close>

text \<open>Express matches a request against the routes of a router in the order
  they are declared and runs the first that matches. A route path is a list of
  segments, literal or parameter; literals compare without regard to ASCII case
  (the default \<open>caseSensitive: false\<close>), a parameter matches one non-empty
  segment, and a trailing slash is ignored (\<open>strict: false\<close>). Percent-decoding
  of parameters is not modelled.\<close>

datatype meth = GET | POST

datatype seg = Lit string | Par string

definition path_segments :: "string \<Rightarrow> string list" where
  "path_segments p =
    (let ss = js_split CHR ''/'' (drop 1 p) in if ss \<noteq> [] \<and> last ss = [] then butlast ss else ss)"

fun match_segs :: "seg list \<Rightarrow> string list \<Rightarrow> (string \<times> string) list option" where
  "match_segs [] [] = Some []"
| "match_segs (Lit l # ps) (x # xs) = (if js_lower l = js_lower x then match_segs ps xs else None)"
| "match_segs (Par n # ps) (x # xs) =
     (if x = [] then None else map_option (\<lambda>b. (n, x) # b) (match_segs ps xs))"
| "match_segs _ _ = None"

fun first_route :: "(meth \<times> seg list \<times> 'r) list \<Rightarrow> meth \<Rightarrow> string list \<Rightarrow> ('r \<times> (string \<times> string) list) option" where
  "first_route [] m xs = None"
| "first_route ((m', ps, r) # rs) m xs =
     (if m' = m then (case match_segs ps xs of Some b \<Rightarrow> Some (r, b) | None \<Rightarrow> first_route rs m xs)
      else first_route rs m xs)"

datatype activity_route = R_advanced | R_user_activities | R_recent | R_user | R_log

definition activity_routes :: "(meth \<times> seg list \<times> activity_route) list" where
  "activity_routes =
    [(POST, [Lit ''advanced''], R_advanced),
     (GET, [Par ''userId''], R_user_activities),
     (GET, [Lit ''recent'', Par ''userId''], R_recent),
     (GET, [Lit ''user''], R_user),
     (POST, [Lit ''log''], R_log)]"

text \<open>The router on a request below its mount point: \<open>None\<close> when no route
  matches and the request falls through.\<close>

definition activity_router ::
  "srv_env \<Rightarrow> meth \<Rightarrow> string list \<Rightarrow> query \<Rightarrow> json \<Rightarrow> activity list \<Rightarrow> (activity list \<times> http_response) option" where
  "activity_router e m xs q b db =
    (case first_route activity_routes m xs of
       None \<Rightarrow> None
     | Some (R_advanced, _) \<Rightarrow> Some (post_advanced e b db)
     | Some (R_user_activities, ps) \<Rightarrow> Some (db, get_user_activities e (the (map_of ps ''userId'')) q db)
     | Some (R_recent, ps) \<Rightarrow> Some (db, get_recent (the (map_of ps ''userId'')) q db)
     | Some (R_user, _) \<Rightarrow> Some (db, get_user)
     | Some (R_log, _) \<Rightarrow> Some (post_log e b db))"

section \<open>The extension's payload on the wire\<close>

text \<open>\<open>JSON.stringify(payload)\<close> in \<open>syncWithBackend\<close> (\<^verbatim>\<open>src/background.js\<close>,
  lines 461--488): members whose value is \<open>undefined\<close> are left out, NaN and
  the infinities become \<open>null\<close>, the counters go into \<open>metadata\<close>.
  \<open>body-parser\<close> reads back the same value.\<close>

definition num_json :: "jsnum \<Rightarrow> json" where
  "num_json x = (case x of Fin r \<Rightarrow> JNum (Fin r) | _ \<Rightarrow> JNull)"

definition int_json :: "int \<Rightarrow> json" where
  "int_json i = JNum (Fin (of_int i))"

definition opt_member :: "string \<Rightarrow> ('a \<Rightarrow> json) \<Rightarrow> 'a option \<Rightarrow> (string \<times> json) list" where
  "opt_member k f v = (case v of None \<Rightarrow> [] | Some x \<Rightarrow> [(k, f x)])"

definition payload_json :: "payload \<Rightarrow> json" where
  "payload_json p =
    JObj ([(''userId'', JStr (pl_userId p)), (''sessionId'', JStr (pl_sessionId p)),
           (''domain'', JStr (pl_domain p)), (''url'', JStr (pl_url p)), (''title'', JStr (pl_title p))]
          @ opt_member ''timeSpent'' int_json (pl_timeSpent p)
          @ [(''category'', JStr (category_name (pl_category p)))]
          @ opt_member ''focusScore'' num_json (pl_focusScore p)
          @ opt_member ''productivityScore'' num_json (pl_productivityScore p)
          @ [(''metadata'', JObj ([(''distractions'', int_json (pl_distractions p)),
                (''keystrokes'', int_json (pl_keystrokes p)), (''mouseMovements'', int_json (pl_mouseMovements p)),
                (''scrolls'', int_json (pl_scrolls p)), (''clicks'', int_json (pl_clicks p)),
                (''timeSpentActive'', int_json (pl_timeSpentActive p)),
                (''timeSpentIdle'', int_json (pl_timeSpentIdle p)), (''startTime'', int_json (pl_startTime p))]
                @ opt_member ''endTime'' int_json (pl_endTime p)))])"

section \<open>Lemmas\<close>

lemma category_of_name_name [simp]: "category_of_name (category_name c) = Some c"
  by (cases c) (simp_all add: category_of_name_def)

lemma first_route_SomeD:
  "first_route rs m xs = Some (r, b) \<Longrightarrow> \<exists>ps. (m, ps, r) \<in> set rs \<and> match_segs ps xs = Some b"
  by (induction rs m xs rule: first_route.induct) (auto split: if_splits option.splits)

lemma match_single_lit: "match_segs [Lit l] xs = Some b \<Longrightarrow> \<exists>x. xs = [x] \<and> js_lower l = js_lower x"
  by (cases xs; cases "tl xs") (auto split: if_splits)

lemma payload_fields:
  "json_field ''userId'' (payload_json p) = Some (JStr (pl_userId p))"
  "json_field ''domain'' (payload_json p) = Some (JStr (pl_domain p))"
  "json_field ''url'' (payload_json p) = Some (JStr (pl_url p))"
  "json_field ''title'' (payload_json p) = Some (JStr (pl_title p))"
  "json_field ''sessionId'' (payload_json p) = Some (JStr (pl_sessionId p))"
  "json_field ''category'' (payload_json p) = Some (JStr (category_name (pl_category p)))"
  "json_field ''timeSpent'' (payload_json p) = map_option int_json (pl_timeSpent p)"
  "json_field ''focusScore'' (payload_json p) = map_option num_json (pl_focusScore p)"
  "json_field ''subcategory'' (payload_json p) = None"
  "json_field ''isActive'' (payload_json p) = None"
  by (simp_all add: json_field_def payload_json_def opt_member_def split: option.splits)

lemma focus_path_score:
  "x = NaN \<or> int_in 0 100 x \<Longrightarrow> focus_path (Some (num_json x)) = FVal (if x = NaN then None else Some x)"
  by (auto simp: focus_path_def num_json_def cast_number_def cast_jsnum_def int_in_def js_le_def)

lemmas cast_defs = cast_string_def cast_number_def cast_jsnum_def category_path_def active_path_def
  cast_bool_def required_str_def cast_ok_def opt_field_def

lemma new_activity_casts:
  assumes "cast_string (json_field ''userId'' b) = FVal u" "cast_string (json_field ''domain'' b) = FVal dm"
    "cast_ok ''url'' (cast_string (json_field ''url'' b)) = None"
    "cast_ok ''title'' (cast_string (json_field ''title'' b)) = None"
    "cast_number (json_field ''timeSpent'' b) = FVal ts"
    "category_path (json_field ''category'' b) = FVal c"
    "cast_ok ''subcategory'' (cast_string (json_field ''subcategory'' b)) = None"
    "active_path (json_field ''isActive'' b) = FVal ia"
    "focus_path (json_field ''focusScore'' b) = FVal f"
    "cast_ok ''sessionId'' (cast_string (json_field ''sessionId'' b)) = None"
    "u \<noteq> []"
  shows "new_activity t b = (if dm = [] then Inl [''domain'']
     else Inr \<lparr>act_userId = u, act_domain = dm, act_url = opt_field (cast_string (json_field ''url'' b)),
               act_title = opt_field (cast_string (json_field ''title'' b)), act_timeSpent = ts,
               act_category = c, act_subcategory = opt_field (cast_string (json_field ''subcategory'' b)),
               act_isActive = ia, act_focusScore = f,
               act_sessionId = opt_field (cast_string (json_field ''sessionId'' b)),
               act_metadata = (case json_field ''metadata'' b of None \<Rightarrow> JObj [] | Some m \<Rightarrow> m),
               act_createdAt = t, act_updatedAt = t\<rparr>)"
  using assms unfolding new_activity_def Let_def
  by (simp add: required_str_def cast_ok_def opt_field_def map_filter_def)

lemma mk_payload_sel [simp]:
  "pl_userId (mk_payload u s) = u" "pl_domain (mk_payload u s) = domain s" "pl_url (mk_payload u s) = url s"
  "pl_title (mk_payload u s) = title s" "pl_sessionId (mk_payload u s) = sessionId s"
  "pl_category (mk_payload u s) = category s" "pl_timeSpent (mk_payload u s) = duration s"
  "pl_focusScore (mk_payload u s) = finalFocusScore s"
  by (simp_all add: mk_payload_def)

lemma new_activity_timeSpent_fails:
  assumes "cast_number (json_field ''timeSpent'' b) = FErr"
  shows "\<exists>errs. new_activity t b = Inl errs"
  unfolding new_activity_def Let_def
  apply (subst if_P)
   apply (rule map_filter_id_ne [where a = "''timeSpent''"])
   apply (simp add: assms)
  apply blast
  done

lemma log_fields:
  "json_field ''userId'' (log_object b) = Some (JStr ''default_user'')"
  "json_field ''domain'' (log_object b) = json_field ''domain'' b"
  "json_field ''timeSpent'' (log_object b) = Some (JNum (js_mul (undef_to_number (json_field ''duration'' b)) (Fin 1000)))"
  "json_field ''category'' (log_object b) = Some (JStr ''neutral'')"
  "json_field ''url'' (log_object b) = None" "json_field ''title'' (log_object b) = None"
  "json_field ''subcategory'' (log_object b) = None" "json_field ''isActive'' (log_object b) = None"
  "json_field ''focusScore'' (log_object b) = None" "json_field ''sessionId'' (log_object b) = None"
  "json_field ''metadata'' (log_object b) = None"
  by (simp_all add: log_object_def json_field_def split: option.splits)

section \<open>Properties\<close>

text \<open>C21: the route \<open>GET /user\<close> is unreachable: \<open>GET /:userId\<close>, declared before it, matches every one-segment path, so \<open>/user\<close> answers with the activities of a user named \<open>user\<close>.\<close>

theorem user_route_dead: "first_route activity_routes m xs \<noteq> Some (R_user, b)"
proof
  assume r: "first_route activity_routes m xs = Some (R_user, b)"
  then obtain ps where "(m, ps, R_user) \<in> set activity_routes" "match_segs ps xs = Some b"
    using first_route_SomeD [OF r] by blast
  then have m: "m = GET" and "match_segs [Lit ''user''] xs = Some b" by (auto simp: activity_routes_def)
  then obtain x where x: "xs = [x]" "js_lower ''user'' = js_lower x" using match_single_lit by blast
  then have "x \<noteq> []" by (auto simp: js_lower_def)
  with r m x show False by (simp add: activity_routes_def)
qed

text \<open>C22: the backend stores every session the extension posts, with its user, domain, duration, category and final score (a NaN score stored as null), unless the session's domain is empty: \<open>domain\<close> is a required string and Mongoose rejects the empty string.\<close>

theorem payload_accepted:
  assumes "duration s = Some d" "finalFocusScore s = Some x" "x = NaN \<or> int_in 0 100 x" "uid \<noteq> []"
  shows "if domain s = [] then new_activity t (payload_json (mk_payload uid s)) = Inl [''domain'']
         else \<exists>a. new_activity t (payload_json (mk_payload uid s)) = Inr a \<and> act_userId a = uid
              \<and> act_domain a = domain s \<and> act_timeSpent a = Fin (of_int d)
              \<and> act_category a = Some (category s)
              \<and> act_focusScore a = (if x = NaN then None else Some x) \<and> act_createdAt a = t"
  using new_activity_casts [where b = "payload_json (mk_payload uid s)" and u = uid and dm = "domain s"
      and ts = "Fin (of_int d)" and c = "Some (category s)" and ia = "Some True"
      and f = "if x = NaN then None else Some x" and t = t]
    assms focus_path_score [OF assms(3)]
  by (simp add: payload_fields cast_defs int_json_def)

theorem payload_accepted_witness:
  "new_activity 7 (payload_json (mk_payload ''u1''
      (example_session\<lparr>domain := [], duration := Some 60000, finalFocusScore := Some NaN\<rparr>))) = Inl [''domain'']"
  using payload_accepted [of "example_session\<lparr>domain := [], duration := Some 60000, finalFocusScore := Some NaN\<rparr>"
      60000 NaN "''u1''" 7]
  by (simp add: example_session_def)

text \<open>C23: the legacy \<open>POST /log\<close> stores a record for the default user with \<open>timeSpent = duration * 1000\<close> and category neutral, as the spec (\S 6) describes.\<close>

theorem log_converts:
  assumes "json_field ''domain'' b = Some (JStr d)" "d \<noteq> []" "json_field ''duration'' b = Some (JNum (Fin r))"
  shows "\<exists>a. post_log e b db = (db @ [a], ok_json (BDoc a)) \<and> act_userId a = ''default_user''
           \<and> act_domain a = d \<and> act_timeSpent a = Fin (r * 1000) \<and> act_category a = Some Neutral
           \<and> act_createdAt a = srv_now e"
  using new_activity_casts [where b = "log_object b" and u = "''default_user''" and dm = d
      and ts = "Fin (r * 1000)" and c = "Some Neutral" and ia = "Some True" and f = "Some (Fin 0)" and t = "srv_now e"]
    assms
  by (simp add: post_log_def save_activity_def log_fields cast_defs undef_to_number_def focus_path_def
      category_of_name_def)

theorem log_converts_witness:
  "\<exists>a. post_log \<lparr>srv_now = 9, srv_mday = 1\<rparr> (JObj [(''domain'', JStr ''a.com''), (''duration'', JNum (Fin 3))]) []
      = ([a], ok_json (BDoc a)) \<and> act_userId a = ''default_user'' \<and> act_domain a = ''a.com''
      \<and> act_timeSpent a = Fin 3000 \<and> act_category a = Some Neutral \<and> act_createdAt a = 9"
  using log_converts [of "JObj [(''domain'', JStr ''a.com''), (''duration'', JNum (Fin 3))]" "''a.com''" 3
      "\<lparr>srv_now = 9, srv_mday = 1\<rparr>" "[]"]
  by (simp add: json_field_def)

text \<open>C24: a legacy \<open>POST /log\<close> without a numeric duration (absent, or a string that is not a number) computes \<open>timeSpent\<close> as NaN, the cast fails, nothing is stored and the route answers 500.\<close>

theorem log_rejects_bad_duration:
  "undef_to_number (json_field ''duration'' b) = NaN \<Longrightarrow>
   fst (post_log e b db) = db \<and> status (snd (post_log e b db)) = 500"
  using new_activity_timeSpent_fails [of "log_object b" "srv_now e"]
  by (auto simp: post_log_def save_activity_def log_fields cast_number_def cast_jsnum_def server_error_def)

theorem log_rejects_bad_duration_witness:
  "fst (post_log \<lparr>srv_now = 9, srv_mday = 1\<rparr> (JObj [(''domain'', JStr ''a.com'')]) []) = []
   \<and> status (snd (post_log \<lparr>srv_now = 9, srv_mday = 1\<rparr> (JObj [(''domain'', JStr ''a.com'')]) [])) = 500"
  using log_rejects_bad_duration [of "JObj [(''domain'', JStr ''a.com'')]" "\<lparr>srv_now = 9, srv_mday = 1\<rparr>" "[]"]
  by (simp add: json_field_def undef_to_number_def)

end
