(* ===== verification/Analytics.thy ===== *)
theory Analytics
  imports Backend
begin

text \<open>
  The analytics routes of \<^verbatim>\<open>src/analyticsRoutes.js\<close>: \<open>GET
  /productivity/:userId\<close> (lines 6--39), the metrics of a user's documents of the
  last \<open>period\<close> days, and \<open>GET /score/:userId\<close> (42--66), the score of the
  last 24 hours with its grade (\<open>getPerformanceGrade\<close>, 68--75) and insights
  (\<open>generateSimpleInsights\<close>, 77--109). Both routes compute the score with the
  same expression, written out twice in the code and modelled twice here;
  sums and the score are JavaScript numbers. \<open>period\<close> is read with
  \<open>parseInt(period.replace('d', ''))\<close>.
\<close>

section \<open>Sums over the documents\<close>

text \<open>\<open>a.timeSpent || 0\<close>: 0 and NaN are falsy.\<close>

definition time_of :: "activity \<Rightarrow> jsnum" where
  "time_of a = (if act_timeSpent a = Fin 0 \<or> act_timeSpent a = NaN then Fin 0 else act_timeSpent a)"

definition sum_time :: "activity list \<Rightarrow> jsnum" where
  "sum_time acts = foldl (\<lambda>sum a. js_add sum (time_of a)) (Fin 0) acts"

definition is_productive_doc :: "activity \<Rightarrow> bool" where
  "is_productive_doc a \<longleftrightarrow> act_category a = Some Productive \<or> act_category a = Some Highly_productive"

definition in_window :: "string \<Rightarrow> int \<Rightarrow> activity \<Rightarrow> bool" where
  "in_window uid start a \<longleftrightarrow> act_userId a = uid \<and> start \<le> act_createdAt a"

section \<open>The productivity route\<close>

record metrics =
  m_totalTime :: jsnum
  m_productiveTime :: jsnum
  m_unproductiveTime :: jsnum
  m_sessionsCount :: nat
  m_productivityScore :: jsnum

definition productivity_metrics :: "activity list \<Rightarrow> metrics" where
  "productivity_metrics activities =
    (let totalTime = sum_time activities;
         productiveTime = sum_time (filter is_productive_doc activities);
         productivityScore = (if js_less (Fin 0) totalTime
                              then js_math_round (js_mul (js_div productiveTime totalTime) (Fin 100)) else Fin 0)
     in \<lparr>m_totalTime = totalTime, m_productiveTime = productiveTime,
         m_unproductiveTime = sum_time (filter (\<lambda>a. act_category a = Some Unproductive) activities),
         m_sessionsCount = length activities, m_productivityScore = productivityScore\<rparr>)"

definition metrics_json :: "metrics \<Rightarrow> json" where
  "metrics_json m =
    JObj [(''totalTime'', num_json (m_totalTime m)), (''productiveTime'', num_json (m_productiveTime m)),
          (''unproductiveTime'', num_json (m_unproductiveTime m)),
          (''sessionsCount'', JNum (Fin (of_nat (m_sessionsCount m)))),
          (''productivityScore'', num_json (m_productivityScore m))]"

definition period_days :: "query \<Rightarrow> jsnum" where
  "period_days q =
    js_parseInt (replace_first ''d'' [] (case map_of q ''period'' of None \<Rightarrow> ''1d'' | Some p \<Rightarrow> p))"

definition get_productivity :: "srv_env \<Rightarrow> string \<Rightarrow> query \<Rightarrow> activity list \<Rightarrow> http_response" where
  "get_productivity e uid q db =
    (case days_back e (period_days q) of
       None \<Rightarrow> server_error ''Cast to date failed''
     | Some startDate \<Rightarrow> ok_json (BJson (metrics_json (productivity_metrics (filter (in_window uid startDate) db)))))"

section \<open>The score route\<close>

record grade_info =
  g_grade :: string
  g_description :: string
  g_color :: string

definition getPerformanceGrade :: "jsnum \<Rightarrow> grade_info" where
  "getPerformanceGrade score =
    (if js_le (Fin 90) score then \<lparr>g_grade = ''A+'', g_description = ''Exceptional Performance'', g_color = ''#00C851''\<rparr>
     else if js_le (Fin 80) score then \<lparr>g_grade = ''A'', g_description = ''Excellent Performance'', g_color = ''#2E7D32''\<rparr>
     else if js_le (Fin 70) score then \<lparr>g_grade = ''B'', g_description = ''Good Performance'', g_color = ''#FFA000''\<rparr>
     else if js_le (Fin 60) score then \<lparr>g_grade = ''C'', g_description = ''Average Performance'', g_color = ''#FF6F00''\<rparr>
     else if js_le (Fin 50) score then \<lparr>g_grade = ''D'', g_description = ''Below Average'', g_color = ''#E65100''\<rparr>
     else \<lparr>g_grade = ''F'', g_description = ''Needs Improvement'', g_color = ''#D32F2F''\<rparr>)"

record insight =
  i_type :: string
  i_message :: string

definition category_text :: "category option \<Rightarrow> string" where
  "category_text c = (case c of None \<Rightarrow> ''null'' | Some k \<Rightarrow> category_name k)"

definition generateSimpleInsights :: "activity list \<Rightarrow> jsnum \<Rightarrow> insight list" where
  "generateSimpleInsights activities score =
    (if activities = [] then [\<lparr>i_type = ''info'', i_message = ''Start browsing to generate insights!''\<rparr>]
     else
       (if js_less (Fin 80) score then [\<lparr>i_type = ''success'', i_message = ''Excellent productivity today!''\<rparr>]
        else if js_less score (Fin 40)
        then [\<lparr>i_type = ''warning'', i_message = ''Try visiting more productive sites to improve your score''\<rparr>]
        else [])
       @ (let recentActivity = last activities
          in [\<lparr>i_type = ''info'', i_message = ''Recent activity: '' @ act_domain recentActivity
                 @ '' ('' @ category_text (act_category recentActivity) @ '')''\<rparr>]))"

definition realtime_score :: "activity list \<Rightarrow> jsnum" where
  "realtime_score activities =
    (let totalTime = sum_time activities;
         productiveTime = sum_time (filter is_productive_doc activities)
     in if js_less (Fin 0) totalTime then js_math_round (js_mul (js_div productiveTime totalTime) (Fin 100)) else Fin 0)"

definition grade_json :: "grade_info \<Rightarrow> json" where
  "grade_json g = JObj [(''grade'', JStr (g_grade g)), (''description'', JStr (g_description g)),
                        (''color'', JStr (g_color g))]"

definition insight_json :: "insight \<Rightarrow> json" where
  "insight_json i = JObj [(''type'', JStr (i_type i)), (''message'', JStr (i_message i))]"

definition get_score :: "srv_env \<Rightarrow> string \<Rightarrow> activity list \<Rightarrow> http_response" where
  "get_score e uid db =
    (let activities = filter (in_window uid (srv_now e - 24 * 60 * 60 * 1000)) db;
         score = realtime_score activities
     in ok_json (BJson (JObj [(''score'', num_json score), (''grade'', grade_json (getPerformanceGrade score)),
                              (''insights'', JArr (map insight_json (generateSimpleInsights activities score)))])))"

section \<open>The router\<close>

datatype analytics_route = R_productivity | R_score

definition analytics_routes :: "(meth \<times> seg list \<times> analytics_route) list" where
  "analytics_routes =
    [(GET, [Lit ''productivity'', Par ''userId''], R_productivity),
     (GET, [Lit ''score'', Par ''userId''], R_score)]"

definition analytics_router ::
  "srv_env \<Rightarrow> meth \<Rightarrow> string list \<Rightarrow> query \<Rightarrow> activity list \<Rightarrow> http_response option" where
  "analytics_router e m xs q db =
    (case first_route analytics_routes m xs of
       None \<Rightarrow> None
     | Some (R_productivity, ps) \<Rightarrow> Some (get_productivity e (the (map_of ps ''userId'')) q db)
     | Some (R_score, ps) \<Rightarrow> Some (get_score e (the (map_of ps ''userId'')) db))"

section \<open>Examples and the ranking of grades\<close>

definition example_doc :: activity where
  "example_doc = \<lparr>act_userId = ''u1'', act_domain = ''github.com'', act_url = None, act_title = None,
     act_timeSpent = Fin 600000, act_category = Some Productive, act_subcategory = None,
     act_isActive = Some True, act_focusScore = Some (Fin 100), act_sessionId = None,
     act_metadata = JObj [], act_createdAt = 0, act_updatedAt = 0\<rparr>"

definition grade_rank :: "string \<Rightarrow> nat" where
  "grade_rank g = (if g = ''A+'' then 5 else if g = ''A'' then 4 else if g = ''B'' then 3
                   else if g = ''C'' then 2 else if g = ''D'' then 1 else 0)"

section \<open>Lemmas\<close>

lemma sum_time_fin:
  "\<forall>a \<in> set acts. \<exists>r. act_timeSpent a = Fin r \<Longrightarrow>
   foldl (\<lambda>sum a. js_add sum (time_of a)) (Fin c) acts
     = Fin (c + sum_list (map (\<lambda>a. case act_timeSpent a of Fin r \<Rightarrow> r | _ \<Rightarrow> 0) acts))"
proof (induction acts arbitrary: c)
  case (Cons a acts)
  then obtain r where "act_timeSpent a = Fin r" by auto
  with Cons show ?case by (auto simp: time_of_def add.assoc)
qed simp

lemma replace_d_show_nat: "replace_first ''d'' [] (show_nat n @ ''d'') = show_nat n"
proof -
  have "CHR ''d'' \<notin> set (show_nat n)"
    using show_nat_digits [of n] by (auto simp: list_all_iff is_digit_def digit_val_def simp del: show_nat.simps)
  then show ?thesis using replace_last_char [of "CHR ''d''" "show_nat n"] by (simp del: show_nat.simps)
qed

lemma js_trunc_of_int [simp]: "js_trunc (of_int i) = i"
  by (simp add: js_trunc_def)

section \<open>Properties\<close>

text \<open>C25: when every document's \<open>timeSpent\<close> is a non-negative number, the score of \<open>GET /score\<close> is an integer between 0 and 100.\<close>

theorem score_bounded:
  assumes "\<forall>a \<in> set acts. \<exists>r. act_timeSpent a = Fin r \<and> 0 \<le> r"
  shows "int_in 0 100 (realtime_score acts)"
proof -
  let ?f = "\<lambda>a. case act_timeSpent a of Fin r \<Rightarrow> r | _ \<Rightarrow> (0::real)"
  have fin: "\<forall>a \<in> set acts. \<exists>r. act_timeSpent a = Fin r" and nn: "\<forall>a \<in> set acts. 0 \<le> ?f a"
    using assms by auto
  have t: "sum_time acts = Fin (sum_list (map ?f acts))"
    using sum_time_fin [OF fin, of 0] by (simp add: sum_time_def)
  have p: "sum_time (filter is_productive_doc acts) = Fin (sum_list (map ?f (filter is_productive_doc acts)))"
    using sum_time_fin [of "filter is_productive_doc acts" 0] fin by (simp add: sum_time_def)
  let ?t = "sum_list (map ?f acts)" and ?p = "sum_list (map ?f (filter is_productive_doc acts))"
  have le: "?p \<le> ?t" using sum_nonneg_filter [OF nn] .
  have p0: "0 \<le> ?p" by (rule sum_list_nonneg) (use nn in auto)
  show ?thesis
  proof (cases "0 < ?t")
    case True
    have "0 \<le> ?p / ?t * 100" and "?p / ?t * 100 \<le> 100"
      using percent_bounds [OF True le p0] by simp_all
    then have "0 \<le> js_round (?p / ?t * 100) \<and> js_round (?p / ?t * 100) \<le> 100"
      using js_round_lower [of 0] js_round_upper [of _ 100] by simp
    with True show ?thesis by (simp add: realtime_score_def t p Let_def)
  next
    case False
    then show ?thesis by (simp add: realtime_score_def t p Let_def int_in_def)
  qed
qed

theorem score_bounded_witness:
  "int_in 0 100 (realtime_score [example_doc, example_doc\<lparr>act_timeSpent := Fin 300000, act_category := Some Neutral\<rparr>])"
  using score_bounded [of "[example_doc, example_doc\<lparr>act_timeSpent := Fin 300000, act_category := Some Neutral\<rparr>]"]
  by (simp add: example_doc_def)

text \<open>C26: the schema puts no lower bound on \<open>timeSpent\<close>: \<open>POST /advanced\<close> stores any number, negative included; and whenever the productive time exceeds the total time by 1% or more (only possible with a negative time), the score of \<open>GET /score\<close> is above 100.\<close>

theorem negative_time_breaks_score:
  assumes "sum_time acts = Fin t" and "sum_time (filter is_productive_doc acts) = Fin p"
    and "0 < t" and "101 * t \<le> 100 * p"
  shows "js_less (Fin 100) (realtime_score acts)
         \<and> (\<exists>a. post_advanced e (JObj [(''userId'', JStr ''u''), (''domain'', JStr ''b.com''),
                                       (''timeSpent'', JNum (Fin r))]) db = (db @ [a], ok_json (BDoc a))
                \<and> act_timeSpent a = Fin r)"
proof -
  have "101 \<le> p / t * 100" using assms(3,4) by (simp add: field_simps)
  then have "101 \<le> js_round (p / t * 100)" using js_round_lower [of 101] by simp
  then have score: "js_less (Fin 100) (realtime_score acts)"
    using assms(1-3) by (simp add: realtime_score_def Let_def)
  define b where "b = JObj [(''userId'', JStr ''u''), (''domain'', JStr ''b.com''), (''timeSpent'', JNum (Fin r))]"
  have na: "new_activity (srv_now e) b = Inr \<lparr>act_userId = ''u'', act_domain = ''b.com'', act_url = None,
                  act_title = None, act_timeSpent = Fin r, act_category = Some Neutral, act_subcategory = None,
                  act_isActive = Some True, act_focusScore = Some (Fin 0), act_sessionId = None,
                  act_metadata = JObj [], act_createdAt = srv_now e, act_updatedAt = srv_now e\<rparr>"
    using new_activity_casts [where b = b and u = "''u''" and dm = "''b.com''" and ts = "Fin r"
        and c = "Some Neutral" and ia = "Some True" and f = "Some (Fin 0)" and t = "srv_now e"]
    by (simp add: b_def json_field_def cast_defs focus_path_def)
  then have "\<exists>a. post_advanced e b db = (db @ [a], ok_json (BDoc a)) \<and> act_timeSpent a = Fin r"
    by (simp add: post_advanced_def save_activity_def)
  then show ?thesis using score by (simp add: b_def)
qed

theorem negative_time_breaks_score_witness:
  "sum_time [example_doc, example_doc\<lparr>act_timeSpent := Fin (-300000), act_category := Some Neutral\<rparr>] = Fin 300000
   \<and> sum_time (filter is_productive_doc [example_doc, example_doc\<lparr>act_timeSpent := Fin (-300000), act_category := Some Neutral\<rparr>])
       = Fin 600000
   \<and> (0::real) < 300000 \<and> 101 * (300000::real) \<le> 100 * 600000
   \<and> js_less (Fin 100) (realtime_score [example_doc, example_doc\<lparr>act_timeSpent := Fin (-300000), act_category := Some Neutral\<rparr>])"
proof -
  have t: "sum_time [example_doc, example_doc\<lparr>act_timeSpent := Fin (-300000), act_category := Some Neutral\<rparr>] = Fin 300000"
    by (simp add: sum_time_def time_of_def example_doc_def)
  have p: "sum_time (filter is_productive_doc [example_doc, example_doc\<lparr>act_timeSpent := Fin (-300000), act_category := Some Neutral\<rparr>])
       = Fin 600000"
    by (simp add: sum_time_def time_of_def example_doc_def is_productive_doc_def)
  have "js_less (Fin 100) (realtime_score [example_doc, example_doc\<lparr>act_timeSpent := Fin (-300000), act_category := Some Neutral\<rparr>])"
    using conjunct1 [OF negative_time_breaks_score [OF t p, where e = "\<lparr>srv_now = 0, srv_mday = 1\<rparr>" and db = "[]" and r = 0]]
    by simp
  then show ?thesis using t p by simp
qed

text \<open>C27: \<open>getPerformanceGrade\<close> equals the reference ranking that counts the thresholds 50, 60, 70, 80, 90 of the spec (\S 6) reached by the score, each inclusive (F, D, C, B, A, A+ for 0 to 5), and a NaN score is graded F; hence the grade never falls as the score rises.\<close>

theorem grade_thresholds:
  "grade_rank (g_grade (getPerformanceGrade (Fin x))) = length (filter (\<lambda>b. b \<le> x) [50, 60, 70, 80, 90 :: real])
   \<and> g_grade (getPerformanceGrade NaN) = ''F''"
  by (simp add: getPerformanceGrade_def js_le_def grade_rank_def)

text \<open>C28: \<open>GET /productivity/:userId?period=<n>d\<close> answers the metrics of the user's documents created in the last n days: the period string round-trips through \<open>parseInt(period.replace('d', ''))\<close>.\<close>

theorem productivity_window:
  "get_productivity e uid [(''period'', show_nat n @ ''d'')] db
     = ok_json (BJson (metrics_json (productivity_metrics (filter (in_window uid (srv_now e - int n * 86400000)) db))))"
proof -
  have "period_days [(''period'', show_nat n @ ''d'')] = Fin (of_nat n)"
    using js_parseInt_show_int [of "int n"] by (simp add: period_days_def replace_d_show_nat show_int_def del: show_nat.simps)
  moreover have "js_trunc (real_of_int (srv_mday e) - real n) = srv_mday e - int n"
    using js_trunc_of_int [of "srv_mday e - int n"] by simp
  then have "srv_now e + (js_trunc (real_of_int (srv_mday e) - real n) - srv_mday e) * 86400000
             = srv_now e - int n * 86400000" by simp
  ultimately show ?thesis
    by (simp add: get_productivity_def days_back_def js_sub_def del: show_nat.simps)
qed

text \<open>C29: a period that \<open>parseInt\<close> cannot read (such as 'week') makes the start date invalid, the query's cast fails and the route answers 500.\<close>

theorem productivity_bad_period:
  "period_days q = NaN \<Longrightarrow> get_productivity e uid q db = server_error ''Cast to date failed''"
  by (simp add: get_productivity_def days_back_def js_sub_def)

theorem productivity_bad_period_witness:
  "get_productivity \<lparr>srv_now = 0, srv_mday = 1\<rparr> ''u1'' [(''period'', ''week'')] [] = server_error ''Cast to date failed''"
  using productivity_bad_period [of "[(''period'', ''week'')]"]
  by (simp add: period_days_def js_parseInt_def js_space_def is_digit_def digit_val_def Let_def)

end
