(* ===== verification/Server.thy ===== *)
theory Server
  imports Content Analytics
begin

text \<open>
  The API server \<^verbatim>\<open>src/server.js\<close> (lines 8--18): the activity router
  mounted at \<open>/api/activity\<close>, the analytics router at \<open>/api/analytics\<close>, and
  the root route; a request no route takes gets Express's 404. A mount point
  matches whole leading segments, without regard to ASCII case, and the router
  sees the rest of the path. \<open>cors\<close> and \<open>body-parser\<close> are library
  middleware: the body arrives parsed, a malformed body (answered 400 by
  \<open>body-parser\<close>) is not modelled; \<open>connectDB\<close> and \<open>listen\<close> are I/O.

  The theorems of this theory compose the extension with the backend: what the
  background's \<open>syncWithBackend\<close> posts is what the server stores, and what the
  analytics route then reports.
\<close>

definition not_found :: "meth \<Rightarrow> string \<Rightarrow> http_response" where
  "not_found m p = \<lparr>status = 404, resp_body = BText (''Cannot '' @ (case m of GET \<Rightarrow> ''GET'' | POST \<Rightarrow> ''POST'') @ '' '' @ p)\<rparr>"

definition mount_prefix :: "string list \<Rightarrow> string list \<Rightarrow> string list option" where
  "mount_prefix pre xs =
    (if length pre \<le> length xs \<and> map js_lower (take (length pre) xs) = map js_lower pre
     then Some (drop (length pre) xs) else None)"

definition root_response :: http_response where
  "root_response = ok_json (BJson (JObj [(''message'', JStr ''Time Tracker API is running!''), (''status'', JStr ''OK'')]))"

definition app_handle ::
  "srv_env \<Rightarrow> meth \<Rightarrow> string \<Rightarrow> query \<Rightarrow> json \<Rightarrow> activity list \<Rightarrow> activity list \<times> http_response" where
  "app_handle e m p q b db =
    (let xs = path_segments p;
         r1 = (case mount_prefix [''api'', ''activity''] xs of None \<Rightarrow> None | Some ys \<Rightarrow> activity_router e m ys q b db);
         r2 = (case mount_prefix [''api'', ''analytics''] xs of None \<Rightarrow> None
               | Some ys \<Rightarrow> map_option (\<lambda>r. (db, r)) (analytics_router e m ys q db))
     in case r1 of Some r \<Rightarrow> r
        | None \<Rightarrow> (case r2 of Some r \<Rightarrow> r
                   | None \<Rightarrow> if m = GET \<and> xs = [] then (db, root_response) else (db, not_found m p)))"

section \<open>Scenario inputs\<close>

definition file_tab :: tab where
  "file_tab = \<lparr>tab_id = 2, tab_url = Some ''file:///home/u/notes.html'', tab_title = Some ''notes'', tab_active = True\<rparr>"

definition file_env :: env where
  "file_env = demo_env\<lparr>tabs := [2 \<mapsto> file_tab]\<rparr>"

definition file_started :: tracker where
  "file_started = fst (dispatch (spec_hooks Map.empty) file_env (TabActivated 2) (init_tracker empty_store empty_sync))"

definition doc_of :: "session \<Rightarrow> activity \<Rightarrow> bool" where
  "doc_of s a \<longleftrightarrow> act_timeSpent a = Fin (dur_of s) \<and> act_category a = Some (category s)"

section \<open>Lemmas\<close>

lemma sync_startNewSession: "sync (fst (startNewSession h e t u st)) = sync st"
  by (simp add: startNewSession_def Let_def updateBadge_def startActivityMonitoring_def
      applyFocusMode_def notify_def split: sum.splits)

lemma sync_handleTabChange:
  "snd (endCurrentSession h e st) = None \<Longrightarrow>
   sync (fst (handleTabChange h e tid st)) = sync (fst (endCurrentSession h e st))"
  by (cases "endCurrentSession h e st") (auto simp: handleTabChange_def sync_startNewSession split: option.splits)

lemma getUserId_sent: "sent (snd (getUserId t rand st)) = sent st"
  by (simp add: getUserId_def Let_def split: option.splits)

lemma domain_finish [simp]: "domain (finish_session t s) = domain s"
  by (simp add: finish_session_def Let_def)

lemma sent_endCurrentSession:
  assumes "currentSession st = Some s" "snd (endCurrentSession h e st) = None" "net_ok e"
  shows "\<exists>uid. sent (sync (fst (endCurrentSession h e st))) = sent (sync st) @ [mk_payload uid (finish_session (now e) s)]"
proof -
  obtain u sy where g: "getUserId (now e) (rand_user e) (sync st) = (u, sy)" by fastforce
  have "sent sy = sent (sync st)" using getUserId_sent [of "now e" "rand_user e" "sync st"] g by simp
  then have "sent (sync (fst (endCurrentSession h e st))) = sent (sync st) @ [mk_payload u (finish_session (now e) s)]"
    using endCurrentSession_Some [OF assms(1,2)] assms(3) g by (simp add: syncWithBackend_def)
  then show ?thesis by blast
qed

lemma new_activity_domain_fails:
  assumes "cast_string (json_field ''domain'' b) = FVal []"
  shows "\<exists>errs. new_activity t b = Inl errs"
  unfolding new_activity_def Let_def
  apply (subst if_P)
   apply (rule map_filter_id_ne [where a = "''domain''"])
   apply (simp add: assms required_str_def)
  apply blast
  done

lemma app_advanced: "app_handle e POST ''/api/activity/advanced'' q b db = post_advanced e b db"
  by (simp add: app_handle_def path_segments_def mount_prefix_def activity_router_def activity_routes_def
      js_lower_def lower_char_def)

lemma file_start:
  "currentSession file_started = Some (new_session file_env file_tab ''file:///home/u/notes.html'' Neutral)"
  by (simp add: file_started_def handleTabChange_def endCurrentSession_None init_tracker_def file_env_def demo_env_def
      startNewSession_def Let_def categorizeWebsite_def spec_hooks_def extractDomain_def url_hostname_def
      split_scheme_def authority_host_def is_ascii_alpha_def is_scheme_char_def js_simps getCategories_def
      isSystemUrl_def truthy_str_def file_tab_def frame_simps analyzePageContent_def drive_letter_def)

lemma file_start_sent: "sent (sync file_started) = []"
  by (simp add: file_started_def handleTabChange_def endCurrentSession_None init_tracker_def file_env_def
      demo_env_def sync_startNewSession empty_sync_def file_tab_def truthy_str_def isSystemUrl_def)

lemma file_domain: "domain (new_session file_env file_tab ''file:///home/u/notes.html'' Neutral) = []"
  by (simp add: new_session_def extractDomain_def url_hostname_def split_scheme_def authority_host_def
      is_ascii_alpha_def is_scheme_char_def js_simps drive_letter_def)

lemma post_payload_doc:
  assumes "duration s = Some d" "finalFocusScore s = Some (Fin (of_int i))" "0 \<le> i" "i \<le> 100"
    "uid \<noteq> []" "domain s \<noteq> []"
  shows "\<exists>a. post_advanced e (payload_json (mk_payload uid s)) db = (db @ [a], ok_json (BDoc a))
           \<and> act_timeSpent a = Fin (of_int d) \<and> act_category a = Some (category s)"
proof -
  have sc: "Fin (of_int i) = NaN \<or> int_in 0 100 (Fin (of_int i))" using assms(3,4) by simp
  show ?thesis
    using new_activity_casts [where b = "payload_json (mk_payload uid s)" and u = uid and dm = "domain s"
      and ts = "Fin (of_int d)" and c = "Some (category s)" and ia = "Some True"
      and f = "Some (Fin (of_int i))" and t = "srv_now e"]
      assms focus_path_score [OF sc]
    by (simp add: payload_fields cast_defs int_json_def post_advanced_def save_activity_def)
qed

lemma post_all:
  assumes "list_all well_ended ss" "uid \<noteq> []"
    "\<forall>s\<in>set ss. domain s \<noteq> [] \<and> (\<exists>i. finalFocusScore s = Some (Fin (of_int i)) \<and> 0 \<le> i \<and> i \<le> 100)"
  shows "\<exists>docs. foldl (\<lambda>db s. fst (post_advanced e (payload_json (mk_payload uid s)) db)) db0 ss = db0 @ docs
           \<and> list_all2 doc_of ss docs"
  using assms
proof (induction ss arbitrary: db0)
  case Nil
  then show ?case by simp
next
  case (Cons s ss)
  obtain d where d: "duration s = Some d" using Cons.prems(1) by (auto simp: well_ended_def)
  obtain i where i: "finalFocusScore s = Some (Fin (of_int i))" "0 \<le> i" "i \<le> 100" using Cons.prems(3) by auto
  obtain a where a: "post_advanced e (payload_json (mk_payload uid s)) db0 = (db0 @ [a], ok_json (BDoc a))"
      "act_timeSpent a = Fin (of_int d)" "act_category a = Some (category s)"
    using post_payload_doc [OF d i Cons.prems(2), of e db0] Cons.prems(3) by auto
  obtain docs where docs: "foldl (\<lambda>db s. fst (post_advanced e (payload_json (mk_payload uid s)) db)) (db0 @ [a]) ss
      = (db0 @ [a]) @ docs" "list_all2 doc_of ss docs"
    using Cons.IH [of "db0 @ [a]"] Cons.prems by auto
  have "doc_of s a" using a d by (simp add: doc_of_def dur_of_def)
  with a docs show ?case by (intro exI [of _ "a # docs"]) simp
qed

lemma sum_docs:
  "list_all2 doc_of ss docs \<Longrightarrow> sum_time docs = Fin (sum_list (map dur_of ss))"
proof -
  assume r: "list_all2 doc_of ss docs"
  have fin: "\<forall>a \<in> set docs. \<exists>r. act_timeSpent a = Fin r"
    using r by (induction rule: list_all2_induct) (auto simp: doc_of_def)
  have "sum_list (map (\<lambda>a. case act_timeSpent a of Fin r \<Rightarrow> r | _ \<Rightarrow> 0) docs) = sum_list (map dur_of ss)"
    using r by (induction rule: list_all2_induct) (auto simp: doc_of_def)
  then show ?thesis using sum_time_fin [OF fin, of 0] by (simp add: sum_time_def)
qed

lemma filter_docs:
  "list_all2 doc_of ss docs \<Longrightarrow>
   list_all2 doc_of (filter (\<lambda>s. is_productive (category s)) ss) (filter is_productive_doc docs)"
  by (induction rule: list_all2_induct) (auto simp: doc_of_def is_productive_def is_productive_doc_def)

section \<open>Properties\<close>

text \<open>C30: a session whose page has no host name (a file:// or data: page: extractDomain gives the empty string) is ended, stored and synced without error by the extension, but the server's POST /api/activity/advanced rejects it with 500 (domain is required) and stores nothing; syncWithBackend never reads the response status, so the session is lost from the backend without a retry.\<close>

theorem empty_domain_session_lost:
  assumes "currentSession st = Some s" "domain s = []" "has_queueForRetry h" "net_ok e"
  shows "snd (handleTabChange h e tid st) = None
    \<and> (\<exists>p. sent (sync (fst (handleTabChange h e tid st))) = sent (sync st) @ [p] \<and> pl_domain p = []
         \<and> fst (app_handle se POST ''/api/activity/advanced'' [] (payload_json p) db) = db
         \<and> status (snd (app_handle se POST ''/api/activity/advanced'' [] (payload_json p) db)) = 500)"
proof -
  have ok: "snd (handleTabChange h e tid st) = None" using handleTabChange_retry_ok [OF assms(3)] .
  have end_ok: "snd (endCurrentSession h e st) = None" using handleTabChange_ok_end [OF ok] .
  obtain uid where sent: "sent (sync (fst (endCurrentSession h e st))) = sent (sync st) @ [mk_payload uid (finish_session (now e) s)]"
    using sent_endCurrentSession [OF assms(1) end_ok assms(4)] by blast
  let ?p = "mk_payload uid (finish_session (now e) s)"
  have "cast_string (json_field ''domain'' (payload_json ?p)) = FVal []"
    using assms(2) by (simp add: payload_fields cast_string_def)
  then obtain errs where "new_activity (srv_now se) (payload_json ?p) = Inl errs"
    using new_activity_domain_fails by blast
  then have "post_advanced se (payload_json ?p) db = (db, server_error (validation_message errs))"
    by (simp add: post_advanced_def save_activity_def)
  then show ?thesis using ok sent assms(2)
    by (simp add: sync_handleTabChange [OF end_ok] app_advanced server_error_def)
qed

theorem empty_domain_session_lost_witness:
  "snd (handleTabChange (spec_hooks Map.empty) (demo_env\<lparr>now := 60005\<rparr>) 1 file_started) = None
   \<and> (\<exists>p. sent (sync (fst (handleTabChange (spec_hooks Map.empty) (demo_env\<lparr>now := 60005\<rparr>) 1 file_started))) = [p]
         \<and> pl_domain p = []
         \<and> fst (app_handle \<lparr>srv_now = 60010, srv_mday = 9\<rparr> POST ''/api/activity/advanced'' [] (payload_json p) []) = []
         \<and> status (snd (app_handle \<lparr>srv_now = 60010, srv_mday = 9\<rparr> POST ''/api/activity/advanced'' [] (payload_json p) [])) = 500)"
  using empty_domain_session_lost [OF file_start file_domain,
      of "spec_hooks Map.empty" "demo_env\<lparr>now := 60005\<rparr>" 1 "\<lparr>srv_now = 60010, srv_mday = 9\<rparr>" "[]"]
    file_start_sent
  by (simp add: spec_hooks_def demo_env_def)

text \<open>C31: for a day's sessions synced to the backend in order (well ended, with host names and integer final scores in [0, 100]), the productivity metrics the analytics route computes over the stored documents agree with the extension's daily aggregate: the same total time, the same productive time, the same count.\<close>

theorem analytics_agree_with_daily:
  assumes "list_all well_ended ss" "ss \<noteq> []" "store dy = None" "uid \<noteq> []"
    "\<forall>s\<in>set ss. domain s \<noteq> [] \<and> (\<exists>i. finalFocusScore s = Some (Fin (of_int i)) \<and> 0 \<le> i \<and> i \<le> 100)"
  shows "let m = productivity_metrics (foldl (\<lambda>db s. fst (post_advanced e (payload_json (mk_payload uid s)) db)) [] ss);
             d = the (aggregate_sessions dy ss store dy)
         in m_totalTime m = Fin (totalTime d) \<and> m_productiveTime m = Fin (productiveTime d)
            \<and> int (m_sessionsCount m) = sessions d"
proof -
  obtain docs where docs: "foldl (\<lambda>db s. fst (post_advanced e (payload_json (mk_payload uid s)) db)) [] ss = docs"
      "list_all2 doc_of ss docs"
    using post_all [OF assms(1,4,5), of e "[]"] by auto
  have "day_of store dy = daily_abs dy []" using assms(3) by (simp add: day_of_def daily_abs_Nil)
  then have agg: "aggregate_sessions dy ss store dy = Some (daily_abs dy ss)"
    using aggregate_sessions_abs [OF assms(1) _ assms(2), of store dy "[]"] by simp
  show ?thesis
    using docs sum_docs [OF docs(2)] sum_docs [OF filter_docs [OF docs(2)]] list_all2_lengthD [OF docs(2)]
    by (simp add: agg productivity_metrics_def daily_abs_def Let_def)
qed

theorem analytics_agree_with_daily_witness:
  "let m = productivity_metrics (foldl (\<lambda>db s. fst (post_advanced \<lparr>srv_now = 0, srv_mday = 1\<rparr>
                 (payload_json (mk_payload ''u1'' s)) db)) []
                 [example_session\<lparr>duration := Some 600000, finalFocusScore := Some (Fin 100)\<rparr>]);
       d = the (aggregate_sessions ''d'' [example_session\<lparr>duration := Some 600000, finalFocusScore := Some (Fin 100)\<rparr>]
                 Map.empty ''d'')
   in m_totalTime m = Fin (totalTime d) \<and> m_productiveTime m = Fin (productiveTime d)
      \<and> int (m_sessionsCount m) = sessions d"
  using analytics_agree_with_daily [of "[example_session\<lparr>duration := Some 600000, finalFocusScore := Some (Fin 100)\<rparr>]"
      Map.empty "''d''" "''u1''" "\<lparr>srv_now = 0, srv_mday = 1\<rparr>"]
  by (simp add: well_ended_def example_session_def exI [of _ 100])

end
