(* ===== verification/Popup.thy ===== *)
theory Popup
  imports Server
begin

text \<open>
  The popup \<^verbatim>\<open>src/popup.js\<close> (class \<open>EnterprisePopupManager\<close>): it asks the
  background for the current session, the settings and the daily statistics,
  the API for the score (\<open>GET /api/analytics/score/:userId\<close>), renders them,
  and sends the background the control messages of its buttons.

  The DOM is a record per group of elements, holding the value each
  assignment puts there: a text built by a template literal is a string, a
  value copied from the API's JSON (\<open>el.textContent = score\<close>) is kept as the
  JSON value whose \<open>String()\<close> the element shows. The icons and the emoji that
  prefix some button labels are characters outside Latin-1; icons are the
  constructors of \<open>icon\<close>, labels are modelled without their emoji, and the
  separator of the score breakdown is left out of \<open>breakdown_view\<close>.
  \<open>toUpperCase\<close> maps ASCII letters only.
\<close>

section \<open>Formatting helpers\<close>

text \<open>\<open>formatDuration\<close> (lines 454--462; \<^verbatim>\<open>src/background.js\<close> has the same
  method, 599--607).\<close>

definition formatDuration :: "real \<Rightarrow> string" where
  "formatDuration ms =
    (let minutes = \<lfloor>ms / 60000\<rfloor>; hours = \<lfloor>real_of_int minutes / 60\<rfloor>
     in if 0 < hours then show_int hours @ ''h '' @ show_int (js_rem minutes 60) @ ''m''
        else show_int minutes @ ''m'')"

definition getScoreColor :: "jsnum \<Rightarrow> string" where
  "getScoreColor score =
    (if js_le (Fin 90) score then ''#00C851'' else if js_le (Fin 80) score then ''#4CAF50''
     else if js_le (Fin 70) score then ''#FF9800'' else if js_le (Fin 60) score then ''#FF5722''
     else ''#F44336'')"

text \<open>\<open>getInsightIcon\<close> (478--489): the icon of a type string; a name of
  \<open>Object.prototype\<close> looks up the inherited member, truthy, which the popup
  then prints (\<open>IInherited\<close>); any other value gets the recommendation icon.
  A non-string type is looked up by its \<open>String()\<close>; only strings are
  modelled, others get the default.\<close>

datatype icon = IWarning | ISuccess | IInfo | IRecommendation | IAlert | ITip | IInherited string

definition object_proto_names :: "string list" where
  "object_proto_names = [''constructor'', ''__defineGetter__'', ''__defineSetter__'', ''hasOwnProperty'',
     ''__lookupGetter__'', ''__lookupSetter__'', ''isPrototypeOf'', ''propertyIsEnumerable'',
     ''toString'', ''valueOf'', ''__proto__'', ''toLocaleString'']"

definition getInsightIcon :: "json option \<Rightarrow> icon" where
  "getInsightIcon t =
    (case t of Some (JStr s) \<Rightarrow>
        (if s = ''warning'' then IWarning else if s = ''success'' then ISuccess
         else if s = ''info'' then IInfo else if s = ''recommendation'' then IRecommendation
         else if s = ''alert'' then IAlert else if s = ''tip'' then ITip
         else if s \<in> set object_proto_names then IInherited s else IRecommendation)
     | _ \<Rightarrow> IRecommendation)"

definition upper_char :: "char \<Rightarrow> char" where
  "upper_char c = (if (97::nat) \<le> of_char c \<and> of_char c \<le> (122::nat) then char_of (of_char c - (32::nat)) else c)"

definition is_upper :: "char \<Rightarrow> bool" where
  "is_upper c \<longleftrightarrow> (65::nat) \<le> of_char c \<and> of_char c \<le> (90::nat)"

text \<open>\<open>formatScoreKey\<close> (464--468): a space before each capital, the first
  character upper-cased, the first \<open>Score\<close> removed.\<close>

definition formatScoreKey :: "string \<Rightarrow> string" where
  "formatScoreKey key =
    (let spaced = concat (map (\<lambda>c. if is_upper c then [CHR '' '', c] else [c]) key);
         capital = (case spaced of [] \<Rightarrow> [] | c # cs \<Rightarrow> if c = CHR 0x0A \<or> c = CHR 0x0D then c # cs else upper_char c # cs)
     in replace_first ''Score'' [] capital)"

text \<open>JavaScript truthiness of a JSON value, and \<open>v || d\<close> on a member that may be
  absent.\<close>

fun json_truthy :: "json \<Rightarrow> bool" where
  "json_truthy JNull = False"
| "json_truthy (JBool b) = b"
| "json_truthy (JNum x) = (x \<noteq> Fin 0 \<and> x \<noteq> NaN)"
| "json_truthy (JStr s) = (s \<noteq> [])"
| "json_truthy (JArr xs) = True"
| "json_truthy (JObj kvs) = True"

definition or_default :: "json option \<Rightarrow> json \<Rightarrow> json" where
  "or_default v d = (case v of Some x \<Rightarrow> if json_truthy x then x else d | None \<Rightarrow> d)"

section \<open>The score panel\<close>

text \<open>The text of an element: a literal, or a value of the API's JSON whose
  \<open>String()\<close> the element shows (\<open>el.textContent = v\<close>; \<open>undefined\<close> is
  \<open>Shown None\<close>, shown as the empty text).\<close>

datatype dom_text = Txt string | Shown "json option"

datatype breakdown_view = BText string | BEntries "(string \<times> jsnum) list"

datatype insight_view = IDefault | IItems "(icon \<times> json option) list" | IOffline

record score_panel =
  sp_deg :: "jsnum option"
  sp_value :: dom_text
  sp_grade :: dom_text
  sp_title :: dom_text
  sp_breakdown :: breakdown_view
  sp_color :: "string option"
  sp_insights :: insight_view

text \<open>\<open>Object.entries\<close> of a truthy value: the members of an object in the order
  of the JSON text (the keys are taken to be distinct and not array indices),
  the indices of an array or of a string, nothing for a number or \<open>true\<close>.\<close>

fun json_entries :: "json \<Rightarrow> (string \<times> json) list" where
  "json_entries (JObj kvs) = kvs"
| "json_entries (JArr xs) = zip (map show_nat [0..<length xs]) xs"
| "json_entries (JStr s) = zip (map show_nat [0..<length s]) (map (\<lambda>c. JStr [c]) s)"
| "json_entries _ = []"

text \<open>\<open>updateScoreDisplay\<close> (109--141); reading a member of \<open>null\<close> throws
  before any element is written (\<open>None\<close>).\<close>

definition updateScoreDisplay :: "json \<Rightarrow> score_panel \<Rightarrow> score_panel option" where
  "updateScoreDisplay scoreData p =
    (if scoreData = JNull then None else
     (let score = or_default (json_field ''score'' scoreData) (JNum (Fin 0));
          grade = or_default (json_field ''grade'' scoreData)
                    (JObj [(''grade'', JStr ''N/A''), (''description'', JStr ''No data'')]);
          breakdown = (case json_field ''breakdown'' scoreData of
                         Some b \<Rightarrow> if json_truthy b
                                   then BEntries (map (\<lambda>(k, v). (formatScoreKey k, js_math_round (json_to_number v)))
                                                      (json_entries b))
                                   else BText ''Start browsing to see detailed metrics''
                       | None \<Rightarrow> BText ''Start browsing to see detailed metrics'')
      in Some (p\<lparr>sp_deg := Some (js_mul (js_div (json_to_number score) (Fin 100)) (Fin 360)),
                 sp_value := Shown (Some score), sp_grade := Shown (json_field ''grade'' grade),
                 sp_title := Shown (json_field ''description'' grade),
                 sp_breakdown := breakdown, sp_color := Some (getScoreColor (json_to_number score))\<rparr>)))"

text \<open>\<open>updateInsights\<close> (236--270): the list is cleared first; then the API's
  insights and recommendations, at most three of them shown. Spreading a truthy
  value that is not an array, or reading a member of \<open>null\<close>, throws: the
  cleared panel and \<open>False\<close>.\<close>

definition spread_list :: "json option \<Rightarrow> json list option" where
  "spread_list v = (case v of None \<Rightarrow> Some [] | Some (JArr xs) \<Rightarrow> Some xs
                    | Some x \<Rightarrow> if json_truthy x then None else Some [])"

definition updateInsights :: "json \<Rightarrow> score_panel \<Rightarrow> score_panel \<times> bool" where
  "updateInsights scoreData p =
    (let p0 = p\<lparr>sp_insights := IItems []\<rparr> in
     if scoreData = JNull then (p0, False) else
     (case (spread_list (json_field ''insights'' scoreData), spread_list (json_field ''recommendations'' scoreData)) of
        (Some ins, Some recs) \<Rightarrow>
          (let insights = ins @ map (\<lambda>r. JObj [(''type'', JStr ''recommendation''), (''message'', r)]) recs
           in (p0\<lparr>sp_insights := (if insights = [] then IDefault
                   else IItems (map (\<lambda>i. (getInsightIcon (json_field ''type'' i), json_field ''message'' i))
                                    (take 3 insights)))\<rparr>, True))
      | _ \<Rightarrow> (p0, False)))"

text \<open>\<open>showOfflineScore\<close> (412--416).\<close>

definition showOfflineScore :: "score_panel \<Rightarrow> score_panel" where
  "showOfflineScore p = p\<lparr>sp_value := Txt ''--'', sp_grade := Txt ''N/A'',
                          sp_breakdown := BText ''Backend offline - showing cached data''\<rparr>"

text \<open>\<open>loadProductivityScore\<close> (94--107) on the answer of \<open>fetch\<close> (\<open>None\<close>: the
  request fails): an \<open>ok\<close> answer's JSON body rendered, the offline score when
  the answer is not \<open>ok\<close>, its body is not JSON or rendering throws. The
  score URL is answered by \<open>get_score\<close> (a JSON value) or by the 404 text;
  the document bodies of the activity routes never reach it and count as
  not JSON here.\<close>

definition response_json :: "http_response \<Rightarrow> json option" where
  "response_json r = (case resp_body r of BJson d \<Rightarrow> Some d | _ \<Rightarrow> None)"

definition loadProductivityScore :: "http_response option \<Rightarrow> score_panel \<Rightarrow> score_panel" where
  "loadProductivityScore r p =
    (case r of
       Some resp \<Rightarrow>
         (if 200 \<le> status resp \<and> status resp < 300
          then (case response_json resp of
                  Some d \<Rightarrow> (case updateScoreDisplay d p of
                              Some p1 \<Rightarrow> (let (p2, fine) = updateInsights d p1 in if fine then p2 else showOfflineScore p2)
                            | None \<Rightarrow> showOfflineScore p)
                | None \<Rightarrow> showOfflineScore p)
          else showOfflineScore p)
     | None \<Rightarrow> showOfflineScore p)"

section \<open>The session and metrics panels\<close>

record session_view =
  ss_domain :: string
  ss_duration :: string
  ss_focus :: string
  ss_activity :: string
  ss_active :: bool
  ss_progress :: real
  ss_color :: "string option"

definition category_color :: "category \<Rightarrow> string" where
  "category_color c = (case c of Highly_productive \<Rightarrow> ''#00C851'' | Productive \<Rightarrow> ''#4CAF50''
     | Neutral \<Rightarrow> ''#FF9800'' | Unproductive \<Rightarrow> ''#F44336'' | Break \<Rightarrow> ''#2196F3'')"

text \<open>\<open>updateSessionDisplay\<close> (143--186) at time \<open>now\<close>; \<open>x || d\<close> on the
  integer scores takes the default for 0.\<close>

definition updateSessionDisplay :: "int \<Rightarrow> session option \<Rightarrow> session_view" where
  "updateSessionDisplay tnow cur =
    (case cur of
       Some s \<Rightarrow>
         (let duration = tnow - startTime s; minutes = \<lfloor>real_of_int duration / 60000\<rfloor>
          in \<lparr>ss_domain = (if domain s = [] then ''Unknown'' else domain s),
              ss_duration = formatDuration (real_of_int duration),
              ss_focus = show_int (if focusScore s = 0 then 100 else focusScore s) @ ''%'',
              ss_activity = show_int (if activityScore s = 0 then 100 else activityScore s) @ ''%'',
              ss_active = True,
              ss_progress = min 100 (real_of_int minutes / 25 * 100),
              ss_color = Some (category_color (category s))\<rparr>)
     | None \<Rightarrow> \<lparr>ss_domain = ''No active session'', ss_duration = ''0m'', ss_focus = ''100%'',
                ss_activity = ''--'', ss_active = False, ss_progress = 0, ss_color = None\<rparr>)"

record metrics_view =
  mv_todayTime :: string
  mv_sessions :: string
  mv_streak :: string
  mv_efficiency :: string

text \<open>\<open>updateMetricsDisplay\<close> (188--202) on the background's daily aggregate,
  which has no \<open>streak\<close> or \<open>efficiency\<close> property (they read as 0).\<close>

definition updateMetricsDisplay :: "daily_data option \<Rightarrow> metrics_view" where
  "updateMetricsDisplay ds =
    (case ds of
       None \<Rightarrow> \<lparr>mv_todayTime = ''0h 0m'', mv_sessions = ''0'', mv_streak = ''0'', mv_efficiency = ''0%''\<rparr>
     | Some d \<Rightarrow> \<lparr>mv_todayTime = formatDuration (totalTime d), mv_sessions = show_int (sessions d),
                  mv_streak = ''0'', mv_efficiency = show_int (js_round 0) @ ''%''\<rparr>)"

section \<open>Timers\<close>

text \<open>The Pomodoro countdown (\<open>startPomodoroCountdown\<close>, 335--352): each tick
  of the one-second interval shows the minutes and the seconds padded to two
  digits, decrements, and once the count is below 0 clears the interval and
  shows the idle label: the list of texts after each tick.\<close>

definition pad2 :: "string \<Rightarrow> string" where
  "pad2 s = replicate (2 - length s) CHR ''0'' @ s"

definition timer_label :: "int \<Rightarrow> string" where
  "timer_label seconds = show_int (seconds div 60) @ '':'' @ pad2 (show_int (js_rem seconds 60))"

function countdown_ticks :: "int \<Rightarrow> string list" where
  "countdown_ticks seconds =
    (if seconds - 1 < 0 then [''Pomodoro''] else timer_label seconds # countdown_ticks (seconds - 1))"
  by pat_completeness auto

termination by (relation "measure (\<lambda>s. nat (s + 1))") auto

text \<open>\<open>startRealTimeUpdates\<close> (384--400): at a tick of its one-second interval at
  time \<open>now\<close>, the score is reloaded when \<open>Date.now() % 30000 < 1000\<close>.\<close>

definition reload_due :: "int \<Rightarrow> bool" where
  "reload_due tnow \<longleftrightarrow> js_rem tnow 30000 < 1000"

section \<open>The popup's state and its conversation with the background\<close>

record buttons =
  bt_focus :: bool
  bt_break :: bool
  bt_pomodoro :: bool
  bt_deep :: bool

record popup =
  pp_userId :: string
  pp_session :: "session option"
  pp_settings :: settings_patch
  pp_buttons :: buttons
  pp_score :: score_panel
  pp_session_view :: "session_view option"
  pp_metrics :: "metrics_view option"
  pp_countdown :: "int option"
  pp_error :: "string option"

definition empty_patch :: settings_patch where
  "empty_patch = \<lparr>p_focusMode = None, p_breakReminders = None, p_deepWorkMode = None,
     p_pomodoroTimer = None, p_blockDistractions = None, p_trackMouseMovement = None,
     p_trackKeystrokes = None, p_idleThreshold = None, p_breakInterval = None, p_pomodoroLength = None\<rparr>"

text \<open>The constructor (lines 2--15), with the page's elements as
  \<^verbatim>\<open>popup.html\<close> leaves them (\<open>panel0\<close>, buttons inactive).\<close>

definition popup_init :: "score_panel \<Rightarrow> popup" where
  "popup_init panel0 =
    \<lparr>pp_userId = [], pp_session = None, pp_settings = empty_patch,
     pp_buttons = \<lparr>bt_focus = False, bt_break = False, bt_pomodoro = False, bt_deep = False\<rparr>,
     pp_score = panel0, pp_session_view = None, pp_metrics = None,
     pp_countdown = None, pp_error = None\<rparr>"

text \<open>A message from the popup is handled by the background's \<open>handleMessage\<close>
  with no sender tab; the popup's \<open>await\<close> gets the response. A handler that
  throws never calls \<open>sendResponse\<close>: the popup's promise does not resolve
  with a value (\<open>None\<close>), and the code after the \<open>await\<close> does not run.\<close>

definition ask :: "hooks \<Rightarrow> env \<Rightarrow> request \<Rightarrow> tracker \<Rightarrow> tracker \<times> response option" where
  "ask h e req st = (case handleMessage h e req None st of (st', r, _) \<Rightarrow> (st', r))"

text \<open>\<open>loadUserData\<close> (29--38): the stored user id or \<open>default_user\<close>, and the
  background's settings object (all its properties present) or \<open>{}\<close>.\<close>

definition popup_loadUserData :: "hooks \<Rightarrow> env \<Rightarrow> popup \<Rightarrow> tracker \<Rightarrow> popup \<times> tracker" where
  "popup_loadUserData h e p st =
    (case ask h e GetSettings st of (st1, r) \<Rightarrow>
      (p\<lparr>pp_userId := (case userId (sync st) of Some u \<Rightarrow> if u = [] then ''default_user'' else u | None \<Rightarrow> ''default_user''),
         pp_settings := (case r of Some (RSettings s) \<Rightarrow> to_patch s | _ \<Rightarrow> empty_patch)\<rparr>, st1))"

text \<open>\<open>updateControlStates\<close> (204--233) only adds the \<open>active\<close> class.\<close>

definition updateControlStates :: "popup \<Rightarrow> popup" where
  "updateControlStates p =
    (let s = pp_settings p; b = pp_buttons p
     in p\<lparr>pp_buttons := \<lparr>bt_focus = (bt_focus b \<or> p_focusMode s = Some True),
                         bt_break = (bt_break b \<or> p_breakReminders s = Some True),
                         bt_pomodoro = (bt_pomodoro b \<or> p_pomodoroTimer s = Some True),
                         bt_deep = (bt_deep b \<or> p_deepWorkMode s = Some True)\<rparr>\<rparr>)"

text \<open>\<open>showOfflineMode\<close> (402--409): the insights list shows the offline notice.\<close>

definition showOfflineMode :: "popup \<Rightarrow> popup" where
  "showOfflineMode p = p\<lparr>pp_score := (pp_score p)\<lparr>sp_insights := IOffline\<rparr>\<rparr>"

text \<open>\<open>loadInitialData\<close> (70--92) at the popup's clock \<open>now e\<close>, with the
  answer \<open>resp\<close> of the score request: the current session, then the daily
  statistics; if the second \<open>await\<close> gets no value the rest of the block does
  not run, and its \<open>catch\<close> shows the offline mode once the promise rejects.\<close>

definition popup_loadInitialData ::
  "hooks \<Rightarrow> env \<Rightarrow> http_response option \<Rightarrow> popup \<Rightarrow> tracker \<Rightarrow> popup \<times> tracker" where
  "popup_loadInitialData h e resp p st =
    (case ask h e GetCurrentSession st of (st1, r1) \<Rightarrow>
      (let p1 = p\<lparr>pp_session := (case r1 of Some (RSession s) \<Rightarrow> s | _ \<Rightarrow> None)\<rparr> in
       case ask h e GetDailyStats st1 of
         (st2, None) \<Rightarrow> (showOfflineMode p1, st2)
       | (st2, Some r2) \<Rightarrow>
           (let p2 = p1\<lparr>pp_score := loadProductivityScore resp (pp_score p1)\<rparr>;
                p3 = p2\<lparr>pp_session_view := Some (updateSessionDisplay (now e) (pp_session p2)),
                        pp_metrics := Some (updateMetricsDisplay (case r2 of RDaily d \<Rightarrow> d | _ \<Rightarrow> None))\<rparr>
            in (updateControlStates p3, st2))))"

text \<open>\<open>init\<close> (17--27): the user data, then the initial data.\<close>

definition popup_open :: "hooks \<Rightarrow> env \<Rightarrow> http_response option \<Rightarrow> score_panel \<Rightarrow> tracker \<Rightarrow> popup \<times> tracker" where
  "popup_open h e resp panel0 st =
    (case popup_loadUserData h e (popup_init panel0) st of (p1, st1) \<Rightarrow> popup_loadInitialData h e resp p1 st1)"

text \<open>The path of the score request of \<open>loadProductivityScore\<close> (line 96).\<close>

definition score_url_path :: "string \<Rightarrow> string" where
  "score_url_path uid = ''/api/analytics/score/'' @ uid"

datatype click = CFocus | CBreak | CPomodoro | CDeep

text \<open>The button handlers \<open>toggleFocusMode\<close> (272--292), \<open>toggleBreakReminders\<close>
  (294--315), \<open>startPomodoro\<close> (317--333) and \<open>toggleDeepWork\<close> (354--375). The
  background answers \<open>toggleFocusMode\<close> with the new value and
  \<open>updateSettings\<close> with \<open>{success: true}\<close>; no answer leaves the popup as it
  was.\<close>

definition toggled :: "settings_patch \<Rightarrow> (settings_patch \<Rightarrow> bool option) \<Rightarrow> bool" where
  "toggled s f = (\<not> (f s = Some True))"

fun popup_click :: "hooks \<Rightarrow> env \<Rightarrow> click \<Rightarrow> popup \<Rightarrow> tracker \<Rightarrow> popup \<times> tracker" where
  "popup_click h e CFocus p st =
    (case ask h e ToggleFocusMode st of
       (st', Some (RBool a)) \<Rightarrow>
         (p\<lparr>pp_buttons := (pp_buttons p)\<lparr>bt_focus := a\<rparr>, pp_settings := (pp_settings p)\<lparr>p_focusMode := Some a\<rparr>\<rparr>, st')
     | (st', _) \<Rightarrow> (p, st'))"
| "popup_click h e CBreak p st =
    (let a = toggled (pp_settings p) p_breakReminders in
     case ask h e (UpdateSettings (empty_patch\<lparr>p_breakReminders := Some a\<rparr>)) st of
       (st', Some _) \<Rightarrow>
         (p\<lparr>pp_buttons := (pp_buttons p)\<lparr>bt_break := a\<rparr>, pp_settings := (pp_settings p)\<lparr>p_breakReminders := Some a\<rparr>\<rparr>, st')
     | (st', None) \<Rightarrow> (p, st'))"
| "popup_click h e CPomodoro p st =
    (case ask h e StartPomodoro st of
       (st', Some _) \<Rightarrow> (p\<lparr>pp_buttons := (pp_buttons p)\<lparr>bt_pomodoro := True\<rparr>, pp_countdown := Some (25 * 60)\<rparr>, st')
     | (st', None) \<Rightarrow> (p, st'))"
| "popup_click h e CDeep p st =
    (let a = toggled (pp_settings p) p_deepWorkMode in
     case ask h e (UpdateSettings (empty_patch\<lparr>p_deepWorkMode := Some a\<rparr>)) st of
       (st', Some _) \<Rightarrow>
         (p\<lparr>pp_buttons := (pp_buttons p)\<lparr>bt_deep := a\<rparr>, pp_settings := (pp_settings p)\<lparr>p_deepWorkMode := Some a\<rparr>\<rparr>, st')
     | (st', None) \<Rightarrow> (p, st'))"

text \<open>One tick of the interval of \<open>startRealTimeUpdates\<close> (384--400) at the
  clock \<open>now e\<close>: the current session asked again and shown, and the score
  reloaded (from the answer \<open>resp\<close>) when \<open>reload_due\<close> holds.\<close>

definition popup_tick :: "hooks \<Rightarrow> env \<Rightarrow> http_response option \<Rightarrow> popup \<Rightarrow> tracker \<Rightarrow> popup \<times> tracker" where
  "popup_tick h e resp p st =
    (case ask h e GetCurrentSession st of (st1, r) \<Rightarrow>
      (let p1 = p\<lparr>pp_session := (case r of Some (RSession s) \<Rightarrow> s | _ \<Rightarrow> None)\<rparr>;
           p2 = p1\<lparr>pp_session_view := Some (updateSessionDisplay (now e) (pp_session p1))\<rparr>
       in (if reload_due (now e) then p2\<lparr>pp_score := loadProductivityScore resp (pp_score p2)\<rparr> else p2, st1)))"

text \<open>What happens to the open popup: a click on a control button, or a tick
  of the update interval with the score route's answer; a run is a list of
  them with the clock of each.\<close>

datatype popup_input = PClick click | PTick "http_response option"

fun popup_step :: "hooks \<Rightarrow> env \<Rightarrow> popup_input \<Rightarrow> popup \<Rightarrow> tracker \<Rightarrow> popup \<times> tracker" where
  "popup_step h e (PClick c) p st = popup_click h e c p st"
| "popup_step h e (PTick resp) p st = popup_tick h e resp p st"

fun popup_run :: "hooks \<Rightarrow> (env \<times> popup_input) list \<Rightarrow> popup \<Rightarrow> tracker \<Rightarrow> popup \<times> tracker" where
  "popup_run h [] p st = (p, st)"
| "popup_run h ((e, x) # xs) p st = (case popup_step h e x p st of (p', st') \<Rightarrow> popup_run h xs p' st')"

text \<open>The popup agrees with the background on the three settings it toggles:
  its copy of each and the state of its button.\<close>

definition popup_in_sync :: "popup \<Rightarrow> tracker \<Rightarrow> bool" where
  "popup_in_sync p st \<longleftrightarrow>
    (let s = tr_settings st; c = pp_settings p; b = pp_buttons p
     in p_focusMode c = Some (focusMode s) \<and> bt_focus b = focusMode s
      \<and> p_breakReminders c = Some (breakReminders s) \<and> bt_break b = breakReminders s
      \<and> p_deepWorkMode c = Some (deepWorkMode s) \<and> bt_deep b = deepWorkMode s)"

text \<open>An example of the score panel before the first update.\<close>

definition blank_panel :: score_panel where
  "blank_panel = \<lparr>sp_deg = None, sp_value = Txt ''--'', sp_grade = Txt ''--'', sp_title = Txt [],
     sp_breakdown = BText [], sp_color = None, sp_insights = IDefault\<rparr>"

section \<open>Lemmas\<close>

lemma ask_simps [simp]:
  "ask h e GetSettings st = (st, Some (RSettings (tr_settings st)))"
  "ask h e GetCurrentSession st = (st, Some (RSession (currentSession st)))"
  "ask h e (UpdateSettings q) st = (updateSettings q st, Some RSuccess)"
  "ask h e ToggleFocusMode st =
     (saveSettings (st\<lparr>tr_settings := (tr_settings st)\<lparr>focusMode := \<not> focusMode (tr_settings st)\<rparr>\<rparr>),
      Some (RBool (\<not> focusMode (tr_settings st))))"
  "ask h e GetDailyStats st =
     (st, if has_getDailyStats h then Some (RDaily (daily (storage st) (today e))) else None)"
  "ask h e StartPomodoro st = (st, if has_startPomodoroTimer h then Some RSuccess else None)"
  by (simp_all add: ask_def handleMessage_def saveSettings_def)

lemma showOfflineMode_sel [simp]:
  "pp_buttons (showOfflineMode p) = pp_buttons p" "pp_settings (showOfflineMode p) = pp_settings p"
  by (simp_all add: showOfflineMode_def)

lemma tr_settings_saveSettings [simp]: "tr_settings (saveSettings st) = tr_settings st"
  by (simp add: saveSettings_def)

lemma settings_updateSettings [simp]: "tr_settings (updateSettings q st) = merge_settings (tr_settings st) q"
  by (simp add: updateSettings_def)

lemma popup_click_sync:
  assumes "popup_in_sync p st"
  shows "popup_in_sync (fst (popup_click h e c p st)) (snd (popup_click h e c p st))"
  using assms
  by (cases c) (auto simp: popup_in_sync_def merge_settings_def empty_patch_def toggled_def Let_def)

lemma popup_step_sync:
  assumes "popup_in_sync p st"
  shows "popup_in_sync (fst (popup_step h e x p st)) (snd (popup_step h e x p st))"
proof (cases x)
  case (PClick c)
  then show ?thesis using popup_click_sync [OF assms] by simp
next
  case (PTick r)
  then show ?thesis using assms by (simp add: popup_tick_def popup_in_sync_def Let_def)
qed

lemma popup_run_sync:
  "popup_in_sync p st \<Longrightarrow> popup_in_sync (fst (popup_run h xs p st)) (snd (popup_run h xs p st))"
proof (induction xs arbitrary: p st)
  case Nil
  then show ?case by simp
next
  case (Cons ex xs)
  obtain e x where ex: "ex = (e, x)" by fastforce
  show ?case
    using Cons.IH [OF popup_step_sync [OF Cons.prems, of h e x]]
    by (simp add: ex case_prod_beta)
qed

lemma popup_open_sync:
  assumes "has_getDailyStats h"
  shows "popup_in_sync (fst (popup_open h e resp panel0 st)) (snd (popup_open h e resp panel0 st))"
  using assms
  by (simp add: popup_open_def popup_loadUserData_def popup_loadInitialData_def popup_init_def
      updateControlStates_def popup_in_sync_def to_patch_def Let_def)

lemma app_score:
  assumes "uid \<noteq> []" "CHR ''/'' \<notin> set uid"
  shows "app_handle e GET (score_url_path uid) q b db = (db, get_score e uid db)"
proof -
  have "path_segments (score_url_path uid) = [''api'', ''analytics'', ''score'', uid]"
    using assms by (simp add: path_segments_def score_url_path_def js_split_append js_split_no_sep)
  then show ?thesis
    using assms by (simp add: app_handle_def mount_prefix_def activity_router_def activity_routes_def
        analytics_router_def analytics_routes_def js_lower_def lower_char_def)
qed

text \<open>The panel after an \<open>ok\<close> answer shaped like that of \<open>getScore\<close>.\<close>

lemma load_score_obj:
  assumes "xs \<noteq> []" "length xs \<le> 3"
  shows "loadProductivityScore (Some (ok_json (BJson (JObj [(''score'', v), (''grade'', grd), (''insights'', JArr xs)])))) p
    = p\<lparr>sp_deg := Some (js_mul (js_div (json_to_number (or_default (Some v) (JNum (Fin 0)))) (Fin 100)) (Fin 360)),
        sp_value := Shown (Some (or_default (Some v) (JNum (Fin 0)))),
        sp_grade := Shown (json_field ''grade'' (or_default (Some grd) (JObj [(''grade'', JStr ''N/A''), (''description'', JStr ''No data'')]))),
        sp_title := Shown (json_field ''description'' (or_default (Some grd) (JObj [(''grade'', JStr ''N/A''), (''description'', JStr ''No data'')]))),
        sp_breakdown := BText ''Start browsing to see detailed metrics'',
        sp_color := Some (getScoreColor (json_to_number (or_default (Some v) (JNum (Fin 0))))),
        sp_insights := IItems (map (\<lambda>i. (getInsightIcon (json_field ''type'' i), json_field ''message'' i)) xs)\<rparr>"
  using assms
  by (simp add: loadProductivityScore_def ok_json_def response_json_def updateScoreDisplay_def
      updateInsights_def spread_list_def json_field_def Let_def)

lemma insights_length: "1 \<le> length (generateSimpleInsights acts sc) \<and> length (generateSimpleInsights acts sc) \<le> 2"
  by (simp add: generateSimpleInsights_def Let_def)

text \<open>Counting the ticks of a one-second interval by their second modulo 30.\<close>

lemma count_residue:
  fixes q :: int
  shows "length (filter (\<lambda>k. (q + int k) mod 30 = 0) [0..<30]) = 1"
proof -
  define r where "r = nat ((- q) mod 30)"
  have r: "r < 30" by (simp add: r_def)
  have ir: "int r = (- q) mod 30" by (simp add: r_def)
  have iff: "(q + int k) mod 30 = 0 \<longleftrightarrow> k = r" if "k < 30" for k
  proof -
    have "(q + int k) mod 30 = 0 \<longleftrightarrow> int k mod 30 = (- q) mod 30"
      by (simp only: mod_eq_dvd_iff dvd_eq_mod_eq_0 [symmetric]) (simp add: add.commute)
    also have "int k mod 30 = int k" using that by simp
    finally show ?thesis using ir by linarith
  qed
  have "filter (\<lambda>k. (q + int k) mod 30 = 0) [0..<30] = filter (\<lambda>k. k = r) [0..<30]"
    by (rule filter_cong) (use iff in auto)
  moreover have "length (filter (\<lambda>k. k = r) [0..<30]) = 1"
    using r by (simp add: distinct_length_filter)
  ultimately show ?thesis by simp
qed

lemma mod_split_1000:
  fixes a b :: int
  assumes "0 \<le> b" "b < 1000"
  shows "(1000 * a + b) mod 30000 < 1000 \<longleftrightarrow> a mod 30 = 0"
proof -
  have m: "0 \<le> a mod 30" "a mod 30 < 30" by simp_all
  have "1000 * a + b = (1000 * (a mod 30) + b) + 30000 * (a div 30)"
    using div_mult_mod_eq [of a 30] by linarith
  moreover have "0 \<le> 1000 * (a mod 30) + b" "1000 * (a mod 30) + b < 30000"
    using assms m by linarith+
  ultimately have "(1000 * a + b) mod 30000 = 1000 * (a mod 30) + b"
    by (metis mod_mult_self2 mod_pos_pos_trivial)
  moreover have "1000 * (a mod 30) + b < 1000 \<longleftrightarrow> a mod 30 = 0"
    using assms m by linarith
  ultimately show ?thesis by simp
qed

lemma reload_due_tick:
  assumes "0 \<le> t0"
  shows "reload_due (t0 + 1000 * int k) \<longleftrightarrow> (t0 div 1000 + int k) mod 30 = 0"
proof -
  have t: "t0 + 1000 * int k = 1000 * (t0 div 1000 + int k) + t0 mod 1000" by simp
  have nn: "0 \<le> t0 + 1000 * int k" using assms by simp
  show ?thesis
    using mod_split_1000 [of "t0 mod 1000" "t0 div 1000 + int k"] nn
    by (simp only: reload_due_def js_rem_nonneg [OF nn] t) simp
qed

section \<open>Properties\<close>

text \<open>C34: once the popup has opened (with the background answering \<open>getDailyStats\<close>), after any run of clicks on its Focus, Breaks, Pomodoro and Deep Work buttons and ticks of its update interval, its copy of the settings and the state of its three toggle buttons agree with the background's focus-mode, break-reminder and deep-work settings.\<close>

theorem popup_controls_consistent:
  assumes "has_getDailyStats h"
  shows "case popup_open h e resp panel st of (p, st1) \<Rightarrow>
           (case popup_run h xs p st1 of (p', st') \<Rightarrow> popup_in_sync p' st')"
  using popup_run_sync [OF popup_open_sync [OF assms]] by (simp only: case_prod_beta)

theorem popup_controls_consistent_witness:
  "has_getDailyStats (spec_hooks Map.empty)
   \<and> (case popup_open (spec_hooks Map.empty) demo_env None blank_panel (init_tracker empty_store empty_sync) of (p, st1) \<Rightarrow>
       (case popup_run (spec_hooks Map.empty) [(demo_env, PClick CBreak), (demo_env, PTick None), (demo_env, PClick CFocus)] p st1
        of (p', st') \<Rightarrow> popup_in_sync p' st'))"
  using popup_controls_consistent [where h = "spec_hooks Map.empty" and e = demo_env and resp = None
      and panel = blank_panel and st = "init_tracker empty_store empty_sync"
      and xs = "[(demo_env, PClick CBreak), (demo_env, PTick None), (demo_env, PClick CFocus)]"]
  by (simp only: spec_hooks_def hooks.simps simp_thms)

text \<open>C35: in the repository, where \<open>getDailyStats\<close> is missing, the popup's \<open>loadInitialData\<close> stops at that request and never runs \<open>updateControlStates\<close>: with break reminders on, the Breaks button shows them off, and a click on it (meant to turn them on) turns them off in the background.\<close>

theorem popup_breaks_inverted:
  assumes "breakReminders (tr_settings st)"
  shows "case popup_open repo_hooks e resp panel st of (p, st1) \<Rightarrow>
           \<not> bt_break (pp_buttons p)
         \<and> (case popup_click repo_hooks e' CBreak p st1 of (p', st') \<Rightarrow>
              \<not> bt_break (pp_buttons p') \<and> \<not> breakReminders (tr_settings st'))"
  using assms
  by (simp add: popup_open_def popup_loadUserData_def popup_loadInitialData_def popup_init_def repo_hooks_def
      to_patch_def toggled_def merge_settings_def empty_patch_def Let_def)

theorem popup_breaks_inverted_witness:
  "breakReminders (tr_settings (init_tracker empty_store empty_sync))
   \<and> (case popup_open repo_hooks demo_env None blank_panel (init_tracker empty_store empty_sync) of (p, st1) \<Rightarrow>
        \<not> bt_break (pp_buttons p)
      \<and> (case popup_click repo_hooks demo_env CBreak p st1 of (p', st') \<Rightarrow>
           \<not> bt_break (pp_buttons p') \<and> \<not> breakReminders (tr_settings st')))"
proof -
  have b: "breakReminders (tr_settings (init_tracker empty_store empty_sync))"
    by (simp add: init_tracker_def empty_store_def default_settings_def)
  show ?thesis using popup_breaks_inverted [OF b, where e = demo_env and resp = None and panel = blank_panel and e' = demo_env] b by blast
qed

text \<open>C36: the popup renders the answer of the server's \<open>GET /api/analytics/score/:userId\<close> for its user id: the score of the last 24 hours, its grade and description, the server's insights (one or two, never the three the popup allows), and always the default breakdown text, since the route sends no \<open>breakdown\<close> and no \<open>recommendations\<close>.\<close>

theorem popup_score_from_server:
  assumes "uid \<noteq> []" "CHR ''/'' \<notin> set uid"
  shows "let acts = filter (in_window uid (srv_now e - 24 * 60 * 60 * 1000)) db; sc = realtime_score acts;
             p' = loadProductivityScore (Some (snd (app_handle e GET (score_url_path uid) q b db))) p
         in sp_value p' = Shown (Some (or_default (Some (num_json sc)) (JNum (Fin 0))))
          \<and> sp_grade p' = Shown (Some (JStr (g_grade (getPerformanceGrade sc))))
          \<and> sp_title p' = Shown (Some (JStr (g_description (getPerformanceGrade sc))))
          \<and> sp_breakdown p' = BText ''Start browsing to see detailed metrics''
          \<and> sp_insights p' = IItems (map (\<lambda>i. (getInsightIcon (Some (JStr (i_type i))), Some (JStr (i_message i))))
                                 (generateSimpleInsights acts sc))"
proof -
  define acts where "acts = filter (in_window uid (srv_now e - 24 * 60 * 60 * 1000)) db"
  define sc where "sc = realtime_score acts"
  define ins where "ins = generateSimpleInsights acts sc"
  have len: "map insight_json ins \<noteq> []" "length (map insight_json ins) \<le> 3"
    using insights_length [of acts sc] by (auto simp: ins_def)
  have resp: "snd (app_handle e GET (score_url_path uid) q b db)
      = ok_json (BJson (JObj [(''score'', num_json sc), (''grade'', grade_json (getPerformanceGrade sc)),
                              (''insights'', JArr (map insight_json ins))]))"
    by (simp add: app_score [OF assms] get_score_def acts_def sc_def ins_def Let_def)
  show ?thesis
    unfolding acts_def [symmetric] sc_def [symmetric] ins_def [symmetric] Let_def resp load_score_obj [OF len]
    by (simp add: or_default_def grade_json_def json_field_def insight_json_def comp_def)
qed

theorem popup_score_from_server_witness:
  "''default_user'' \<noteq> [] \<and> CHR ''/'' \<notin> set ''default_user''
   \<and> sp_breakdown (loadProductivityScore (Some (snd (app_handle \<lparr>srv_now = 0, srv_mday = 1\<rparr> GET
        (score_url_path ''default_user'') [] JNull []))) blank_panel) = BText ''Start browsing to see detailed metrics''"
  using popup_score_from_server [where uid = "''default_user''" and e = "\<lparr>srv_now = 0, srv_mday = 1\<rparr>"
      and db = "[]" and p = blank_panel and q = "[]" and b = JNull]
  by (simp add: Let_def)

text \<open>C37: the Pomodoro countdown started at s >= 0 seconds terminates: it shows s, s-1, ..., 1 seconds (as minutes and two-digit seconds), one per tick, and then the idle label, after exactly s+1 ticks; the label for 0 seconds is overwritten in the tick that shows it.\<close>

theorem pomodoro_countdown:
  assumes "0 \<le> s"
  shows "countdown_ticks s = map (\<lambda>k. timer_label (s - int k)) [0..<nat s] @ [''Pomodoro'']"
  using assms
proof (induction s rule: countdown_ticks.induct)
  case (1 s)
  show ?case
  proof (cases "s - 1 < 0")
    case True
    then have "s = 0" using "1.prems" by simp
    then show ?thesis by simp
  next
    case False
    then have ih: "countdown_ticks (s - 1) = map (\<lambda>k. timer_label (s - 1 - int k)) [0..<nat (s - 1)] @ [''Pomodoro'']"
      using "1.IH" by simp
    have n: "nat s = Suc (nat (s - 1))" using False by simp
    have "map (\<lambda>k. timer_label (s - int k)) [0..<nat s]
        = timer_label s # map (\<lambda>k. timer_label (s - 1 - int k)) [0..<nat (s - 1)]"
      unfolding n upt_conv_Cons [OF zero_less_Suc] map_Suc_upt [symmetric]
      by (simp add: algebra_simps)
    then show ?thesis using False ih by simp
  qed
qed

theorem pomodoro_countdown_witness:
  "0 \<le> (2::int) \<and> countdown_ticks 2 = [timer_label 2, timer_label 1, ''Pomodoro'']"
  using pomodoro_countdown [of 2] by (simp add: numeral_2_eq_2)

text \<open>C38: liveness of the score refresh: among any 30 consecutive ticks of the popup's one-second update interval (at non-negative clock times), exactly one reloads the productivity score.\<close>

theorem reload_every_30_ticks:
  assumes "0 \<le> t0"
  shows "length (filter reload_due (map (\<lambda>k. t0 + 1000 * int k) [0..<30])) = 1"
  using count_residue [of "t0 div 1000"] reload_due_tick [OF assms] by (simp add: comp_def)

theorem reload_every_30_ticks_witness:
  "0 \<le> (1234567::int) \<and> length (filter reload_due (map (\<lambda>k. 1234567 + 1000 * int k) [0..<30])) = 1"
  using reload_every_30_ticks [of 1234567] by simp

end
