(* ===== verification/Options.thy ===== *)
theory Options
  imports Dispatcher
begin

text \<open>
  The options page \<^verbatim>\<open>src/options.js\<close> (class \<open>OptionsManager\<close>): its own copy
  of the settings, seven toggles by default (lines 3--11), merged with the
  settings object stored in \<open>chrome.storage\<close> when the page loads
  (\<open>loadSettings\<close>, 21--30); a click on a toggle negates one property
  (\<open>toggleSetting\<close>, 53--56); \<open>saveSettings\<close> (75--90) writes the copy to
  storage and sends it to the background as an \<open>updateSettings\<close> message;
  \<open>resetSettings\<close> (92--104) puts the seven defaults back and saves.

  The settings object is a \<open>settings_patch\<close>: a property is present or not, and
  \<open>{...a, ...b}\<close> is \<open>patch_merge a b\<close>. Storage is the background's
  \<open>store\<close>, shared by both pages, and the message is delivered through the
  background's \<open>dispatch\<close>. The \<open>active\<close> class of each toggle is \<open>o_active\<close>, set by
  \<open>updateToggle\<close> and \<open>updateUI\<close>; \<open>showStatus\<close> is the message last shown
  (its three-second timer that hides it is not modelled).
\<close>

definition options_defaults :: settings_patch where
  "options_defaults =
    \<lparr>p_focusMode = Some False, p_breakReminders = Some True, p_deepWorkMode = Some False,
     p_pomodoroTimer = Some False, p_blockDistractions = Some False, p_trackMouseMovement = Some True,
     p_trackKeystrokes = Some True, p_idleThreshold = None, p_breakInterval = None, p_pomodoroLength = None\<rparr>"

definition patch_merge :: "settings_patch \<Rightarrow> settings_patch \<Rightarrow> settings_patch" where
  "patch_merge a b =
    \<lparr>p_focusMode = (case p_focusMode b of None \<Rightarrow> p_focusMode a | x \<Rightarrow> x),
     p_breakReminders = (case p_breakReminders b of None \<Rightarrow> p_breakReminders a | x \<Rightarrow> x),
     p_deepWorkMode = (case p_deepWorkMode b of None \<Rightarrow> p_deepWorkMode a | x \<Rightarrow> x),
     p_pomodoroTimer = (case p_pomodoroTimer b of None \<Rightarrow> p_pomodoroTimer a | x \<Rightarrow> x),
     p_blockDistractions = (case p_blockDistractions b of None \<Rightarrow> p_blockDistractions a | x \<Rightarrow> x),
     p_trackMouseMovement = (case p_trackMouseMovement b of None \<Rightarrow> p_trackMouseMovement a | x \<Rightarrow> x),
     p_trackKeystrokes = (case p_trackKeystrokes b of None \<Rightarrow> p_trackKeystrokes a | x \<Rightarrow> x),
     p_idleThreshold = (case p_idleThreshold b of None \<Rightarrow> p_idleThreshold a | x \<Rightarrow> x),
     p_breakInterval = (case p_breakInterval b of None \<Rightarrow> p_breakInterval a | x \<Rightarrow> x),
     p_pomodoroLength = (case p_pomodoroLength b of None \<Rightarrow> p_pomodoroLength a | x \<Rightarrow> x)\<rparr>"

text \<open>The seven toggles (the keys of the default settings object, each the id
  of a toggle element).\<close>

datatype toggle_key = TFocusMode | TBreakReminders | TDeepWorkMode | TPomodoroTimer
  | TBlockDistractions | TTrackMouseMovement | TTrackKeystrokes

text \<open>The page: the settings copy, the \<open>active\<close> class of each toggle and the
  status line (message, error flag). The classes \<^verbatim>\<open>options.html\<close> starts
  with are taken to be off; \<open>init\<close> recomputes them all.\<close>

record options_page =
  o_settings :: settings_patch
  o_active :: "toggle_key \<Rightarrow> bool"
  o_status :: "(string \<times> bool) option"

definition options_init :: options_page where
  "options_init = \<lparr>o_settings = options_defaults, o_active = (\<lambda>k. False), o_status = None\<rparr>"

definition options_loadSettings :: "settings_patch option \<Rightarrow> options_page \<Rightarrow> options_page" where
  "options_loadSettings stored p =
    (case stored of None \<Rightarrow> p | Some r \<Rightarrow> p\<lparr>o_settings := patch_merge (o_settings p) r\<rparr>)"

text \<open>\<open>!this.settings[key]\<close>: an absent property reads \<open>undefined\<close>, so it
  becomes \<open>true\<close>.\<close>

definition neg_opt :: "bool option \<Rightarrow> bool option" where
  "neg_opt v = Some (\<not> (v = Some True))"

primrec negate_setting :: "toggle_key \<Rightarrow> options_page \<Rightarrow> options_page" where
  "negate_setting TFocusMode p = p\<lparr>o_settings := (o_settings p)\<lparr>p_focusMode := neg_opt (p_focusMode (o_settings p))\<rparr>\<rparr>"
| "negate_setting TBreakReminders p = p\<lparr>o_settings := (o_settings p)\<lparr>p_breakReminders := neg_opt (p_breakReminders (o_settings p))\<rparr>\<rparr>"
| "negate_setting TDeepWorkMode p = p\<lparr>o_settings := (o_settings p)\<lparr>p_deepWorkMode := neg_opt (p_deepWorkMode (o_settings p))\<rparr>\<rparr>"
| "negate_setting TPomodoroTimer p = p\<lparr>o_settings := (o_settings p)\<lparr>p_pomodoroTimer := neg_opt (p_pomodoroTimer (o_settings p))\<rparr>\<rparr>"
| "negate_setting TBlockDistractions p = p\<lparr>o_settings := (o_settings p)\<lparr>p_blockDistractions := neg_opt (p_blockDistractions (o_settings p))\<rparr>\<rparr>"
| "negate_setting TTrackMouseMovement p = p\<lparr>o_settings := (o_settings p)\<lparr>p_trackMouseMovement := neg_opt (p_trackMouseMovement (o_settings p))\<rparr>\<rparr>"
| "negate_setting TTrackKeystrokes p = p\<lparr>o_settings := (o_settings p)\<lparr>p_trackKeystrokes := neg_opt (p_trackKeystrokes (o_settings p))\<rparr>\<rparr>"

text \<open>\<open>this.settings[key]\<close> read for a toggle.\<close>

primrec patch_of :: "toggle_key \<Rightarrow> settings_patch \<Rightarrow> bool option" where
  "patch_of TFocusMode s = p_focusMode s"
| "patch_of TBreakReminders s = p_breakReminders s"
| "patch_of TDeepWorkMode s = p_deepWorkMode s"
| "patch_of TPomodoroTimer s = p_pomodoroTimer s"
| "patch_of TBlockDistractions s = p_blockDistractions s"
| "patch_of TTrackMouseMovement s = p_trackMouseMovement s"
| "patch_of TTrackKeystrokes s = p_trackKeystrokes s"

text \<open>\<open>updateToggle\<close> (64--73) and \<open>updateUI\<close> (58--62): the class follows the
  truthiness of the property; keys without a toggle element are skipped.\<close>

definition updateToggle :: "toggle_key \<Rightarrow> options_page \<Rightarrow> options_page" where
  "updateToggle k p = p\<lparr>o_active := (o_active p)(k := (patch_of k (o_settings p) = Some True))\<rparr>"

definition updateUI :: "options_page \<Rightarrow> options_page" where
  "updateUI p = p\<lparr>o_active := (\<lambda>k. patch_of k (o_settings p) = Some True)\<rparr>"

text \<open>\<open>toggleSetting\<close> (53--56).\<close>

definition toggleSetting :: "toggle_key \<Rightarrow> options_page \<Rightarrow> options_page" where
  "toggleSetting k p = updateToggle k (negate_setting k p)"

text \<open>\<open>init\<close> (15--19) with the object stored under \<open>settings\<close>.\<close>

definition options_open :: "settings_patch option \<Rightarrow> options_page" where
  "options_open stored = updateUI (options_loadSettings stored options_init)"

text \<open>\<open>saveSettings\<close>: the storage write, then the message to the background
  (handled by its dispatcher, the sender not a tab), then the status line.\<close>

definition options_saveSettings :: "hooks \<Rightarrow> env \<Rightarrow> options_page \<Rightarrow> tracker \<Rightarrow> options_page \<times> tracker" where
  "options_saveSettings h e p st =
    (let st1 = st\<lparr>storage := (storage st)\<lparr>saved_settings := Some (o_settings p)\<rparr>\<rparr>;
         st2 = fst (dispatch h e (MessageReceived (UpdateSettings (o_settings p)) None) st1)
     in (p\<lparr>o_status := Some (''Settings saved successfully!'', False)\<rparr>, st2))"

definition resetSettings :: "hooks \<Rightarrow> env \<Rightarrow> options_page \<Rightarrow> tracker \<Rightarrow> options_page \<times> tracker" where
  "resetSettings h e p st = options_saveSettings h e (updateUI (p\<lparr>o_settings := options_defaults\<rparr>)) st"

text \<open>The listeners of \<open>setupEventListeners\<close> (32--51): a click on a toggle,
  on Save, on Reset; a run is a list of clicks with the clock of each.\<close>

datatype options_action = OToggle toggle_key | OSave | OReset

fun options_step :: "hooks \<Rightarrow> env \<Rightarrow> options_action \<Rightarrow> options_page \<Rightarrow> tracker \<Rightarrow> options_page \<times> tracker" where
  "options_step h e (OToggle k) p st = (toggleSetting k p, st)"
| "options_step h e OSave p st = options_saveSettings h e p st"
| "options_step h e OReset p st = resetSettings h e p st"

fun options_run :: "hooks \<Rightarrow> (env \<times> options_action) list \<Rightarrow> options_page \<Rightarrow> tracker \<Rightarrow> options_page \<times> tracker" where
  "options_run h [] p st = (p, st)"
| "options_run h ((e, a) # acts) p st = (case options_step h e a p st of (p', st') \<Rightarrow> options_run h acts p' st')"

definition all_toggles :: "toggle_key list" where
  "all_toggles = [TFocusMode, TBreakReminders, TDeepWorkMode, TPomodoroTimer, TBlockDistractions,
                  TTrackMouseMovement, TTrackKeystrokes]"

text \<open>Every toggle's class shows its property.\<close>

definition toggles_shown :: "options_page \<Rightarrow> bool" where
  "toggles_shown p \<longleftrightarrow> list_all (\<lambda>k. o_active p k = (patch_of k (o_settings p) = Some True)) all_toggles"

text \<open>The property a toggle stands for, read in the background's settings.\<close>

primrec setting_of :: "toggle_key \<Rightarrow> settings \<Rightarrow> bool" where
  "setting_of TFocusMode s = focusMode s"
| "setting_of TBreakReminders s = breakReminders s"
| "setting_of TDeepWorkMode s = deepWorkMode s"
| "setting_of TPomodoroTimer s = pomodoroTimer s"
| "setting_of TBlockDistractions s = blockDistractions s"
| "setting_of TTrackMouseMovement s = trackMouseMovement s"
| "setting_of TTrackKeystrokes s = trackKeystrokes s"

section \<open>Lemmas\<close>

lemma patch_merge_defaults_to_patch [simp]: "patch_merge options_defaults (to_patch s) = to_patch s"
  by (simp add: patch_merge_def to_patch_def options_defaults_def)

lemma setting_of_toggle:
  "o_settings p = to_patch s \<Longrightarrow>
   setting_of k' (merge_settings s (o_settings (toggleSetting k p))) = (if k' = k then \<not> setting_of k s else setting_of k' s)"
  by (cases k; cases k') (simp_all add: merge_settings_def to_patch_def neg_opt_def toggleSetting_def updateToggle_def)

lemma saved_default: "tr_settings (saveSettings (init_tracker empty_store empty_sync)) = default_settings"
  by (simp add: saveSettings_def init_tracker_def empty_store_def)

lemma toggles_shown_iff: "toggles_shown p \<longleftrightarrow> (\<forall>k. o_active p k = (patch_of k (o_settings p) = Some True))"
proof -
  have "set all_toggles = UNIV" unfolding all_toggles_def using toggle_key.exhaust by auto
  then show ?thesis by (simp add: toggles_shown_def list_all_iff)
qed

lemma patch_of_negate:
  "patch_of k' (o_settings (negate_setting k p))
     = (if k' = k then neg_opt (patch_of k (o_settings p)) else patch_of k' (o_settings p))"
  by (cases k; cases k') simp_all

lemma options_save_page [simp]: "fst (options_saveSettings h e p st) = p\<lparr>o_status := Some (''Settings saved successfully!'', False)\<rparr>"
  by (simp add: options_saveSettings_def Let_def)

lemma options_step_shown:
  "toggles_shown p \<Longrightarrow> toggles_shown (fst (options_step h e a p st))"
proof (cases a)
  case (OToggle k)
  moreover have "o_active (negate_setting k p) = o_active p" by (cases k) simp_all
  ultimately show "toggles_shown p \<Longrightarrow> ?thesis"
    by (simp add: toggles_shown_iff toggleSetting_def updateToggle_def patch_of_negate)
qed (simp_all add: toggles_shown_iff resetSettings_def updateUI_def)

text \<open>The options page shows what it holds: once opened, through any run of
  clicks every toggle's class is the truthiness of its property.\<close>

lemma options_run_shown: "toggles_shown (fst (options_run h acts (options_open stored) st))"
proof -
  have "toggles_shown (fst (options_run h acts p st))" if "toggles_shown p" for p st
    using that
  proof (induction acts arbitrary: p st)
    case (Cons ea acts)
    obtain e a where ea: "ea = (e, a)" by fastforce
    show ?case
      using Cons.IH [OF options_step_shown [OF Cons.prems, of h e a st]]
      by (simp add: ea case_prod_beta)
  qed simp
  moreover have "toggles_shown (options_open stored)"
    by (simp add: toggles_shown_iff options_open_def updateUI_def)
  ultimately show ?thesis by blast
qed

section \<open>Properties\<close>

text \<open>C32: opening the options page and saving without a change is a round trip: the copy read from storage is written back unchanged and the background's settings, merged with it, stay as they were.\<close>

theorem options_roundtrip:
  assumes "saved_settings (storage st) = Some (to_patch (tr_settings st))"
  shows "tr_settings (snd (options_saveSettings h e (options_loadSettings (saved_settings (storage st)) options_init) st))
           = tr_settings st
         \<and> saved_settings (storage (snd (options_saveSettings h e
              (options_loadSettings (saved_settings (storage st)) options_init) st))) = Some (to_patch (tr_settings st))"
  using assms
  by (simp add: options_saveSettings_def options_loadSettings_def options_init_def handleMessage_def
      updateSettings_def saveSettings_def Let_def)

theorem options_roundtrip_witness:
  "tr_settings (snd (options_saveSettings (spec_hooks Map.empty) demo_env
      (options_loadSettings (saved_settings (storage (saveSettings (init_tracker empty_store empty_sync)))) options_init)
      (saveSettings (init_tracker empty_store empty_sync)))) = default_settings"
proof -
  have h: "saved_settings (storage (saveSettings (init_tracker empty_store empty_sync)))
      = Some (to_patch (tr_settings (saveSettings (init_tracker empty_store empty_sync))))"
    by (simp add: saveSettings_def)
  show ?thesis
    using conjunct1 [OF options_roundtrip [OF h, of "spec_hooks Map.empty" demo_env]] saved_default
    by (rule trans)
qed

text \<open>C33: a toggle clicked on the options page and saved reaches the background: the toggled setting is negated there, every other toggle and the numeric thresholds keep their values.\<close>

theorem options_toggle_applies:
  assumes "saved_settings (storage st) = Some (to_patch (tr_settings st))"
  shows "let st' = snd (options_saveSettings h e (toggleSetting k (options_loadSettings (saved_settings (storage st)) options_init)) st)
         in setting_of k (tr_settings st') = (\<not> setting_of k (tr_settings st))
            \<and> (\<forall>k'. k' \<noteq> k \<longrightarrow> setting_of k' (tr_settings st') = setting_of k' (tr_settings st))
            \<and> idleThreshold (tr_settings st') = idleThreshold (tr_settings st)
            \<and> breakInterval (tr_settings st') = breakInterval (tr_settings st)
            \<and> pomodoroLength (tr_settings st') = pomodoroLength (tr_settings st)"
proof -
  let ?p = "options_loadSettings (saved_settings (storage st)) options_init"
  have p: "o_settings ?p = to_patch (tr_settings st)"
    using assms by (simp add: options_loadSettings_def options_init_def)
  have t: "tr_settings (snd (options_saveSettings h e (toggleSetting k ?p) st))
             = merge_settings (tr_settings st) (o_settings (toggleSetting k ?p))"
    by (simp add: options_saveSettings_def handleMessage_def updateSettings_def saveSettings_def Let_def)
  have num: "idleThreshold (merge_settings s (o_settings (toggleSetting k q))) = idleThreshold s
           \<and> breakInterval (merge_settings s (o_settings (toggleSetting k q))) = breakInterval s
           \<and> pomodoroLength (merge_settings s (o_settings (toggleSetting k q))) = pomodoroLength s"
    if "o_settings q = to_patch s" for s q
    using that by (cases k) (simp_all add: merge_settings_def to_patch_def toggleSetting_def updateToggle_def)
  show ?thesis using setting_of_toggle [OF p] num [OF p] by (simp add: t Let_def)
qed

theorem options_toggle_applies_witness:
  "let st' = snd (options_saveSettings (spec_hooks Map.empty) demo_env
        (toggleSetting TBreakReminders (options_loadSettings (saved_settings (storage (saveSettings (init_tracker empty_store empty_sync)))) options_init))
        (saveSettings (init_tracker empty_store empty_sync)))
   in \<not> breakReminders (tr_settings st') \<and> trackKeystrokes (tr_settings st') \<and> idleThreshold (tr_settings st') = 300000"
proof -
  have h: "saved_settings (storage (saveSettings (init_tracker empty_store empty_sync)))
      = Some (to_patch (tr_settings (saveSettings (init_tracker empty_store empty_sync))))"
    by (simp add: saveSettings_def)
  show ?thesis
    using options_toggle_applies [OF h, of "spec_hooks Map.empty" demo_env TBreakReminders] saved_default
    by (auto simp: Let_def default_settings_def dest: spec [of _ TTrackKeystrokes])
qed

end
