(* ===== verification/Api_Store.thy ===== *)
theory Api_Store
  imports Server
begin

text \<open>
  The API as a server of a sequence of requests (\<^verbatim>\<open>src/server.js\<close>): the
  JSON body parser in front of the app (\<open>app.use(bodyParser.json())\<close>, line 10)
  and the requests served one after the other, each seeing the collection the
  previous one left. The typing invariant of the collection: every stored
  document has the types and passes the validators of \<^verbatim>\<open>src/Activity.js\<close>,
  whatever the requests; this is what Mongoose's casts and validators in
  \<open>new_activity\<close> guarantee, proved once for the two routes that write.
\<close>

section \<open>The body parser\<close>

text \<open>The body of a request as it arrives: JSON text (parsed), text that does
  not parse, or a body that is not declared as JSON (or none).\<close>

datatype raw_body = RJson json | RMalformed | RNotJson

text \<open>\<open>bodyParser.json()\<close> with its defaults: a body declared as JSON must parse
  and, in strict mode, be an object or an array, or the request fails with 400;
  a request without a JSON body gets \<open>req.body = {}\<close>.\<close>

definition parse_body :: "raw_body \<Rightarrow> json option" where
  "parse_body rb =
    (case rb of RJson (JObj kvs) \<Rightarrow> Some (JObj kvs) | RJson (JArr xs) \<Rightarrow> Some (JArr xs)
     | RJson _ \<Rightarrow> None | RMalformed \<Rightarrow> None | RNotJson \<Rightarrow> Some (JObj []))"

definition bad_request :: http_response where
  "bad_request = \<lparr>status = 400, resp_body = BText ''Bad Request''\<rparr>"

definition app_request ::
  "srv_env \<Rightarrow> meth \<Rightarrow> string \<Rightarrow> query \<Rightarrow> raw_body \<Rightarrow> activity list \<Rightarrow> activity list \<times> http_response" where
  "app_request e m p q rb db =
    (case parse_body rb of None \<Rightarrow> (db, bad_request) | Some b \<Rightarrow> app_handle e m p q b db)"

text \<open>A request with its clock, and the server's run over a sequence of them.\<close>

type_synonym request_in = "srv_env \<times> meth \<times> string \<times> query \<times> raw_body"

fun app_run :: "request_in list \<Rightarrow> activity list \<Rightarrow> activity list" where
  "app_run [] db = db"
| "app_run ((e, m, p, q, rb) # rs) db = app_run rs (fst (app_request e m p q rb db))"

section \<open>The typing invariant of the collection\<close>

text \<open>A stored document: non-empty \<open>userId\<close> and \<open>domain\<close> (required strings), a
  number as \<open>timeSpent\<close>, a focus score in [0, 100] when present, and the two
  time stamps of its creation.\<close>

definition doc_wf :: "activity \<Rightarrow> bool" where
  "doc_wf a \<longleftrightarrow> act_userId a \<noteq> [] \<and> act_domain a \<noteq> [] \<and> act_timeSpent a \<noteq> NaN
     \<and> (case act_focusScore a of None \<Rightarrow> True | Some n \<Rightarrow> js_le (Fin 0) n \<and> js_le n (Fin 100))
     \<and> act_createdAt a = act_updatedAt a"

section \<open>Lemmas\<close>

lemma map_filter_id_Nil: "List.map_filter id xs = [] \<longleftrightarrow> (\<forall>x\<in>set xs. x = None)"
  by (induction xs) (auto simp: List.map_filter_def)

lemma required_str_None: "required_str p f = None \<Longrightarrow> \<exists>s. f = FVal s \<and> s \<noteq> []"
  by (cases f) (auto simp: required_str_def split: if_splits)

lemma cast_number_val: "cast_number v = FVal x \<Longrightarrow> x \<noteq> NaN"
  by (auto simp: cast_number_def cast_jsnum_def split: option.splits json.splits if_splits)

lemma focus_path_ok:
  "focus_path v \<noteq> FErr \<Longrightarrow> \<exists>fo. focus_path v = FVal fo
     \<and> (case fo of None \<Rightarrow> True | Some n \<Rightarrow> js_le (Fin 0) n \<and> js_le n (Fin 100))"
  by (auto simp: focus_path_def js_le_def split: option.splits field.splits)

lemma new_activity_wf:
  assumes "new_activity t b = Inr a"
  shows "doc_wf a"
proof -
  let ?g = "\<lambda>k. json_field k b"
  have ok: "List.map_filter id
           [required_str ''userId'' (cast_string (?g ''userId'')), required_str ''domain'' (cast_string (?g ''domain'')),
            cast_ok ''url'' (cast_string (?g ''url'')), cast_ok ''title'' (cast_string (?g ''title'')),
            (case cast_number (?g ''timeSpent'') of FVal _ \<Rightarrow> None | _ \<Rightarrow> Some ''timeSpent''),
            cast_ok ''category'' (category_path (?g ''category'')), cast_ok ''subcategory'' (cast_string (?g ''subcategory'')),
            cast_ok ''isActive'' (active_path (?g ''isActive'')), cast_ok ''focusScore'' (focus_path (?g ''focusScore'')),
            cast_ok ''sessionId'' (cast_string (?g ''sessionId''))] = []"
    and a: "a = \<lparr>act_userId = the (opt_field (cast_string (?g ''userId''))), act_domain = the (opt_field (cast_string (?g ''domain''))),
                  act_url = opt_field (cast_string (?g ''url'')), act_title = opt_field (cast_string (?g ''title'')),
                  act_timeSpent = the (opt_field (cast_number (?g ''timeSpent''))), act_category = the (opt_field (category_path (?g ''category''))),
                  act_subcategory = opt_field (cast_string (?g ''subcategory'')), act_isActive = the (opt_field (active_path (?g ''isActive''))),
                  act_focusScore = the (opt_field (focus_path (?g ''focusScore''))), act_sessionId = opt_field (cast_string (?g ''sessionId'')),
                  act_metadata = (case ?g ''metadata'' of None \<Rightarrow> JObj [] | Some m \<Rightarrow> m),
                  act_createdAt = t, act_updatedAt = t\<rparr>"
    using assms unfolding new_activity_def Let_def by (simp_all split: if_splits)
  then have all: "\<forall>x\<in>set [required_str ''userId'' (cast_string (?g ''userId'')), required_str ''domain'' (cast_string (?g ''domain'')),
            (case cast_number (?g ''timeSpent'') of FVal _ \<Rightarrow> None | _ \<Rightarrow> Some ''timeSpent''),
            cast_ok ''focusScore'' (focus_path (?g ''focusScore''))]. x = None"
    unfolding map_filter_id_Nil by simp
  obtain u where u: "cast_string (?g ''userId'') = FVal u" "u \<noteq> []"
    using required_str_None all by auto
  obtain d where d: "cast_string (?g ''domain'') = FVal d" "d \<noteq> []"
    using required_str_None all by auto
  obtain x where x: "cast_number (?g ''timeSpent'') = FVal x"
    using all by (auto split: field.splits)
  obtain fo where fo: "focus_path (?g ''focusScore'') = FVal fo"
    "case fo of None \<Rightarrow> True | Some n \<Rightarrow> js_le (Fin 0) n \<and> js_le n (Fin 100)"
    using focus_path_ok all by (auto simp: cast_ok_def split: if_splits)
  show ?thesis
    using u d x fo cast_number_val [OF x] by (simp add: a doc_wf_def opt_field_def)
qed

lemma save_activity_wf:
  "list_all doc_wf db \<Longrightarrow> list_all doc_wf (fst (save_activity t obj db))"
  by (cases "new_activity t obj") (auto simp: save_activity_def dest: new_activity_wf)

lemma activity_router_wf:
  assumes "activity_router e m xs q b db = Some (db', r)" "list_all doc_wf db"
  shows "list_all doc_wf db'"
  using assms save_activity_wf [OF assms(2)]
  by (auto simp: activity_router_def post_advanced_def post_log_def split: option.splits prod.splits activity_route.splits;
      metis fst_conv)

lemma app_handle_wf:
  "list_all doc_wf db \<Longrightarrow> list_all doc_wf (fst (app_handle e m p q b db))"
  by (auto simp: app_handle_def Let_def dest: activity_router_wf split: option.splits)

lemma app_request_wf:
  "list_all doc_wf db \<Longrightarrow> list_all doc_wf (fst (app_request e m p q rb db))"
  by (auto simp: app_request_def app_handle_wf split: option.splits)

section \<open>Properties\<close>

text \<open>C39: typing invariant of the API's collection: starting from documents that satisfy the schema (non-empty userId and domain, a number as timeSpent, a focus score in [0, 100] when present, equal time stamps), every document stored by any sequence of requests through the body parser and the app satisfies it too.\<close>

theorem collection_well_typed:
  assumes "list_all doc_wf db"
  shows "list_all doc_wf (app_run rs db)"
  using assms
proof (induction rs arbitrary: db)
  case (Cons r rs)
  obtain e m p q rb where "r = (e, m, p, q, rb)" by (cases r) auto
  then show ?case using Cons.IH [OF app_request_wf [OF Cons.prems]] by simp
qed simp

theorem collection_well_typed_witness:
  "list_all doc_wf []
   \<and> list_all doc_wf (app_run [(\<lparr>srv_now = 5, srv_mday = 1\<rparr>, POST, ''/api/activity/advanced'', [],
        RJson (JObj [(''userId'', JStr ''u''), (''domain'', JStr ''a.com''), (''timeSpent'', JNum (Fin 1000))]))] [])"
  using collection_well_typed [where db = "[]" and rs = "[(\<lparr>srv_now = 5, srv_mday = 1\<rparr>, POST, ''/api/activity/advanced'', [],
        RJson (JObj [(''userId'', JStr ''u''), (''domain'', JStr ''a.com''), (''timeSpent'', JNum (Fin 1000))]))]"]
  by (simp del: app_run.simps)

end
