(* ===== verification/Spec2Isabelle.thy ===== *)
theory Spec2Isabelle
  imports Popup Options Api_Store
begin

text \<open>
  \<^bold>\<open>A verification development of the ProTracker browser extension and its API.\<close>

  \<^medskip>
  \<^bold>\<open>The program.\<close> The background script \<^verbatim>\<open>src/background.js\<close> (class
  \<open>EnterpriseTimeTracker\<close>) observes tab, navigation, window-focus, idle,
  alarm and message events of the browser, keeps at most one current
  \<^emph>\<open>session\<close> (one visit of one tab), classifies its URL into five
  productivity categories, scores it when it ends, stores it with a per-day
  aggregate in \<open>chrome.storage.local\<close> and posts it to a REST backend: the
  Express app \<^verbatim>\<open>src/server.js\<close> mounting \<^verbatim>\<open>src/activityRoutes.js\<close> and
  \<^verbatim>\<open>src/analyticsRoutes.js\<close> over the Mongoose model \<^verbatim>\<open>src/Activity.js\<close>.
  The content script \<^verbatim>\<open>src/content.js\<close> counts keystrokes, mouse moves,
  scrolls and clicks and reports them to the background; the popup
  \<^verbatim>\<open>src/popup.js\<close> reads the background and the score route and sends the
  background control messages; the options page \<^verbatim>\<open>src/options.js\<close> edits the
  stored settings and sends them to the background.

  \<^medskip>
  \<^bold>\<open>The theories\<close>, leaves first:
  \<^item> \<open>Prelude\<close>: the JavaScript primitives: string \<open>startsWith\<close>,
    \<open>includes\<close> (proved equal to \<open>prefix\<close> and \<open>sublist\<close>), \<open>toLowerCase\<close>,
    \<open>replace\<close>; numbers as \<open>jsnum\<close> (finite, NaN, \<open>\<plusminus>\<close>Infinity) with
    \<open>+ - * /\<close>, \<open>%\<close> on integers (\<open>js_rem\<close>), \<open>< <=\<close>, \<open>Math.min/max/round\<close>; the
    exceptions; the collections \<open>js_simps\<close> and \<open>frame_simps\<close>.
  \<^item> \<open>Js_Convert\<close>: number/text conversions: \<open>String(n)\<close> of integers,
    \<open>parseInt\<close>, \<open>Number(s)\<close> (trim, hex/octal/binary, Infinity, decimal with
    exponent), \<open>split\<close>; \<open>parseInt\<close> inverts \<open>String\<close> on integers.
  \<^item> \<open>Classifier\<close>: \<open>categorizeWebsite\<close> with the rule table, the two
    first-match loops, the fallback \<open>analyzePageContent\<close>, \<open>extractDomain\<close> with a
    model of \<open>new URL(u).hostname\<close> (WHATWG, file scheme included),
    \<open>isSystemUrl\<close>; the spec's classifier \<open>classify_spec\<close>.
  \<^item> \<open>Session_Data\<close>: the session object, the settings, their merge
    (\<open>{...a, ...b}\<close>), the whole-object patch \<open>to_patch\<close>, the tab, the
    content script's report.
  \<^item> \<open>Scoring\<close>, \<open>Aggregation\<close>, \<open>Sync\<close>: the three score functions,
    \<open>updateDailyAggregates\<close> through storage, where a non-finite member is
    dropped and reads back as \<open>undefined\<close> (refined to the abstract summary
    \<open>daily_abs\<close>), the payload and \<open>syncWithBackend\<close>.
  \<^item> \<open>Tracker\<close>: the state record \<open>tracker\<close> and every handler of the class,
    each a function from the state to the next state and the error it throws;
    \<open>Dispatcher\<close>: \<open>dispatch\<close> as \<open>setupEventListeners\<close> routes events, the
    inductive set \<open>reachable\<close> of states of runs with a monotone clock.
  \<^item> \<open>Content\<close>: \<open>updateActivity\<close> and the listeners; runs of page events
    (\<open>content_run\<close>) and the delivery of their reports to the background's
    dispatcher.
  \<^item> \<open>Backend\<close>: JSON values (\<open>json\<close>), Mongoose's casts, defaults,
    validators and timestamps (\<open>new_activity\<close>), the five activity routes
    over the collection as a list, Express routing (\<open>first_route\<close>), the
    extension's payload on the wire (\<open>payload_json\<close>).
  \<^item> \<open>Analytics\<close>: the productivity and score routes, the grade, the insights.
  \<^item> \<open>Server\<close>: the app (\<open>app_handle\<close>): mounted routers, root route, 404;
    compositions of the extension with the API.
  \<^item> \<open>Api_Store\<close>: the JSON body parser in front of the app (\<open>app_request\<close>),
    requests served in sequence (\<open>app_run\<close>), and the typing invariant
    \<open>doc_wf\<close> of the stored documents.
  \<^item> \<open>Options\<close>: the options page's settings copy, \<open>loadSettings\<close>,
    \<open>toggleSetting\<close>, \<open>saveSettings\<close> (storage write and \<open>updateSettings\<close>
    message through \<open>dispatch\<close>), \<open>resetSettings\<close>.
  \<^item> \<open>Popup\<close>: the popup's state (\<open>popup\<close>), its panels as records of the
    values its elements show, \<open>init\<close> (\<open>popup_open\<close>), the four control buttons
    (\<open>popup_click\<close>) as exchanges with the background's \<open>handleMessage\<close>
    (\<open>ask\<close>), the score panel fed by the server's answer
    (\<open>loadProductivityScore\<close>), the Pomodoro countdown (\<open>countdown_ticks\<close>, a
    \<^theory_text>\<open>function\<close> terminating by the measure \<open>s + 1\<close>) and the refresh
    condition (\<open>reload_due\<close>).

  \<^medskip>
  \<^bold>\<open>How the model corresponds to the code.\<close> A handler is a function from the
  state to the next state and, when its promise rejects or its listener throws,
  the error (\<open>outcome\<close>); state changes made before a throw are kept, as in
  JavaScript. \<open>Date.now()\<close>, the date, random suffixes, the tabs
  \<open>chrome.tabs.get\<close> returns and the network's state are the event's \<open>env\<close>;
  on the server, the clock and the day of the month are \<open>srv_env\<close>. A message
  from a page is answered by \<open>handleMessage\<close>; a handler that throws never calls
  \<open>sendResponse\<close>, and the sender's code after its \<open>await\<close> does not run.
  The class calls eight methods that \<^verbatim>\<open>src/\<close> does not define
  (\<open>getCustomCategory\<close>, \<open>queueForRetry\<close>, \<open>updateRealTimeAnalytics\<close>,
  \<open>trackNavigation\<close>, \<open>getDailyStats\<close>, \<open>startPomodoroTimer\<close>,
  \<open>getSessionsForDate\<close>, \<open>calculateDailySummary\<close>): the handlers take them as
  the parameter \<open>hooks\<close>; \<open>repo_hooks\<close> is the repository (each call throws
  a TypeError), \<open>spec_hooks tbl\<close> the behaviour the spec describes.

  \<^medskip>
  \<^bold>\<open>What is proved\<close> (claims C1--C39, marked in the theories):
  \<^item> the repository never tracks anything (C1); a tab change ends, stores and
    aggregates the current session first (C2); ending is idempotent (C14);
    system URLs start no session (C15); idle accounting (C16);
  \<^item> invariants of the live session over \<open>reachable\<close> states, by rule induction
    (C3, C10); score bounds and the exact NaN condition (C4--C6);
  \<^item> the classifier refines the spec's first-match classifier (C7) and two dead
    parts of its rules (C12, C13); the daily aggregate refines the
    sum/count/mean summary (C8), and one NaN score loses the day's average for
    the rest of the day (C11); a missing \<open>queueForRetry\<close> counts a session
    twice (C9);
  \<^item> the content script's cumulative reports over-count (C17--C20);
  \<^item> the API: \<open>/user\<close> is unreachable (C21), the extension's payload is stored
    (C22), the legacy \<open>/log\<close> conversion and its failure (C23, C24), score
    bounds and their failure on negative times (C25, C26), the grade equals
    the count of thresholds reached (C27), the productivity window and its
    failure (C28, C29); the typing invariant of the collection under any
    sequence of requests (C39);
  \<^item> across components: a session without host name is lost on the way to the
    API (C30); the API's productivity metrics agree with the extension's daily
    aggregate (C31);
  \<^item> the options page: load-and-save is a round trip (C32), a toggle reaches the
    background (C33);
  \<^item> the popup: its controls agree with the background's settings under any
    run of clicks and ticks (C34), but not in the repository, where its Breaks
    button is inverted (C35); it renders the score route's answer, never the
    breakdown (C36); the countdown terminates after \<open>s + 1\<close> ticks (C37); the
    score is reloaded exactly once in any 30 ticks (C38).
  The spec's worked examples (scoring, classification, daily aggregate) are
  kept as checked lemmas of their theories.

  \<^medskip>
  \<^bold>\<open>Bounds and termination.\<close> Every function is total: structural recursion
  over finite lists, except \<open>countdown_ticks\<close>, whose termination proof uses the
  measure \<open>nat (s + 1)\<close>; no fuel is needed. JavaScript numbers are exact reals
  (faithful for the integer milliseconds, counters and score comparisons the
  code computes), and NaN and the infinities are values of \<open>jsnum\<close>. The popup's
  intervals are taken to tick exactly every 1000 ms.

  \<^medskip>
  \<^bold>\<open>Not modelled.\<close> The interleaving of the handlers' \<open>await\<close>s (handlers
  run to completion one after the other); the HTTP transport, CORS, body
  parsing and MongoDB (the collection is a list in insertion order); the
  percent-decoding of route parameters, IDNA and IPv4 normalisation of the URL
  parser; Mongoose's string cast of non-integral numbers; floating-point
  rounding; time zones; CORS headers and the MongoDB connection; the popup's notifications, error banners, tab creation
  and emoji labels, and the CSS classes the options page sets; the Chrome
  runtime's timing of a message the background never answers.

  \<^medskip>
  \<^bold>\<open>Further work.\<close> The interleaving of \<open>handleTabChange\<close>'s awaits as
  explicit steps (two quick tab changes can end the same session twice); the
  popup's real-time loop over background runs; the break-reminder and
  performance-check timers over runs.
\<close>

end
